theory Spec2Isabelle
  imports Complex_Main "HOL-Library.Char_ord" "HOL-Library.List_Lexorder"
begin

section \<open>Back-adjusted continuous futures series\<close>

text \<open>
  The development follows three scripts of the repository:
  \<^verbatim>\<open>scripts/build-es-1s-continuous.py\<close> (the streaming two-pass builder),
  \<^verbatim>\<open>scripts/build-es-continuous.py\<close> (the in-memory builder that also detects rollovers
  and measures spreads) and \<^verbatim>\<open>scripts/build-es-lt-continuous.py\<close> (the adjuster of the
  auxiliary level series).

  Python floats are modelled as exact real numbers: every statement below about sums and
  differences of prices is a statement about the arithmetic the code writes down, not about
  binary rounding. Timestamps of the streaming builder are the strings of the source file,
  compared as Python compares strings (lexicographically, a proper prefix being smaller).
\<close>

subsection \<open>Errors\<close>

datatype error =
    StopIteration
  | KeyError string
  | IndexError
  | ValueError string
  | SystemExit nat

subsection \<open>The rollover log and the adjustment intervals\<close>

record rollover =
  date :: string
  from_symbol :: string
  to_symbol :: string
  spread :: real

text \<open>
  \<^verbatim>\<open>suffix_sum = [0.0] * (n + 1)\<close> followed by the loop
  \<^verbatim>\<open>for i in range(n - 1, -1, -1): suffix_sum[i] = suffix_sum[i + 1] + rollovers[i]["spread"]\<close>.
\<close>

definition suffix_sum_loop :: "rollover list \<Rightarrow> real list" where
  "suffix_sum_loop rollovers =
     (let n = length rollovers in
      fold (\<lambda>i ss. ss[i := ss ! (i + 1) + spread (rollovers ! i)])
           (rev [0..<n]) (replicate (n + 1) 0))"

definition build_adjustment_intervals :: "rollover list \<Rightarrow> (string \<times> real) list" where
  "build_adjustment_intervals rollovers =
     (if rollovers = [] then [('''', 0)]
      else
        let n = length rollovers;
            suffix_sum = suffix_sum_loop rollovers
        in ('''', - (suffix_sum ! 0)) #
           map (\<lambda>i. (date (rollovers ! i) @ ''T00:00:00.000000000Z'', - (suffix_sum ! (i + 1))))
               [0..<n])"


text \<open>
  A rollover log with two rollovers, spreads \<open>+5\<close> and \<open>-3\<close>, used to run the
  definitions on concrete data.
\<close>

definition example_log :: "rollover list" where
  "example_log =
     [\<lparr>date = ''2024-03-15'', from_symbol = ''ESH4'', to_symbol = ''ESM4'', spread = 5\<rparr>,
      \<lparr>date = ''2024-06-21'', from_symbol = ''ESM4'', to_symbol = ''ESU4'', spread = - 3\<rparr>]"

subsection \<open>The rollover detector of the in-memory builder\<close>

text \<open>
  \<^verbatim>\<open>detect_true_rollovers\<close> first reduces the bars to \<^verbatim>\<open>daily_primary\<close>, one row
  \<open>(date, primary)\<close> per day in date order, and then walks that sequence. The walk is
  modelled on the sequence as the code has it: a calendar date is the number of its day, a
  rollover as detected is the dictionary with the keys \<^verbatim>\<open>date\<close>, \<^verbatim>\<open>from_symbol\<close>
  and \<^verbatim>\<open>to_symbol\<close>.
\<close>

record rollover_event =
  ev_date :: int
  ev_from_symbol :: string
  ev_to_symbol :: string

text \<open>
  One turn of \<^verbatim>\<open>for i in range(1, len(daily_primary))\<close>; the state is
  \<open>(prev_symbol, rollovers)\<close>. \<^verbatim>\<open>daily_primary.iloc[i:i+5]\<close> is
  \<open>take 5 (drop i daily_primary)\<close>.
\<close>

definition detect_step ::
  "(int \<times> string) list \<Rightarrow> nat \<Rightarrow> string \<times> rollover_event list
     \<Rightarrow> string \<times> rollover_event list" where
  "detect_step daily_primary i st =
     (let prev_symbol = fst st;
          rollovers = snd st;
          curr_symbol = snd (daily_primary ! i)
      in if curr_symbol \<noteq> prev_symbol then
           let future = take 5 (drop i daily_primary)
           in if length future \<ge> 2
                 \<and> length (filter (\<lambda>p. snd p = curr_symbol) future) \<ge> 2
              then (curr_symbol,
                    rollovers @ [\<lparr>ev_date = fst (daily_primary ! i),
                                  ev_from_symbol = prev_symbol,
                                  ev_to_symbol = curr_symbol\<rparr>])
              else (prev_symbol, rollovers)
         else (prev_symbol, rollovers))"

text \<open>
  \<^verbatim>\<open>daily_primary["primary"].iloc[0]\<close> raises IndexError on an empty frame.
\<close>

definition detect_true_rollovers :: "(int \<times> string) list \<Rightarrow> error + rollover_event list" where
  "detect_true_rollovers daily_primary =
     (case daily_primary of
        [] \<Rightarrow> Inl IndexError
      | first # _ \<Rightarrow>
          Inr (snd (fold (detect_step daily_primary) [1..<length daily_primary]
                      (snd first, []))))"

subsection \<open>The date filter of the streaming builder\<close>

text \<open>
  \<^verbatim>\<open>main\<close> turns the command-line bounds into comparable strings:
  \<^verbatim>\<open>start_date = args.start + "T" if args.start else None\<close> and
  \<^verbatim>\<open>end_date = args.end + "T99" if args.end else None\<close>. An absent option and the
  empty string are both false in Python.
\<close>

definition truthy :: "string option \<Rightarrow> bool" where
  "truthy s \<longleftrightarrow> (case s of None \<Rightarrow> False | Some v \<Rightarrow> v \<noteq> '''')"

definition start_date_of :: "string option \<Rightarrow> string option" where
  "start_date_of args_start = (if truthy args_start then Some (the args_start @ ''T'') else None)"

definition end_date_of :: "string option \<Rightarrow> string option" where
  "end_date_of args_end = (if truthy args_end then Some (the args_end @ ''T99'') else None)"

text \<open>
  The two tests of both passes, \<^verbatim>\<open>if start_date and ts < start_date\<close> and
  \<^verbatim>\<open>if end_date and ts > end_date\<close>; a row that meets either is counted in
  \<^verbatim>\<open>skipped_date\<close> and left out.
\<close>

definition before_start :: "string option \<Rightarrow> string \<Rightarrow> bool" where
  "before_start start_date ts \<longleftrightarrow> truthy start_date \<and> ts < the start_date"

definition after_end :: "string option \<Rightarrow> string \<Rightarrow> bool" where
  "after_end end_date ts \<longleftrightarrow> truthy end_date \<and> ts > the end_date"

definition passes_date_filter :: "string option \<Rightarrow> string option \<Rightarrow> string \<Rightarrow> bool" where
  "passes_date_filter start_date end_date ts \<longleftrightarrow>
     \<not> before_start start_date ts \<and> \<not> after_end end_date ts"

text \<open>
  The dates of the bounds and of the timestamps are written \<^verbatim>\<open>YYYY-MM-DD\<close>: the year on
  four digits, the month and the day on two, zero-padded. \<open>iso_date\<close> writes a calendar date
  this way and \<open>date_le\<close> is the order of the calendar, against which the comparison of
  strings of the filter is checked.
\<close>

definition digit_char :: "nat \<Rightarrow> char" where
  "digit_char n = ''0123456789'' ! n"

definition pad2 :: "nat \<Rightarrow> string" where
  "pad2 n = [digit_char (n div 10), digit_char (n mod 10)]"

definition pad4 :: "nat \<Rightarrow> string" where
  "pad4 n = pad2 (n div 100) @ pad2 (n mod 100)"

definition iso_date :: "nat \<times> nat \<times> nat \<Rightarrow> string" where
  "iso_date c = (case c of (y, m, d) \<Rightarrow> pad4 y @ ''-'' @ pad2 m @ ''-'' @ pad2 d)"

definition date_le :: "nat \<times> nat \<times> nat \<Rightarrow> nat \<times> nat \<times> nat \<Rightarrow> bool" where
  "date_le a b \<longleftrightarrow>
     (case (a, b) of ((y, m, d), (y', m', d')) \<Rightarrow>
        y < y' \<or> (y = y' \<and> (m < m' \<or> (m = m' \<and> d \<le> d'))))"

definition valid_date :: "nat \<times> nat \<times> nat \<Rightarrow> bool" where
  "valid_date c \<longleftrightarrow>
     (case c of (y, m, d) \<Rightarrow> y < 10000 \<and> 1 \<le> m \<and> m \<le> 12 \<and> 1 \<le> d \<and> d \<le> 31)"

subsection \<open>Reading rows: indexing, dictionaries and number parsing\<close>

text \<open>
  An exception stops the computation it is raised in: \<open>bind_err\<close> runs the rest only on
  a result.
\<close>

definition bind_err :: "error + 'a \<Rightarrow> ('a \<Rightarrow> error + 'b) \<Rightarrow> error + 'b" where
  "bind_err m f = (case m of Inl e \<Rightarrow> Inl e | Inr v \<Rightarrow> f v)"

fun map_err :: "('a \<Rightarrow> error + 'b) \<Rightarrow> 'a list \<Rightarrow> error + 'b list" where
  "map_err f [] = Inr []"
| "map_err f (x # xs) =
     bind_err (f x) (\<lambda>y. bind_err (map_err f xs) (\<lambda>ys. Inr (y # ys)))"

text \<open>\<^verbatim>\<open>row[i]\<close> for an index that is not negative.\<close>

definition index_row :: "'a list \<Rightarrow> nat \<Rightarrow> error + 'a" where
  "index_row row i = (if i < length row then Inr (row ! i) else Inl IndexError)"

text \<open>\<^verbatim>\<open>d[key]\<close> on a dictionary.\<close>

definition dict_get :: "(string \<rightharpoonup> 'v) \<Rightarrow> string \<Rightarrow> error + 'v" where
  "dict_get d key = (case d key of None \<Rightarrow> Inl (KeyError key) | Some v \<Rightarrow> Inr v)"

text \<open>
  \<^verbatim>\<open>float(s)\<close> and \<^verbatim>\<open>int(s)\<close> are functions of the language, not of the repository.
  The model takes them as parameters \<open>fl\<close> and \<open>pint\<close>: the value of the text, or
  \<open>None\<close> where Python raises ValueError.
\<close>

definition parse_float :: "(string \<Rightarrow> real option) \<Rightarrow> string \<Rightarrow> error + real" where
  "parse_float fl s = (case fl s of None \<Rightarrow> Inl (ValueError s) | Some v \<Rightarrow> Inr v)"

definition parse_int :: "(string \<Rightarrow> int option) \<Rightarrow> string \<Rightarrow> error + int" where
  "parse_int pint s = (case pint s of None \<Rightarrow> Inl (ValueError s) | Some v \<Rightarrow> Inr v)"

text \<open>
  \<^verbatim>\<open>col_idx = {name: i for i, name in enumerate(header)}\<close>: a later column of the same
  name replaces an earlier one.
\<close>

definition col_idx :: "string list \<Rightarrow> (string \<rightharpoonup> nat)" where
  "col_idx header = fold (\<lambda>(i, name) m. m(name \<mapsto> i)) (enumerate 0 header) Map.empty"

subsection \<open>The streaming builder: loading the log\<close>

text \<open>
  The rollover log as \<^verbatim>\<open>csv.DictReader\<close> yields it: one dictionary per row.
  \<^verbatim>\<open>load_rollover_log\<close> keeps the order of the file.
\<close>

definition load_rollover_row :: "(string \<Rightarrow> real option) \<Rightarrow> (string \<rightharpoonup> string) \<Rightarrow> error + rollover" where
  "load_rollover_row fl row =
     bind_err (dict_get row ''date'') (\<lambda>d.
     bind_err (dict_get row ''from_symbol'') (\<lambda>f.
     bind_err (dict_get row ''to_symbol'') (\<lambda>t.
     bind_err (dict_get row ''spread'') (\<lambda>s.
     bind_err (parse_float fl s) (\<lambda>sp.
       Inr \<lparr>date = d, from_symbol = f, to_symbol = t, spread = sp\<rparr>)))))"

definition load_rollover_log ::
  "(string \<Rightarrow> real option) \<Rightarrow> (string \<rightharpoonup> string) list \<Rightarrow> error + rollover list" where
  "load_rollover_log fl rows = map_err (load_rollover_row fl) rows"

subsection \<open>The streaming builder: pass 1\<close>

definition hour_key :: "string \<Rightarrow> string" where
  "hour_key ts_str = take 13 ts_str"

definition PROGRESS_INTERVAL :: nat where
  "PROGRESS_INTERVAL = 5000000"

text \<open>
  The progress line, printed every \<open>PROGRESS_INTERVAL\<close> rows, reads
  \<^verbatim>\<open>row[ts_idx][:19]\<close> before anything else is read of the row; it raises on a row that
  is too short and has no other effect on the result.
\<close>

definition progress_line :: "nat \<Rightarrow> string list \<Rightarrow> nat \<Rightarrow> error + unit" where
  "progress_line row_count row ts_idx =
     (if row_count mod PROGRESS_INTERVAL = 0
      then bind_err (index_row row ts_idx) (\<lambda>_. Inr ())
      else Inr ())"

text \<open>
  \<^verbatim>\<open>hourly_volume = defaultdict(lambda: defaultdict(float))\<close>: dictionaries keep the
  order of insertion, which decides the primary contract among equal volumes, so they are
  association lists. \<^verbatim>\<open>d[key] += vol\<close> on a \<^verbatim>\<open>defaultdict(float)\<close>:
\<close>

fun add_volume :: "string \<Rightarrow> real \<Rightarrow> (string \<times> real) list \<Rightarrow> (string \<times> real) list" where
  "add_volume symbol vol [] = [(symbol, 0 + vol)]"
| "add_volume symbol vol ((s, v) # rest) =
     (if s = symbol then (s, v + vol) # rest else (s, v) # add_volume symbol vol rest)"

fun add_hourly ::
  "string \<Rightarrow> string \<Rightarrow> real \<Rightarrow> (string \<times> (string \<times> real) list) list
     \<Rightarrow> (string \<times> (string \<times> real) list) list" where
  "add_hourly hk symbol vol [] = [(hk, add_volume symbol vol [])]"
| "add_hourly hk symbol vol ((k, symbols) # rest) =
     (if k = hk then (k, add_volume symbol vol symbols) # rest
      else (k, symbols) # add_hourly hk symbol vol rest)"

text \<open>
  \<^verbatim>\<open>max(symbols, key=symbols.get)\<close>: the first key, in the order of insertion, whose
  volume no other key exceeds.
\<close>

fun best_sym :: "(string \<times> real) list \<Rightarrow> string" where
  "best_sym [] = ''''"
| "best_sym ((s, v) # rest) =
     fst (fold (\<lambda>(s', v') (bs, bv). if v' > bv then (s', v') else (bs, bv)) rest (s, v))"

record pass1_state =
  p1_row_count :: nat
  p1_skipped_spreads :: nat
  p1_skipped_date :: nat
  hourly_volume :: "(string \<times> (string \<times> real) list) list"

definition pass1_row ::
  "(string \<Rightarrow> real option) \<Rightarrow> nat \<Rightarrow> nat \<Rightarrow> nat \<Rightarrow> string option \<Rightarrow> string option
     \<Rightarrow> string list \<Rightarrow> pass1_state \<Rightarrow> error + pass1_state" where
  "pass1_row fl ts_idx vol_idx sym_idx start_date end_date row st0 =
     (let st = st0\<lparr>p1_row_count := p1_row_count st0 + 1\<rparr> in
      bind_err (progress_line (p1_row_count st) row ts_idx) (\<lambda>_.
      bind_err (index_row row sym_idx) (\<lambda>symbol.
        if CHR ''-'' \<in> set symbol
        then Inr (st\<lparr>p1_skipped_spreads := p1_skipped_spreads st + 1\<rparr>)
        else
          bind_err (index_row row ts_idx) (\<lambda>ts.
            if before_start start_date ts
            then Inr (st\<lparr>p1_skipped_date := p1_skipped_date st + 1\<rparr>)
            else if after_end end_date ts
            then Inr (st\<lparr>p1_skipped_date := p1_skipped_date st + 1\<rparr>)
            else
              bind_err (index_row row vol_idx) (\<lambda>v.
              bind_err (parse_float fl v) (\<lambda>vol.
                Inr (st\<lparr>hourly_volume :=
                          add_hourly (hour_key ts) symbol vol (hourly_volume st)\<rparr>)))))))"

fun pass1_loop ::
  "(string list \<Rightarrow> pass1_state \<Rightarrow> error + pass1_state) \<Rightarrow> string list list \<Rightarrow> pass1_state
     \<Rightarrow> error + pass1_state" where
  "pass1_loop step [] st = Inr st"
| "pass1_loop step (row # rows) st = bind_err (step row st) (pass1_loop step rows)"

text \<open>
  The input file is the list of its rows as \<^verbatim>\<open>csv.reader\<close> yields them, the header
  first; \<^verbatim>\<open>next(reader)\<close> raises StopIteration on a file with no row. The result is the
  dictionary \<^verbatim>\<open>primary_per_hour\<close>.
\<close>

definition pass1_primary_contracts ::
  "(string \<Rightarrow> real option) \<Rightarrow> string list list \<Rightarrow> string option \<Rightarrow> string option
     \<Rightarrow> error + (string \<rightharpoonup> string)" where
  "pass1_primary_contracts fl input_file start_date end_date =
     (case input_file of
        [] \<Rightarrow> Inl StopIteration
      | header # rows \<Rightarrow>
          bind_err (dict_get (col_idx header) ''ts_event'') (\<lambda>ts_idx.
          bind_err (dict_get (col_idx header) ''volume'') (\<lambda>vol_idx.
          bind_err (dict_get (col_idx header) ''symbol'') (\<lambda>sym_idx.
          bind_err (pass1_loop (pass1_row fl ts_idx vol_idx sym_idx start_date end_date) rows
                      \<lparr>p1_row_count = 0, p1_skipped_spreads = 0, p1_skipped_date = 0,
                       hourly_volume = []\<rparr>) (\<lambda>st.
            Inr (map_of (map (\<lambda>(hk, symbols). (hk, best_sym symbols)) (hourly_volume st))))))))"

subsection \<open>The streaming builder: pass 2\<close>

record columns =
  ts_idx :: nat
  open_idx :: nat
  high_idx :: nat
  low_idx :: nat
  close_idx :: nat
  vol_idx :: nat
  sym_idx :: nat

definition find_columns :: "string list \<Rightarrow> error + columns" where
  "find_columns header =
     bind_err (dict_get (col_idx header) ''ts_event'') (\<lambda>t.
     bind_err (dict_get (col_idx header) ''open'') (\<lambda>o_i.
     bind_err (dict_get (col_idx header) ''high'') (\<lambda>h_i.
     bind_err (dict_get (col_idx header) ''low'') (\<lambda>l_i.
     bind_err (dict_get (col_idx header) ''close'') (\<lambda>c_i.
     bind_err (dict_get (col_idx header) ''volume'') (\<lambda>v_i.
     bind_err (dict_get (col_idx header) ''symbol'') (\<lambda>s_i.
       Inr \<lparr>ts_idx = t, open_idx = o_i, high_idx = h_i, low_idx = l_i, close_idx = c_i,
            vol_idx = v_i, sym_idx = s_i\<rparr>)))))))"

text \<open>
  The forward scan
  \<^verbatim>\<open>while interval_idx + 1 < len(intervals) and ts >= intervals[interval_idx + 1][0]: interval_idx += 1\<close>.
\<close>

function advance :: "(string \<times> real) list \<Rightarrow> string \<Rightarrow> nat \<Rightarrow> nat" where
  "advance intervals ts interval_idx =
     (if interval_idx + 1 < length intervals \<and> ts \<ge> fst (intervals ! (interval_idx + 1))
      then advance intervals ts (interval_idx + 1)
      else interval_idx)"
  by pat_completeness auto
termination
  by (relation "measure (\<lambda>(intervals, ts, interval_idx). length intervals - interval_idx)") auto

declare advance.simps [simp del]

text \<open>
  The state of the loop of pass 2: the counters, the interval index, and \<open>fout\<close>, the
  rows written to the output file so far.
\<close>

record pass2_state =
  row_count :: nat
  written :: nat
  skipped_spreads :: nat
  skipped_non_primary :: nat
  skipped_date :: nat
  interval_idx :: nat
  fout :: "string list list"

text \<open>
  \<^verbatim>\<open>f"{x:.9f}"\<close> is the parameter \<open>fmt\<close>. The row written for a bar that is kept:
  the prices are read in the order open, high, low, close, then the volume text is read as
  the row is assembled.
\<close>

definition adjusted_row ::
  "(string \<Rightarrow> real option) \<Rightarrow> (real \<Rightarrow> string) \<Rightarrow> columns \<Rightarrow> real \<Rightarrow> string \<Rightarrow> string
     \<Rightarrow> string list \<Rightarrow> error + string list" where
  "adjusted_row fl fmt cols adj ts symbol row =
     bind_err (bind_err (index_row row (open_idx cols)) (parse_float fl)) (\<lambda>op.
     bind_err (bind_err (index_row row (high_idx cols)) (parse_float fl)) (\<lambda>hi.
     bind_err (bind_err (index_row row (low_idx cols)) (parse_float fl)) (\<lambda>lo.
     bind_err (bind_err (index_row row (close_idx cols)) (parse_float fl)) (\<lambda>cl.
     bind_err (index_row row (vol_idx cols)) (\<lambda>vol.
       Inr [ts, fmt (op + adj), fmt (hi + adj), fmt (lo + adj), fmt (cl + adj), vol,
            ''ES_continuous'', symbol])))))"

definition pass2_row ::
  "(string \<Rightarrow> real option) \<Rightarrow> (real \<Rightarrow> string) \<Rightarrow> columns \<Rightarrow> (string \<rightharpoonup> string)
     \<Rightarrow> (string \<times> real) list \<Rightarrow> string option \<Rightarrow> string option
     \<Rightarrow> string list \<Rightarrow> pass2_state \<Rightarrow> error + pass2_state" where
  "pass2_row fl fmt cols primary_per_hour intervals start_date end_date row st0 =
     (let st = st0\<lparr>row_count := row_count st0 + 1\<rparr> in
      bind_err (progress_line (row_count st) row (ts_idx cols)) (\<lambda>_.
      bind_err (index_row row (sym_idx cols)) (\<lambda>symbol.
        if CHR ''-'' \<in> set symbol
        then Inr (st\<lparr>skipped_spreads := skipped_spreads st + 1\<rparr>)
        else
          bind_err (index_row row (ts_idx cols)) (\<lambda>ts.
            if before_start start_date ts
            then Inr (st\<lparr>skipped_date := skipped_date st + 1\<rparr>)
            else if after_end end_date ts
            then Inr (st\<lparr>skipped_date := skipped_date st + 1\<rparr>)
            else
              let primary = primary_per_hour (hour_key ts) in
              if primary = None \<or> Some symbol \<noteq> primary
              then Inr (st\<lparr>skipped_non_primary := skipped_non_primary st + 1\<rparr>)
              else
                let idx = advance intervals ts (interval_idx st) in
                bind_err (index_row intervals idx) (\<lambda>iv.
                bind_err (adjusted_row fl fmt cols (snd iv) ts symbol row) (\<lambda>out.
                  Inr (st\<lparr>interval_idx := idx,
                          fout := fout st @ [out],
                          written := written st + 1\<rparr>)))))))"

text \<open>
  The loop over the rows. An exception leaves the loop at once; what has been written stays
  in the file, which the \<^verbatim>\<open>with\<close> statement closes on the way out. The result is the
  state at the end, or at the row that raised, with the exception if there was one.
\<close>

fun pass2_loop ::
  "(string list \<Rightarrow> pass2_state \<Rightarrow> error + pass2_state) \<Rightarrow> string list list \<Rightarrow> pass2_state
     \<Rightarrow> pass2_state \<times> error option" where
  "pass2_loop step [] st = (st, None)"
| "pass2_loop step (row # rows) st =
     (case step row st of
        Inl e \<Rightarrow> (st, Some e)
      | Inr st' \<Rightarrow> pass2_loop step rows st')"

definition output_header :: "string list" where
  "output_header = [''ts_event'', ''open'', ''high'', ''low'', ''close'', ''volume'', ''symbol'',
                    ''contract'']"

text \<open>
  \<^verbatim>\<open>pass2_filter_adjust_write\<close> returns the number of rows written, or raises. The
  model returns with it the content of the output file, which is opened for writing (and
  so emptied) before the header of the input is read.
\<close>

definition pass2_filter_adjust_write ::
  "(string \<Rightarrow> real option) \<Rightarrow> (real \<Rightarrow> string) \<Rightarrow> string list list \<Rightarrow> (string \<rightharpoonup> string)
     \<Rightarrow> (string \<times> real) list \<Rightarrow> string option \<Rightarrow> string option
     \<Rightarrow> string list list \<times> (error + nat)" where
  "pass2_filter_adjust_write fl fmt input_file primary_per_hour intervals start_date end_date =
     (case input_file of
        [] \<Rightarrow> ([], Inl StopIteration)
      | header # rows \<Rightarrow>
          (case find_columns header of
             Inl e \<Rightarrow> ([], Inl e)
           | Inr cols \<Rightarrow>
               (case pass2_loop
                       (pass2_row fl fmt cols primary_per_hour intervals start_date end_date)
                       rows
                       \<lparr>row_count = 0, written = 0, skipped_spreads = 0,
                        skipped_non_primary = 0, skipped_date = 0, interval_idx = 0,
                        fout = [output_header]\<rparr> of
                  (st, Some e) \<Rightarrow> (fout st, Inl e)
                | (st, None) \<Rightarrow> (fout st, Inr (written st)))))"

subsection \<open>The streaming builder: main\<close>

text \<open>
  The files: \<open>None\<close> is a path at which no file exists. \<^verbatim>\<open>sys.exit(1)\<close> is
  \<open>SystemExit 1\<close>; any exception that reaches the top ends the process with a status
  that is not zero as well. The result is the exception or the number of rows written,
  and the output file as the run leaves it (\<open>output0\<close> is what was there before). The
  verification pass and the report only read and print.
\<close>

definition main ::
  "(string \<Rightarrow> real option) \<Rightarrow> (real \<Rightarrow> string) \<Rightarrow> string option \<Rightarrow> string option
     \<Rightarrow> string list list option \<Rightarrow> (string \<rightharpoonup> string) list option
     \<Rightarrow> string list list option
     \<Rightarrow> (error + nat) \<times> string list list option" where
  "main fl fmt args_start args_end ohlcv_file rollover_log output0 =
     (let start_date = start_date_of args_start;
          end_date = end_date_of args_end
      in case ohlcv_file of
           None \<Rightarrow> (Inl (SystemExit 1), output0)
         | Some input_file \<Rightarrow>
             (case rollover_log of
                None \<Rightarrow> (Inl (SystemExit 1), output0)
              | Some log_rows \<Rightarrow>
                  (case load_rollover_log fl log_rows of
                     Inl e \<Rightarrow> (Inl e, output0)
                   | Inr rollovers \<Rightarrow>
                       let intervals = build_adjustment_intervals rollovers in
                       (case pass1_primary_contracts fl input_file start_date end_date of
                          Inl e \<Rightarrow> (Inl e, output0)
                        | Inr primary_per_hour \<Rightarrow>
                            let (out, res) =
                              pass2_filter_adjust_write fl fmt input_file primary_per_hour
                                intervals start_date end_date
                            in (res, Some out)))))"

subsection \<open>The adjuster of the auxiliary level series\<close>

text \<open>
  \<^verbatim>\<open>load_rollovers\<close> of \<^verbatim>\<open>build-es-lt-continuous.py\<close> reads the same log, adds to each
  rollover the instant of its switch in milliseconds since the epoch (midnight UTC at the
  start of its date), and sorts by that instant. The conversion of the date text,
  \<^verbatim>\<open>datetime.strptime(date_str, "%Y-%m-%d")\<close> made UTC and turned into milliseconds, is
  the parameter \<open>midnight_ms\<close> (\<open>None\<close> where strptime raises).
\<close>

record lt_rollover = rollover +
  switch_ms :: int

definition load_lt_row ::
  "(string \<Rightarrow> real option) \<Rightarrow> (string \<Rightarrow> int option) \<Rightarrow> (string \<rightharpoonup> string)
     \<Rightarrow> error + lt_rollover" where
  "load_lt_row fl midnight_ms row =
     bind_err (dict_get row ''date'') (\<lambda>date_str.
     bind_err (dict_get row ''spread'') (\<lambda>s.
     bind_err (parse_float fl s) (\<lambda>sp.
     bind_err (case midnight_ms date_str of
                 None \<Rightarrow> Inl (ValueError date_str) | Some ms \<Rightarrow> Inr ms) (\<lambda>ms.
     bind_err (dict_get row ''from_symbol'') (\<lambda>f.
     bind_err (dict_get row ''to_symbol'') (\<lambda>t.
       Inr \<lparr>date = date_str, from_symbol = f, to_symbol = t, spread = sp,
            switch_ms = ms\<rparr>))))))"

definition load_rollovers ::
  "(string \<Rightarrow> real option) \<Rightarrow> (string \<Rightarrow> int option) \<Rightarrow> (string \<rightharpoonup> string) list
     \<Rightarrow> error + lt_rollover list" where
  "load_rollovers fl midnight_ms rows =
     bind_err (map_err (load_lt_row fl midnight_ms) rows) (\<lambda>rollovers.
       Inr (sort_key switch_ms rollovers))"

definition compute_adjustment :: "int \<Rightarrow> lt_rollover list \<Rightarrow> real" where
  "compute_adjustment timestamp_ms rollovers =
     fold (\<lambda>r adjustment. if timestamp_ms < switch_ms r then adjustment - spread r
                            else adjustment)
          rollovers 0"

text \<open>
  \<^verbatim>\<open>round(x, ndigits)\<close> on exact numbers: the nearest multiple of \<open>10\<^sup>-\<^sup>n\<close>, and of
  two nearest ones the even one.
\<close>

definition round_half_even :: "real \<Rightarrow> int" where
  "round_half_even x =
     (let f = \<lfloor>x\<rfloor>; d = x - of_int f
      in if d < 1 / 2 then f
         else if d > 1 / 2 then f + 1
         else if even f then f else f + 1)"

definition py_round :: "real \<Rightarrow> nat \<Rightarrow> real" where
  "py_round x ndigits = of_int (round_half_even (x * 10 ^ ndigits)) / 10 ^ ndigits"

text \<open>
  A row of the level series as \<^verbatim>\<open>csv.DictReader\<close> yields it, and the row written for
  it: the three texts passed through and the five adjusted levels.
\<close>

record lt_out =
  datetime :: string
  unix_timestamp :: string
  sentiment :: string
  levels :: "real list"

definition level_keys :: "string list" where
  "level_keys = [''level_1'', ''level_2'', ''level_3'', ''level_4'', ''level_5'']"

definition adjust_lt_row ::
  "(string \<Rightarrow> real option) \<Rightarrow> (string \<Rightarrow> int option) \<Rightarrow> lt_rollover list
     \<Rightarrow> (string \<rightharpoonup> string) \<Rightarrow> error + lt_out" where
  "adjust_lt_row fl pint rollovers row =
     bind_err (dict_get row ''unix_timestamp'') (\<lambda>u.
     bind_err (parse_int pint u) (\<lambda>ts_ms.
       let adj = compute_adjustment ts_ms rollovers in
       bind_err (map_err (\<lambda>key. bind_err (dict_get row key) (\<lambda>s.
                                bind_err (parse_float fl s) (\<lambda>raw.
                                  Inr (py_round (raw + adj) 2))))
                   level_keys) (\<lambda>lv.
       bind_err (dict_get row ''datetime'') (\<lambda>dt.
       bind_err (dict_get row ''sentiment'') (\<lambda>se.
         Inr \<lparr>datetime = dt, unix_timestamp = u, sentiment = se, levels = lv\<rparr>)))))"

text \<open>
  \<^verbatim>\<open>main\<close> of the adjuster: the rows written, or the exception that ended the run.
\<close>

definition lt_main ::
  "(string \<Rightarrow> real option) \<Rightarrow> (string \<Rightarrow> int option) \<Rightarrow> (string \<Rightarrow> int option)
     \<Rightarrow> (string \<rightharpoonup> string) list \<Rightarrow> (string \<rightharpoonup> string) list \<Rightarrow> error + lt_out list" where
  "lt_main fl pint midnight_ms log_rows lt_rows =
     bind_err (load_rollovers fl midnight_ms log_rows) (\<lambda>rollovers.
       map_err (adjust_lt_row fl pint rollovers) lt_rows)"

subsection \<open>Plain decimals\<close>

text \<open>
  For running the models on concrete files, the parameters are instantiated with readers
  and a writer of plain decimal numerals: an optional minus sign, digits, and for a float an
  optional point and more digits. On such text \<^verbatim>\<open>int\<close> and \<^verbatim>\<open>float\<close> return the number it
  denotes, and \<^verbatim>\<open>f"{x:.9f}"\<close> writes the number rounded to nine decimals. Text of any
  other form is not a number here.
\<close>

definition digit_val :: "char \<Rightarrow> nat option" where
  "digit_val = map_of [(CHR ''0'', 0), (CHR ''1'', 1), (CHR ''2'', 2), (CHR ''3'', 3),
                       (CHR ''4'', 4), (CHR ''5'', 5), (CHR ''6'', 6), (CHR ''7'', 7),
                       (CHR ''8'', 8), (CHR ''9'', 9)]"

fun digits_val :: "string \<Rightarrow> nat \<Rightarrow> nat option" where
  "digits_val [] acc = Some acc"
| "digits_val (c # cs) acc =
     (case digit_val c of None \<Rightarrow> None | Some d \<Rightarrow> digits_val cs (10 * acc + d))"

definition dec_nat :: "string \<Rightarrow> nat option" where
  "dec_nat s = (if s = [] then None else digits_val s 0)"

definition dec_int :: "string \<Rightarrow> int option" where
  "dec_int s =
     (case s of
        CHR ''-'' # r \<Rightarrow> map_option (\<lambda>n. - int n) (dec_nat r)
      | _ \<Rightarrow> map_option int (dec_nat s))"

definition dec_unsigned :: "string \<Rightarrow> real option" where
  "dec_unsigned s =
     (let ip = takeWhile (\<lambda>c. c \<noteq> CHR ''.'') s;
          fp = drop 1 (dropWhile (\<lambda>c. c \<noteq> CHR ''.'') s)
      in if ip = [] \<and> fp = [] then None
         else case (digits_val ip 0, digits_val fp 0) of
                (Some a, Some b) \<Rightarrow> Some (real a + real b / 10 ^ length fp)
              | _ \<Rightarrow> None)"

definition dec_float :: "string \<Rightarrow> real option" where
  "dec_float s =
     (case s of
        CHR ''-'' # r \<Rightarrow> map_option uminus (dec_unsigned r)
      | _ \<Rightarrow> dec_unsigned s)"

fun show_nat :: "nat \<Rightarrow> string" where
  "show_nat n =
     (if n < 10 then [''0123456789'' ! n]
      else show_nat (n div 10) @ [''0123456789'' ! (n mod 10)])"

declare show_nat.simps [simp del]

text \<open>The fraction is filled with zeros on the left to nine digits.\<close>

definition pad9 :: "string \<Rightarrow> string" where
  "pad9 s = drop (length s) ''000000000'' @ s"

definition fmt_nat9 :: "nat \<Rightarrow> string" where
  "fmt_nat9 n = show_nat (n div 10 ^ 9) @ ''.'' @ pad9 (show_nat (n mod 10 ^ 9))"

definition fmt9 :: "real \<Rightarrow> string" where
  "fmt9 x =
     (if x < 0 then ''-'' else '''') @ fmt_nat9 (nat (round_half_even (\<bar>x\<bar> * 10 ^ 9)))"

text \<open>
  Midnight UTC of a date written \<open>YYYY-MM-DD\<close>, in milliseconds since the epoch: the
  days of the proleptic Gregorian calendar counted from 1970-01-01.
\<close>

definition days_from_civil :: "int \<Rightarrow> int \<Rightarrow> int \<Rightarrow> int" where
  "days_from_civil y0 m d =
     (let y = (if m \<le> 2 then y0 - 1 else y0);
          era = y div 400;
          yoe = y - era * 400;
          doy = (153 * (if m > 2 then m - 3 else m + 9) + 2) div 5 + d - 1;
          doe = yoe * 365 + yoe div 4 - yoe div 100 + doy
      in era * 146097 + doe - 719468)"

definition iso_midnight_ms :: "string \<Rightarrow> int option" where
  "iso_midnight_ms s =
     (if length s = 10 \<and> s ! 4 = CHR ''-'' \<and> s ! 7 = CHR ''-'' then
        case (dec_nat (take 4 s), dec_nat (take 2 (drop 5 s)), dec_nat (drop 8 s)) of
          (Some y, Some m, Some d) \<Rightarrow>
            if 1 \<le> m \<and> m \<le> 12 \<and> 1 \<le> d \<and> d \<le> 31
            then Some (days_from_civil (int y) (int m) (int d) * 86400000)
            else None
        | _ \<Rightarrow> None
      else None)"

subsection \<open>Example files\<close>

text \<open>
  A log of one rollover, from ESH4 to ESM4 on 2024-03-15, with the spread 56.125 (the median
  of an even number of quarter-point spreads can fall on an eighth).
\<close>

definition example_log_rows :: "(string \<rightharpoonup> string) list" where
  "example_log_rows =
     [[''date'' \<mapsto> ''2024-03-15'', ''from_symbol'' \<mapsto> ''ESH4'', ''to_symbol'' \<mapsto> ''ESM4'',
       ''spread'' \<mapsto> ''56.125'']]"

definition example_lt_rollovers :: "lt_rollover list" where
  "example_lt_rollovers =
     [\<lparr>date = ''2024-03-15'', from_symbol = ''ESH4'', to_symbol = ''ESM4'', spread = 56.125,
       switch_ms = 1710460800000\<rparr>]"

text \<open>
  Two rows of the level series: one at 2024-03-14 10:00 UTC, before the switch, and one at
  the instant of the switch, 2024-03-15 00:00 UTC.
\<close>

definition lt_row_before :: "string \<rightharpoonup> string" where
  "lt_row_before =
     [''datetime'' \<mapsto> ''2024-03-14 10:00:00'', ''unix_timestamp'' \<mapsto> ''1710410400000'',
      ''sentiment'' \<mapsto> ''BULLISH'', ''level_1'' \<mapsto> ''5200.00'', ''level_2'' \<mapsto> ''5190.50'',
      ''level_3'' \<mapsto> ''5180.25'', ''level_4'' \<mapsto> ''5170.00'', ''level_5'' \<mapsto> ''5160.75'']"

definition lt_row_at_switch :: "string \<rightharpoonup> string" where
  "lt_row_at_switch =
     [''datetime'' \<mapsto> ''2024-03-15 00:00:00'', ''unix_timestamp'' \<mapsto> ''1710460800000'',
      ''sentiment'' \<mapsto> ''BEARISH'', ''level_1'' \<mapsto> ''5255.125'', ''level_2'' \<mapsto> ''5250.00'',
      ''level_3'' \<mapsto> ''5245.00'', ''level_4'' \<mapsto> ''5240.00'', ''level_5'' \<mapsto> ''5235.00'']"

subsection \<open>What pass 2 is meant to write\<close>

text \<open>
  The bars that pass 2 keeps: rows with a symbol that is no calendar spread, inside the date
  range, whose symbol is the primary contract of their hour.
\<close>

definition kept ::
  "columns \<Rightarrow> (string \<rightharpoonup> string) \<Rightarrow> string option \<Rightarrow> string option \<Rightarrow> string list \<Rightarrow> bool" where
  "kept cols primary_per_hour start_date end_date row \<longleftrightarrow>
     sym_idx cols < length row \<and> CHR ''-'' \<notin> set (row ! sym_idx cols) \<and>
     ts_idx cols < length row \<and>
     passes_date_filter start_date end_date (row ! ts_idx cols) \<and>
     primary_per_hour (hour_key (row ! ts_idx cols)) = Some (row ! sym_idx cols)"

text \<open>A row has the four prices as numbers, and a volume column.\<close>

definition parses :: "(string \<Rightarrow> real option) \<Rightarrow> columns \<Rightarrow> string list \<Rightarrow> bool" where
  "parses fl cols row \<longleftrightarrow>
     open_idx cols < length row \<and> fl (row ! open_idx cols) \<noteq> None \<and>
     high_idx cols < length row \<and> fl (row ! high_idx cols) \<noteq> None \<and>
     low_idx cols < length row \<and> fl (row ! low_idx cols) \<noteq> None \<and>
     close_idx cols < length row \<and> fl (row ! close_idx cols) \<noteq> None \<and>
     vol_idx cols < length row"

definition price :: "(string \<Rightarrow> real option) \<Rightarrow> string list \<Rightarrow> nat \<Rightarrow> real" where
  "price fl row i = the (fl (row ! i))"

text \<open>
  The adjustment in force at a timestamp: that of the last interval, scanning from the
  first, whose boundary is not after the timestamp.
\<close>

definition adjustment_at :: "(string \<times> real) list \<Rightarrow> string \<Rightarrow> real" where
  "adjustment_at intervals ts = snd (intervals ! advance intervals ts 0)"

text \<open>The continuous bar of a row under an adjustment.\<close>

definition continuous_row ::
  "(string \<Rightarrow> real option) \<Rightarrow> (real \<Rightarrow> string) \<Rightarrow> columns \<Rightarrow> real \<Rightarrow> string list \<Rightarrow> string list" where
  "continuous_row fl fmt cols adj row =
     [row ! ts_idx cols,
      fmt (price fl row (open_idx cols) + adj),
      fmt (price fl row (high_idx cols) + adj),
      fmt (price fl row (low_idx cols) + adj),
      fmt (price fl row (close_idx cols) + adj),
      row ! vol_idx cols,
      ''ES_continuous'',
      row ! sym_idx cols]"

subsection \<open>The in-memory builder: bars, spreads and the back-adjustment\<close>

text \<open>
  A row of the data frame \<^verbatim>\<open>df\<close>. \<^verbatim>\<open>ts_event\<close> is a \<^verbatim>\<open>pd.Timestamp\<close>, counted
  here in nanoseconds since the epoch; the frame is a list of bars in the order of its rows.
\<close>

record bar =
  ts_event :: int
  bar_open :: real
  bar_high :: real
  bar_low :: real
  bar_close :: real
  bar_volume :: real
  bar_symbol :: string

text \<open>
  A rollover with the keys that \<^verbatim>\<open>compute_rollover_spreads\<close> adds:
  \<^verbatim>\<open>spread\<close>, \<^verbatim>\<open>overlap_bars\<close>, \<^verbatim>\<open>spread_min\<close> and \<^verbatim>\<open>spread_max\<close>.
\<close>

record measured_rollover = rollover_event +
  ev_spread :: real
  overlap_bars :: nat
  spread_min :: real
  spread_max :: real

text \<open>
  \<^verbatim>\<open>pd.Timestamp(str(r["date"]), tz="UTC")\<close>, midnight at the start of the day, and
  \<^verbatim>\<open>pd.Timedelta("12h")\<close>.
\<close>

definition day_start :: "int \<Rightarrow> int" where
  "day_start d = d * 86400000000000"

definition twelve_hours :: int where
  "twelve_hours = 43200000000000"

text \<open>\<^verbatim>\<open>find_rollover_minute\<close> returns the midnight of the rollover date.\<close>

definition find_rollover_minute :: "'a rollover_event_scheme \<Rightarrow> int" where
  "find_rollover_minute r = day_start (ev_date r)"

text \<open>
  The back-adjustment of \<^verbatim>\<open>build_continuous_series\<close>, on the frame \<^verbatim>\<open>continuous\<close> of
  the bars it has kept: for each rollover, the latest first, the spread is subtracted from the
  four prices of every bar before the switch.
\<close>

definition subtract_spread :: "real \<Rightarrow> bar \<Rightarrow> bar" where
  "subtract_spread s b =
     b\<lparr>bar_open := bar_open b - s, bar_high := bar_high b - s,
       bar_low := bar_low b - s, bar_close := bar_close b - s\<rparr>"

definition back_adjust :: "measured_rollover list \<Rightarrow> bar list \<Rightarrow> bar list" where
  "back_adjust rollovers continuous_df =
     fold (\<lambda>r bars.
             map (\<lambda>b. if ts_event b < find_rollover_minute r then subtract_spread (ev_spread r) b
                       else b) bars)
          (rev rollovers) continuous_df"

text \<open>
  A source file around the rollover of the example log. ESH4 is the primary contract of the
  last hour of 2024-03-14 and still of the first hour of 2024-03-15, the day of the
  rollover; ESM4 is primary from 01:00 on. One row is a calendar spread.
\<close>

definition example_header :: "string list" where
  "example_header = [''ts_event'', ''open'', ''high'', ''low'', ''close'', ''volume'', ''symbol'']"

definition row_h4_before :: "string list" where
  "row_h4_before = [''2024-03-14T23:59:59.000000000Z'', ''5200.00'', ''5200.50'', ''5199.75'',
                    ''5200.25'', ''12'', ''ESH4'']"

definition row_m4_before :: "string list" where
  "row_m4_before = [''2024-03-14T23:59:59.000000000Z'', ''5256.00'', ''5256.50'', ''5255.75'',
                    ''5256.25'', ''3'', ''ESM4'']"

definition row_h4_after :: "string list" where
  "row_h4_after = [''2024-03-15T00:00:00.000000000Z'', ''5200.25'', ''5200.75'', ''5200.00'',
                   ''5200.50'', ''9'', ''ESH4'']"

definition row_spread :: "string list" where
  "row_spread = [''2024-03-15T00:00:00.000000000Z'', ''56.00'', ''56.25'', ''56.00'',
                 ''56.25'', ''1'', ''ESH4-ESM4'']"

definition row_m4_after :: "string list" where
  "row_m4_after = [''2024-03-15T01:00:00.000000000Z'', ''5257.00'', ''5257.25'', ''5256.75'',
                   ''5257.00'', ''20'', ''ESM4'']"

definition example_file :: "string list list" where
  "example_file = [example_header, row_h4_before, row_m4_before, row_h4_after, row_spread,
                   row_m4_after]"

definition example_output :: "string list list" where
  "example_output =
     [output_header,
      [''2024-03-14T23:59:59.000000000Z'', ''5143.875000000'', ''5144.375000000'',
       ''5143.625000000'', ''5144.125000000'', ''12'', ''ES_continuous'', ''ESH4''],
      [''2024-03-15T00:00:00.000000000Z'', ''5200.250000000'', ''5200.750000000'',
       ''5200.000000000'', ''5200.500000000'', ''9'', ''ES_continuous'', ''ESH4''],
      [''2024-03-15T01:00:00.000000000Z'', ''5257.000000000'', ''5257.250000000'',
       ''5256.750000000'', ''5257.000000000'', ''20'', ''ES_continuous'', ''ESM4'']]"

text \<open>
  The columns of the example file, the primary contracts pass 1 finds in it, and the
  intervals of the example log.
\<close>

definition example_cols :: columns where
  "example_cols = \<lparr>ts_idx = 0, open_idx = 1, high_idx = 2, low_idx = 3, close_idx = 4,
                    vol_idx = 5, sym_idx = 6\<rparr>"

definition example_pph :: "string \<rightharpoonup> string" where
  "example_pph = [''2024-03-15T01'' \<mapsto> ''ESM4'', ''2024-03-15T00'' \<mapsto> ''ESH4'',
                  ''2024-03-14T23'' \<mapsto> ''ESH4'']"

definition example_rollovers :: "rollover list" where
  "example_rollovers =
     [\<lparr>date = ''2024-03-15'', from_symbol = ''ESH4'', to_symbol = ''ESM4'', spread = 56.125\<rparr>]"

definition example_intervals :: "(string \<times> real) list" where
  "example_intervals = [('''', - 56.125), (''2024-03-15T00:00:00.000000000Z'', 0)]"

text \<open>
  Three more files. In the first the second bar of ESH4 has a high that is no number. In the
  second the calendar-spread row has no number in any price column and the row of ESM4, which
  is not primary in its hour, has a close that is no number. The third has no rollover in
  its log and is the first two rows of the example.
\<close>

definition row_h4_bad :: "string list" where
  "row_h4_bad = [''2024-03-15T00:00:00.000000000Z'', ''5200.25'', ''n/a'', ''5200.00'',
                 ''5200.50'', ''9'', ''ESH4'']"

definition bad_file :: "string list list" where
  "bad_file = [example_header, row_h4_before, row_h4_bad, row_m4_after]"

definition row_spread_garbage :: "string list" where
  "row_spread_garbage = [''2024-03-15T00:00:00.000000000Z'', ''x'', ''x'', ''x'', ''x'', ''x'',
                         ''ESH4-ESM4'']"

definition row_m4_garbage :: "string list" where
  "row_m4_garbage = [''2024-03-14T23:59:59.000000000Z'', ''5256.00'', ''5256.50'', ''5255.75'',
                     ''bad'', ''3'', ''ESM4'']"

definition tolerated_file :: "string list list" where
  "tolerated_file = [example_header, row_h4_before, row_m4_garbage, row_spread_garbage]"

definition short_file :: "string list list" where
  "short_file = [example_header, row_h4_before, row_m4_before]"

subsection \<open>Adjusted and raw closes\<close>

text \<open>
  The close of a bar as pass 2 adjusts it, before it is rendered, and the adjustment the
  in-memory builder applies to a bar at a given instant.
\<close>

definition adjusted_close ::
  "(string \<Rightarrow> real option) \<Rightarrow> columns \<Rightarrow> (string \<times> real) list \<Rightarrow> string list \<Rightarrow> real" where
  "adjusted_close fl cols intervals row =
     price fl row (close_idx cols) + adjustment_at intervals (row ! ts_idx cols)"

definition batch_adjustment :: "measured_rollover list \<Rightarrow> int \<Rightarrow> real" where
  "batch_adjustment rollovers t =
     - (\<Sum>r \<leftarrow> filter (\<lambda>r. t < find_rollover_minute r) rollovers. ev_spread r)"

definition tolerated_pph :: "string \<rightharpoonup> string" where
  "tolerated_pph = [''2024-03-14T23'' \<mapsto> ''ESH4'']"

text \<open>
  A frame of three kept bars around the rollover of 2024-03-15 (day 19797 of the epoch) and the
  rollover as measured.
\<close>

definition example_bars :: "bar list" where
  "example_bars =
     [\<lparr>ts_event = 1710460740000000000, bar_open = 5200, bar_high = 5200.5, bar_low = 5199.75,
       bar_close = 5200.25, bar_volume = 12, bar_symbol = ''ESH4''\<rparr>,
      \<lparr>ts_event = 1710464400000000000, bar_open = 5257, bar_high = 5257.25, bar_low = 5256.75,
       bar_close = 5257, bar_volume = 20, bar_symbol = ''ESM4''\<rparr>,
      \<lparr>ts_event = 1710468000000000000, bar_open = 5257, bar_high = 5258.5, bar_low = 5257,
       bar_close = 5258.25, bar_volume = 31, bar_symbol = ''ESM4''\<rparr>]"

definition example_measured :: "measured_rollover list" where
  "example_measured =
     [\<lparr>ev_date = 19797, ev_from_symbol = ''ESH4'', ev_to_symbol = ''ESM4'', ev_spread = 56.125,
       overlap_bars = 2, spread_min = 56, spread_max = 56.25\<rparr>]"

text \<open>
  A log whose spread is no number, and a source file in which the volume of a bar of ESH4
  is no number.
\<close>

definition bad_log_rows :: "(string \<rightharpoonup> string) list" where
  "bad_log_rows =
     [[''date'' \<mapsto> ''2024-03-15'', ''from_symbol'' \<mapsto> ''ESH4'', ''to_symbol'' \<mapsto> ''ESM4'',
       ''spread'' \<mapsto> ''abc'']]"

definition row_h4_bad_volume :: "string list" where
  "row_h4_bad_volume = [''2024-03-15T00:00:00.000000000Z'', ''5200.25'', ''5200.75'', ''5200.00'',
                        ''5200.50'', ''many'', ''ESH4'']"

definition bad_volume_file :: "string list list" where
  "bad_volume_file = [example_header, row_h4_before, row_h4_bad_volume]"

text \<open>The state in which the loop of pass 2 starts.\<close>

definition pass2_start :: pass2_state where
  "pass2_start = \<lparr>row_count = 0, written = 0, skipped_spreads = 0, skipped_non_primary = 0,
                   skipped_date = 0, interval_idx = 0, fout = [output_header]\<rparr>"

text \<open>
  A row of the level series at 2024-03-14 23:59:59 UTC, the instant of the first bar of the
  example file, whose first level is the raw close of that bar.
\<close>

definition lt_row_close :: "string \<rightharpoonup> string" where
  "lt_row_close =
     [''datetime'' \<mapsto> ''2024-03-14 23:59:59'', ''unix_timestamp'' \<mapsto> ''1710460799000'',
      ''sentiment'' \<mapsto> ''BULLISH'', ''level_1'' \<mapsto> ''5200.25'', ''level_2'' \<mapsto> ''5190.50'',
      ''level_3'' \<mapsto> ''5180.25'', ''level_4'' \<mapsto> ''5170.00'', ''level_5'' \<mapsto> ''5160.75'']"

definition lt_out_close :: lt_out where
  "lt_out_close =
     \<lparr>datetime = ''2024-03-14 23:59:59'', unix_timestamp = ''1710460799000'',
      sentiment = ''BULLISH'', levels = [5144.12, 5134.38, 5124.12, 5113.88, 5104.62]\<rparr>"

subsection \<open>The in-memory builder: measuring the spread of a rollover\<close>

text \<open>
  \<^verbatim>\<open>drop_duplicates("ts_event", keep="last")\<close>: of the rows with one timestamp the last
  stays, the order of the rows that stay is kept.
\<close>

fun drop_duplicates_last :: "bar list \<Rightarrow> bar list" where
  "drop_duplicates_last [] = []"
| "drop_duplicates_last (b # bs) =
     (if ts_event b \<in> set (map ts_event bs) then drop_duplicates_last bs
      else b # drop_duplicates_last bs)"

text \<open>
  \<^verbatim>\<open>window[window["symbol"] == contract].drop_duplicates(...).set_index("ts_event")["close"]\<close>:
  the series of closes of one contract, indexed by timestamp.
\<close>

definition contract_closes :: "bar list \<Rightarrow> string \<Rightarrow> (int \<times> real) list" where
  "contract_closes window contract =
     map (\<lambda>b. (ts_event b, bar_close b))
       (drop_duplicates_last (filter (\<lambda>b. bar_symbol b = contract) window))"

text \<open>
  The median, minimum and maximum of a series of numbers, as the data-frame library computes
  them: the middle of the sorted values, or the mean of the two in the middle.
\<close>

definition median :: "real list \<Rightarrow> real" where
  "median xs =
     (let s = sort xs; n = length s
      in if odd n then s ! (n div 2) else (s ! (n div 2 - 1) + s ! (n div 2)) / 2)"

definition series_min :: "real list \<Rightarrow> real" where
  "series_min xs = fold min (tl xs) (hd xs)"

definition series_max :: "real list \<Rightarrow> real" where
  "series_max xs = fold max (tl xs) (hd xs)"

text \<open>
  The body of the loop of \<^verbatim>\<open>compute_rollover_spreads\<close> for one rollover, variable by
  variable. \<^verbatim>\<open>window\<close> holds the bars within twelve hours of the switch;
  \<^verbatim>\<open>overlap\<close>, the intersection of the two indexes, keeps the timestamps of the outgoing
  contract that the incoming contract has too; \<^verbatim>\<open>spreads\<close> is the difference of the two
  series on these timestamps.
\<close>

definition rollover_window :: "bar list \<Rightarrow> rollover_event \<Rightarrow> bar list" where
  "rollover_window df r =
     (let roll_date = day_start (ev_date r);
          window_start = roll_date - twelve_hours;
          window_end = roll_date + twelve_hours
      in filter (\<lambda>b. ts_event b \<ge> window_start \<and> ts_event b \<le> window_end) df)"

definition overlap_index :: "bar list \<Rightarrow> rollover_event \<Rightarrow> int list" where
  "overlap_index df r =
     (let from_bars = contract_closes (rollover_window df r) (ev_from_symbol r);
          to_bars = contract_closes (rollover_window df r) (ev_to_symbol r)
      in filter (\<lambda>t. t \<in> set (map fst to_bars)) (map fst from_bars))"

definition overlap_spreads :: "bar list \<Rightarrow> rollover_event \<Rightarrow> real list" where
  "overlap_spreads df r =
     (let from_bars = contract_closes (rollover_window df r) (ev_from_symbol r);
          to_bars = contract_closes (rollover_window df r) (ev_to_symbol r)
      in map (\<lambda>t. the (map_of to_bars t) - the (map_of from_bars t)) (overlap_index df r))"

text \<open>
  With an overlap the median is recorded; without one the last close of the outgoing and the
  first close of the incoming contract are used, and \<^verbatim>\<open>.iloc[-1]\<close> and
  \<^verbatim>\<open>.iloc[0]\<close> raise IndexError on an empty selection.
\<close>

definition rollover_spread :: "bar list \<Rightarrow> rollover_event \<Rightarrow> error + measured_rollover" where
  "rollover_spread df r =
     (let roll_date = day_start (ev_date r);
          from_sym = ev_from_symbol r;
          to_sym = ev_to_symbol r;
          overlap = overlap_index df r
      in if length overlap > 0 then
           let spreads = overlap_spreads df r
           in Inr \<lparr>ev_date = ev_date r, ev_from_symbol = from_sym, ev_to_symbol = to_sym,
                   ev_spread = median spreads, overlap_bars = length overlap,
                   spread_min = series_min spreads, spread_max = series_max spreads\<rparr>
         else
           (case filter (\<lambda>b. bar_symbol b = from_sym \<and> ts_event b < roll_date) df of
              [] \<Rightarrow> Inl IndexError
            | old # olds \<Rightarrow>
                (case filter (\<lambda>b. bar_symbol b = to_sym \<and> ts_event b \<ge> roll_date) df of
                   [] \<Rightarrow> Inl IndexError
                 | new # news \<Rightarrow>
                     let spread_value = bar_close new - bar_close (last (old # olds))
                     in Inr \<lparr>ev_date = ev_date r, ev_from_symbol = from_sym,
                             ev_to_symbol = to_sym, ev_spread = spread_value,
                             overlap_bars = 0, spread_min = spread_value,
                             spread_max = spread_value\<rparr>)))"

definition compute_rollover_spreads ::
  "bar list \<Rightarrow> rollover_event list \<Rightarrow> error + measured_rollover list" where
  "compute_rollover_spreads df rollovers = map_err (rollover_spread df) rollovers"

text \<open>
  What the spread is measured on: the timestamps in the window of twelve hours on either side
  of the switch at which both contracts have a bar, and for a contract and a timestamp the
  close of the last bar of that contract at that timestamp.
\<close>

definition overlap_times :: "bar list \<Rightarrow> rollover_event \<Rightarrow> int set" where
  "overlap_times df r =
     {t. day_start (ev_date r) - twelve_hours \<le> t \<and> t \<le> day_start (ev_date r) + twelve_hours
         \<and> (\<exists>b \<in> set df. bar_symbol b = ev_from_symbol r \<and> ts_event b = t)
         \<and> (\<exists>b \<in> set df. bar_symbol b = ev_to_symbol r \<and> ts_event b = t)}"

definition last_close :: "bar list \<Rightarrow> string \<Rightarrow> int \<Rightarrow> real" where
  "last_close df contract t =
     bar_close (last (filter (\<lambda>b. bar_symbol b = contract \<and> ts_event b = t) df))"

definition spread_at :: "bar list \<Rightarrow> rollover_event \<Rightarrow> int \<Rightarrow> real" where
  "spread_at df r t = last_close df (ev_to_symbol r) t - last_close df (ev_from_symbol r) t"

text \<open>
  Two frames for the rollover of 2024-03-15. In the first both contracts trade at 23:59 and
  at 00:00 (where ESH4 has two rows, of which the later counts); in the second the
  contracts never trade within twelve hours of the switch.
\<close>

definition example_event :: rollover_event where
  "example_event = \<lparr>ev_date = 19797, ev_from_symbol = ''ESH4'', ev_to_symbol = ''ESM4''\<rparr>"

definition example_df :: "bar list" where
  "example_df =
     [\<lparr>ts_event = 1710460740000000000, bar_open = 5200, bar_high = 5200.5, bar_low = 5199.75,
       bar_close = 5200.25, bar_volume = 12, bar_symbol = ''ESH4''\<rparr>,
      \<lparr>ts_event = 1710460740000000000, bar_open = 5256, bar_high = 5256.5, bar_low = 5255.75,
       bar_close = 5256.25, bar_volume = 3, bar_symbol = ''ESM4''\<rparr>,
      \<lparr>ts_event = 1710460800000000000, bar_open = 5200.25, bar_high = 5200.75, bar_low = 5200,
       bar_close = 5200.5, bar_volume = 9, bar_symbol = ''ESH4''\<rparr>,
      \<lparr>ts_event = 1710460800000000000, bar_open = 5200.5, bar_high = 5200.75, bar_low = 5200.5,
       bar_close = 5200.75, bar_volume = 2, bar_symbol = ''ESH4''\<rparr>,
      \<lparr>ts_event = 1710460800000000000, bar_open = 5257, bar_high = 5257.25, bar_low = 5256.75,
       bar_close = 5257, bar_volume = 20, bar_symbol = ''ESM4''\<rparr>]"

definition example_gap_df :: "bar list" where
  "example_gap_df =
     [\<lparr>ts_event = 1710400000000000000, bar_open = 5200, bar_high = 5200.5, bar_low = 5199.75,
       bar_close = 5200.25, bar_volume = 12, bar_symbol = ''ESH4''\<rparr>,
      \<lparr>ts_event = 1710520000000000000, bar_open = 5257, bar_high = 5257.25, bar_low = 5256.75,
       bar_close = 5257, bar_volume = 20, bar_symbol = ''ESM4''\<rparr>]"

subsection \<open>The in-memory builder: contract periods and the continuous series\<close>

text \<open>
  \<^verbatim>\<open>df["ts_event"].min()\<close> and \<^verbatim>\<open>df["ts_event"].max()\<close>. On an empty frame both are the
  missing timestamp, here \<open>None\<close>, and every comparison with it is false.
  \<^verbatim>\<open>pd.Timedelta("1min")\<close> is counted in nanoseconds.
\<close>

definition frame_min :: "bar list \<Rightarrow> int option" where
  "frame_min df = (case df of [] \<Rightarrow> None | b # bs \<Rightarrow> Some (fold min (map ts_event bs) (ts_event b)))"

definition frame_max :: "bar list \<Rightarrow> int option" where
  "frame_max df = (case df of [] \<Rightarrow> None | b # bs \<Rightarrow> Some (fold max (map ts_event bs) (ts_event b)))"

definition one_minute :: int where
  "one_minute = 60000000000"

text \<open>
  A contract assignment period, the dictionary with the keys \<^verbatim>\<open>start\<close>, \<^verbatim>\<open>end\<close> and
  \<^verbatim>\<open>symbol\<close>. One turn of \<^verbatim>\<open>for r in rollovers\<close> closes the running period at the
  switch of \<open>r\<close> and opens the next one for the incoming contract; the state is
  \<open>(periods, prev_start, prev_sym)\<close>. After the loop the last period runs to one minute
  past the last bar.
\<close>

record period =
  period_start :: "int option"
  period_end :: "int option"
  period_symbol :: string

definition period_step ::
  "measured_rollover \<Rightarrow> period list \<times> int option \<times> string
     \<Rightarrow> period list \<times> int option \<times> string" where
  "period_step r st =
     (case st of (periods, prev_start, prev_sym) \<Rightarrow>
        let switch_ts = find_rollover_minute r
        in (periods @ [\<lparr>period_start = prev_start, period_end = Some switch_ts,
                         period_symbol = prev_sym\<rparr>],
            Some switch_ts, ev_to_symbol r))"

definition contract_periods :: "bar list \<Rightarrow> measured_rollover list \<Rightarrow> string \<Rightarrow> period list" where
  "contract_periods df rollovers first_contract =
     (case fold period_step rollovers ([], frame_min df, first_contract) of
        (periods, prev_start, prev_sym) \<Rightarrow>
          periods @ [\<lparr>period_start = prev_start,
                       period_end = map_option (\<lambda>t. t + one_minute) (frame_max df),
                       period_symbol = prev_sym\<rparr>])"

text \<open>
  \<^verbatim>\<open>(df["ts_event"] >= p["start"]) & (df["ts_event"] < p["end"]) & (df["symbol"] == p["symbol"])\<close>
  for one bar.
\<close>

definition period_mask :: "period \<Rightarrow> bar \<Rightarrow> bool" where
  "period_mask p b \<longleftrightarrow>
     (case period_start p of None \<Rightarrow> False | Some s \<Rightarrow> ts_event b \<ge> s)
     \<and> (case period_end p of None \<Rightarrow> False | Some e \<Rightarrow> ts_event b < e)
     \<and> bar_symbol b = period_symbol p"

text \<open>
  The contract before the first rollover: \<^verbatim>\<open>rollovers[0]["from_symbol"]\<close>, or without
  rollovers \<^verbatim>\<open>daily_primary["primary"].iloc[0]\<close>, which raises IndexError on an empty
  frame.
\<close>

definition first_contract_of ::
  "measured_rollover list \<Rightarrow> (int \<times> string) list \<Rightarrow> error + string" where
  "first_contract_of rollovers daily_primary =
     (case rollovers of
        r # _ \<Rightarrow> Inr (ev_from_symbol r)
      | [] \<Rightarrow> (case daily_primary of [] \<Rightarrow> Inl IndexError | first # _ \<Rightarrow> Inr (snd first)))"

text \<open>
  The frame \<^verbatim>\<open>continuous\<close> before the adjustment: the bars that some period selects are
  kept, of the bars of one timestamp the last is kept, and the frame is sorted by timestamp
  (the timestamps are then distinct, so the order is determined).
\<close>

definition active_bars :: "bar list \<Rightarrow> period list \<Rightarrow> bar list" where
  "active_bars df periods =
     sort_key ts_event
       (drop_duplicates_last (filter (\<lambda>b. list_ex (\<lambda>p. period_mask p b) periods) df))"

text \<open>
  \<^verbatim>\<open>build_continuous_series\<close>: the bars of the active contracts, back-adjusted. The
  continuity report that follows in the source only prints.
\<close>

definition build_continuous_series ::
  "bar list \<Rightarrow> measured_rollover list \<Rightarrow> (int \<times> string) list \<Rightarrow> error + bar list" where
  "build_continuous_series df rollovers daily_primary =
     bind_err (first_contract_of rollovers daily_primary) (\<lambda>first_contract.
       let periods = contract_periods df rollovers first_contract;
           continuous_df = active_bars df periods
       in Inr (back_adjust rollovers continuous_df))"

text \<open>
  A frame of seven days in which ESH4 is the contract of the largest daily volume on the first
  two days, ESM4 on the next two and ESH4 again on the last three, with the daily primaries,
  the rollovers as detected and as measured, the bars of the active contracts and the
  continuous series.
\<close>

definition recurring_df :: "bar list" where
  "recurring_df =
     [\<lparr>ts_event = 1710288000000000000, bar_open = 5190, bar_high = 5190, bar_low = 5190,
       bar_close = 5190, bar_volume = 10, bar_symbol = ''ESH4''\<rparr>,
      \<lparr>ts_event = 1710460740000000000, bar_open = 5200, bar_high = 5200.5, bar_low = 5199.75,
       bar_close = 5200.25, bar_volume = 12, bar_symbol = ''ESH4''\<rparr>,
      \<lparr>ts_event = 1710460740000000000, bar_open = 5256, bar_high = 5256.5, bar_low = 5255.75,
       bar_close = 5256.375, bar_volume = 3, bar_symbol = ''ESM4''\<rparr>,
      \<lparr>ts_event = 1710460860000000000, bar_open = 5257, bar_high = 5257.25, bar_low = 5256.75,
       bar_close = 5257, bar_volume = 20, bar_symbol = ''ESM4''\<rparr>,
      \<lparr>ts_event = 1710633540000000000, bar_open = 5260, bar_high = 5260, bar_low = 5260,
       bar_close = 5260, bar_volume = 15, bar_symbol = ''ESM4''\<rparr>,
      \<lparr>ts_event = 1710633540000000000, bar_open = 5204.5, bar_high = 5204.5, bar_low = 5204.5,
       bar_close = 5204.5, bar_volume = 4, bar_symbol = ''ESH4''\<rparr>,
      \<lparr>ts_event = 1710633660000000000, bar_open = 5205, bar_high = 5205, bar_low = 5205,
       bar_close = 5205, bar_volume = 30, bar_symbol = ''ESH4''\<rparr>,
      \<lparr>ts_event = 1710720000000000000, bar_open = 5206, bar_high = 5206, bar_low = 5206,
       bar_close = 5206, bar_volume = 10, bar_symbol = ''ESH4''\<rparr>,
      \<lparr>ts_event = 1710806400000000000, bar_open = 5207, bar_high = 5207, bar_low = 5207,
       bar_close = 5207, bar_volume = 10, bar_symbol = ''ESH4''\<rparr>]"

definition recurring_primary :: "(int \<times> string) list" where
  "recurring_primary =
     [(19795, ''ESH4''), (19796, ''ESH4''), (19797, ''ESM4''), (19798, ''ESM4''),
      (19799, ''ESH4''), (19800, ''ESH4''), (19801, ''ESH4'')]"

definition roll_to_m4 :: rollover_event where
  "roll_to_m4 = \<lparr>ev_date = 19797, ev_from_symbol = ''ESH4'', ev_to_symbol = ''ESM4''\<rparr>"

definition roll_back_to_h4 :: rollover_event where
  "roll_back_to_h4 = \<lparr>ev_date = 19799, ev_from_symbol = ''ESM4'', ev_to_symbol = ''ESH4''\<rparr>"

definition recurring_events :: "rollover_event list" where
  "recurring_events = [roll_to_m4, roll_back_to_h4]"

definition recurring_rollovers :: "measured_rollover list" where
  "recurring_rollovers =
     [\<lparr>ev_date = 19797, ev_from_symbol = ''ESH4'', ev_to_symbol = ''ESM4'', ev_spread = 56.125,
       overlap_bars = 1, spread_min = 56.125, spread_max = 56.125\<rparr>,
      \<lparr>ev_date = 19799, ev_from_symbol = ''ESM4'', ev_to_symbol = ''ESH4'', ev_spread = - 55.5,
       overlap_bars = 1, spread_min = - 55.5, spread_max = - 55.5\<rparr>]"

definition recurring_kept :: "bar list" where
  "recurring_kept = map ((!) recurring_df) [0, 1, 3, 4, 6, 7, 8]"

definition recurring_output :: "bar list" where
  "recurring_output =
     [\<lparr>ts_event = 1710288000000000000, bar_open = 5189.375, bar_high = 5189.375,
       bar_low = 5189.375, bar_close = 5189.375, bar_volume = 10, bar_symbol = ''ESH4''\<rparr>,
      \<lparr>ts_event = 1710460740000000000, bar_open = 5199.375, bar_high = 5199.875,
       bar_low = 5199.125, bar_close = 5199.625, bar_volume = 12, bar_symbol = ''ESH4''\<rparr>,
      \<lparr>ts_event = 1710460860000000000, bar_open = 5312.5, bar_high = 5312.75,
       bar_low = 5312.25, bar_close = 5312.5, bar_volume = 20, bar_symbol = ''ESM4''\<rparr>,
      \<lparr>ts_event = 1710633540000000000, bar_open = 5315.5, bar_high = 5315.5, bar_low = 5315.5,
       bar_close = 5315.5, bar_volume = 15, bar_symbol = ''ESM4''\<rparr>,
      \<lparr>ts_event = 1710633660000000000, bar_open = 5205, bar_high = 5205, bar_low = 5205,
       bar_close = 5205, bar_volume = 30, bar_symbol = ''ESH4''\<rparr>,
      \<lparr>ts_event = 1710720000000000000, bar_open = 5206, bar_high = 5206, bar_low = 5206,
       bar_close = 5206, bar_volume = 10, bar_symbol = ''ESH4''\<rparr>,
      \<lparr>ts_event = 1710806400000000000, bar_open = 5207, bar_high = 5207, bar_low = 5207,
       bar_close = 5207, bar_volume = 10, bar_symbol = ''ESH4''\<rparr>]"

text \<open>
  A source file with two bars of ESM4 after the rollover of the example log, the primary
  contracts of its hours and what pass 2 writes for it.
\<close>

definition row_m4_later :: "string list" where
  "row_m4_later = [''2024-03-15T01:00:01.000000000Z'', ''5257.00'', ''5257.50'', ''5257.00'',
                   ''5257.25'', ''7'', ''ESM4'']"

definition span_file :: "string list list" where
  "span_file = [example_header, row_h4_before, row_m4_after, row_m4_later]"

definition span_pph :: "string \<rightharpoonup> string" where
  "span_pph = [''2024-03-15T01'' \<mapsto> ''ESM4'', ''2024-03-14T23'' \<mapsto> ''ESH4'']"

definition span_output :: "string list list" where
  "span_output =
     [output_header,
      [''2024-03-14T23:59:59.000000000Z'', ''5143.875000000'', ''5144.375000000'',
       ''5143.625000000'', ''5144.125000000'', ''12'', ''ES_continuous'', ''ESH4''],
      [''2024-03-15T01:00:00.000000000Z'', ''5257.000000000'', ''5257.250000000'',
       ''5256.750000000'', ''5257.000000000'', ''20'', ''ES_continuous'', ''ESM4''],
      [''2024-03-15T01:00:01.000000000Z'', ''5257.000000000'', ''5257.500000000'',
       ''5257.000000000'', ''5257.250000000'', ''7'', ''ES_continuous'', ''ESM4'']]"

text \<open>
  The bars of the example file as a frame of the in-memory builder; the row of the calendar
  spread is left out when the frame is loaded.
\<close>

definition example_frame :: "bar list" where
  "example_frame =
     [\<lparr>ts_event = 1710460799000000000, bar_open = 5200, bar_high = 5200.5, bar_low = 5199.75,
       bar_close = 5200.25, bar_volume = 12, bar_symbol = ''ESH4''\<rparr>,
      \<lparr>ts_event = 1710460799000000000, bar_open = 5256, bar_high = 5256.5, bar_low = 5255.75,
       bar_close = 5256.25, bar_volume = 3, bar_symbol = ''ESM4''\<rparr>,
      \<lparr>ts_event = 1710460800000000000, bar_open = 5200.25, bar_high = 5200.75, bar_low = 5200,
       bar_close = 5200.5, bar_volume = 9, bar_symbol = ''ESH4''\<rparr>,
      \<lparr>ts_event = 1710464400000000000, bar_open = 5257, bar_high = 5257.25, bar_low = 5256.75,
       bar_close = 5257, bar_volume = 20, bar_symbol = ''ESM4''\<rparr>]"

section \<open>Properties\<close>

subsection \<open>Strings of equal length under the lexicographic order\<close>

lemma append_le_same_length:
  fixes a b :: string
  assumes "length a = length b"
  shows "a @ s \<le> b @ s \<longleftrightarrow> a \<le> b"
  using assms by (induction a b rule: list_induct2) auto

lemma append_less_same_length:
  fixes a b :: string
  assumes "length a = length b"
  shows "a @ s < b @ s \<longleftrightarrow> a < b"
  using assms by (induction a b rule: list_induct2) auto

lemma sorted_map_append_same_length:
  fixes ds :: "string list"
  assumes "sorted ds" "\<forall>d \<in> set ds. length d = n"
  shows "sorted (map (\<lambda>d. d @ s) ds)"
  using assms by (induction ds) (auto simp: append_le_same_length)

subsection \<open>The suffix sums of the spreads\<close>

text \<open>
  The downward loop, stopped after the indices \<open>k, \<dots>, n - 1\<close> have been written:
  these cells hold their suffix sums, the cells below \<open>k\<close> still hold 0.
\<close>

lemma foldr_suffix:
  "k \<le> length rs \<Longrightarrow>
   length (foldr (\<lambda>i ss. ss[i := ss ! (i + 1) + spread (rs ! i)]) [k..<length rs]
             (replicate (length rs + 1) 0)) = length rs + 1 \<and>
   (\<forall>i \<le> length rs.
      foldr (\<lambda>i ss. ss[i := ss ! (i + 1) + spread (rs ! i)]) [k..<length rs]
        (replicate (length rs + 1) 0) ! i
      = (if k \<le> i then sum_list (map spread (drop i rs)) else 0))"
proof (induction "length rs - k" arbitrary: k)
  case 0
  then have "k = length rs" by simp
  then show ?case by (auto simp: nth_Cons')
next
  case (Suc d)
  then have klt: "k < length rs" and d: "d = length rs - Suc k" and le: "Suc k \<le> length rs"
    by auto
  note IH = Suc.hyps(1)[OF d le]
  have "[k..<length rs] = k # [Suc k..<length rs]"
    using klt by (simp add: upt_conv_Cons)
  then show ?case
    using klt IH
    by (auto simp: nth_list_update Cons_nth_drop_Suc[symmetric] simp del: upt_Suc replicate_Suc)
qed

lemma suffix_sum_loop_nth:
  "i \<le> length rs \<Longrightarrow> suffix_sum_loop rs ! i = sum_list (map spread (drop i rs))"
  using foldr_suffix[of 0 rs]
  by (simp add: suffix_sum_loop_def Let_def foldr_conv_fold del: upt_Suc replicate_Suc)

lemma length_suffix_sum_loop: "length (suffix_sum_loop rs) = length rs + 1"
  using foldr_suffix[of 0 rs]
  by (simp add: suffix_sum_loop_def Let_def foldr_conv_fold del: upt_Suc replicate_Suc)

text \<open>The interval list, for any log, written without the loop.\<close>

lemma build_adjustment_intervals_eq:
  "build_adjustment_intervals rs =
     ('''', - sum_list (map spread rs)) #
     map (\<lambda>i. (date (rs ! i) @ ''T00:00:00.000000000Z'',
               - sum_list (map spread (drop (i + 1) rs)))) [0..<length rs]"
  by (auto simp: build_adjustment_intervals_def Let_def suffix_sum_loop_nth simp del: upt_Suc)

lemma map_fst_build_adjustment_intervals:
  "map fst (build_adjustment_intervals rs) =
     '''' # map (\<lambda>r. date r @ ''T00:00:00.000000000Z'') rs"
proof -
  have "map (\<lambda>i. date (rs ! i) @ ''T00:00:00.000000000Z'') [0..<length rs]
        = map (\<lambda>r. date r @ ''T00:00:00.000000000Z'') rs"
    by (rule nth_equalityI) simp_all
  then show ?thesis
    by (simp add: build_adjustment_intervals_eq comp_def del: upt_Suc)
qed

lemma sorted_boundaries:
  assumes "sorted (map date rs)" "\<forall>r \<in> set rs. length (date r) = 10"
  shows "sorted (map fst (build_adjustment_intervals rs))"
proof -
  have "sorted (map (\<lambda>d. d @ ''T00:00:00.000000000Z'') (map date rs))"
    using assms by (intro sorted_map_append_same_length[where n = 10]) auto
  then show ?thesis
    by (simp add: map_fst_build_adjustment_intervals comp_def)
qed

text \<open>
  C2. For a nonempty rollover list with spreads \<open>s\<^sub>0, \<dots>, s\<^sub>n\<^sub>-\<^sub>1\<close>,
  \<open>build_adjustment_intervals\<close> returns \<open>n + 1\<close> intervals, in the order of the
  rollovers: the first has the boundary \<open>''''\<close> (the unbounded past) and the adjustment
  \<open>- (s\<^sub>0 + \<dots> + s\<^sub>n\<^sub>-\<^sub>1)\<close>; the interval after it whose boundary is the
  switch timestamp of rollover \<open>i\<close> has the adjustment \<open>- (s\<^sub>i\<^sub>+\<^sub>1 + \<dots> + s\<^sub>n\<^sub>-\<^sub>1)\<close>;
  the last interval has the adjustment 0. When the log is ordered by date (dates of ten
  characters), the boundaries are ascending.
\<close>

theorem build_adjustment_intervals_suffix_sums:
  assumes "rollovers \<noteq> []"
  shows "length (build_adjustment_intervals rollovers) = length rollovers + 1
    \<and> build_adjustment_intervals rollovers ! 0 = ('''', - sum_list (map spread rollovers))
    \<and> (\<forall>i < length rollovers.
          build_adjustment_intervals rollovers ! (i + 1) =
            (date (rollovers ! i) @ ''T00:00:00.000000000Z'',
             - sum_list (map spread (drop (i + 1) rollovers))))
    \<and> snd (last (build_adjustment_intervals rollovers)) = 0
    \<and> (sorted (map date rollovers) \<and> (\<forall>r \<in> set rollovers. length (date r) = 10)
         \<longrightarrow> sorted (map fst (build_adjustment_intervals rollovers)))"
proof -
  have "snd (last (build_adjustment_intervals rollovers)) = 0"
    using assms by (simp add: build_adjustment_intervals_eq last_map del: upt_Suc)
  moreover have "\<forall>i < length rollovers.
          build_adjustment_intervals rollovers ! (i + 1) =
            (date (rollovers ! i) @ ''T00:00:00.000000000Z'',
             - sum_list (map spread (drop (i + 1) rollovers)))"
    by (simp add: build_adjustment_intervals_eq del: upt_Suc)
  ultimately show ?thesis
    using sorted_boundaries[of rollovers]
    by (simp add: build_adjustment_intervals_eq del: upt_Suc)
qed

theorem build_adjustment_intervals_suffix_sums_witness:
  "example_log \<noteq> []
   \<and> sorted (map date example_log) \<and> list_all (\<lambda>r. length (date r) = 10) example_log
   \<and> build_adjustment_intervals example_log =
       [('''', - 2), (''2024-03-15T00:00:00.000000000Z'', 3),
        (''2024-06-21T00:00:00.000000000Z'', 0)]
   \<and> sorted (map fst (build_adjustment_intervals example_log))"
proof -
  have ne: "example_log \<noteq> []"
    by (simp add: example_log_def)
  have ord: "sorted (map date example_log) \<and> list_all (\<lambda>r. length (date r) = 10) example_log"
    by (simp add: example_log_def)
  have val: "build_adjustment_intervals example_log =
       [('''', - 2), (''2024-03-15T00:00:00.000000000Z'', 3),
        (''2024-06-21T00:00:00.000000000Z'', 0)]"
    by (simp add: build_adjustment_intervals_eq example_log_def)
  show ?thesis
    using build_adjustment_intervals_suffix_sums[OF ne] ne ord val
    by (simp add: list_all_iff)
qed

subsection \<open>Flicker and confirmed rollovers\<close>

text \<open>
  C5. With the persistence threshold 2 of the code, the daily dominance sequence
  A, A, B, A, A, A yields no rollover (the single B is flicker and A stays the baseline),
  and A, A, B, B, B, B yields exactly one rollover, from A to B, dated at the first B.
\<close>

theorem flicker_rejection:
  assumes "a \<noteq> b"
  shows "detect_true_rollovers [(d0, a), (d1, a), (d2, b), (d3, a), (d4, a), (d5, a)] = Inr []
       \<and> detect_true_rollovers [(d0, a), (d1, a), (d2, b), (d3, b), (d4, b), (d5, b)]
           = Inr [\<lparr>ev_date = d2, ev_from_symbol = a, ev_to_symbol = b\<rparr>]"
  using assms
  by (simp add: detect_true_rollovers_def detect_step_def upt_rec[of _ "Suc _"] upt_rec[of 1]
           del: upt_Suc)

theorem flicker_rejection_witness:
  "''ESH5'' \<noteq> ''ESM5''
   \<and> detect_true_rollovers
        [(1, ''ESH5''), (2, ''ESH5''), (3, ''ESM5''), (4, ''ESH5''), (5, ''ESH5''),
         (6, ''ESH5'')] = Inr []
   \<and> detect_true_rollovers
        [(1, ''ESH5''), (2, ''ESH5''), (3, ''ESM5''), (4, ''ESM5''), (5, ''ESM5''),
         (6, ''ESM5'')]
       = Inr [\<lparr>ev_date = 3, ev_from_symbol = ''ESH5'', ev_to_symbol = ''ESM5''\<rparr>]"
  using flicker_rejection[of "''ESH5''" "''ESM5''" 1 2 3 4 5 6] by simp

subsection \<open>The date filter\<close>

lemma append_less_append_same_length:
  fixes a b :: string
  assumes "length a = length b"
  shows "a @ x < b @ y \<longleftrightarrow> a < b \<or> (a = b \<and> x < y)"
  using assms by (induction a b rule: list_induct2) auto

lemma time_not_after_T99:
  assumes "tm = [] \<or> hd tm < CHR ''9''"
  shows "\<not> ''T'' @ tm > ''T99''"
  using assms by (cases tm) auto

text \<open>
  A timestamp is written \<open>d @ ''T'' @ tm\<close>: a date \<open>d\<close> of ten characters, the
  letter T and the time of day \<open>tm\<close>, whose first character (the tens of the hour) is
  below the digit 9. With bounds given as dates of ten characters, the bar passes the filter
  of both passes exactly when \<open>start \<le> d\<close> and \<open>d \<le> end\<close> in the lexicographic
  order of strings: bars of the start date and of the end date pass, bars of an earlier or
  later date are skipped. A bound that is not given does not restrict.
\<close>

lemma date_filter_lexicographic:
  assumes "length d = 10"
      and "\<forall>s. args_start = Some s \<longrightarrow> length s = 10"
      and "\<forall>e. args_end = Some e \<longrightarrow> length e = 10"
      and "tm = [] \<or> hd tm < CHR ''9''"
  shows "passes_date_filter (start_date_of args_start) (end_date_of args_end) (d @ ''T'' @ tm)
         \<longleftrightarrow> (\<forall>s. args_start = Some s \<longrightarrow> s \<le> d) \<and> (\<forall>e. args_end = Some e \<longrightarrow> d \<le> e)"
proof -
  have s: "before_start (start_date_of args_start) (d @ ''T'' @ tm)
           \<longleftrightarrow> (\<exists>s. args_start = Some s \<and> d < s)"
  proof (cases args_start)
    case None
    then show ?thesis by (simp add: before_start_def start_date_of_def truthy_def)
  next
    case (Some s)
    with assms have "length d = length s" by simp
    from append_less_append_same_length[OF this, of "''T'' @ tm" "''T''"] Some assms(2)
    show ?thesis
      by (auto simp add: before_start_def start_date_of_def truthy_def)
  qed
  have e: "after_end (end_date_of args_end) (d @ ''T'' @ tm)
           \<longleftrightarrow> (\<exists>e. args_end = Some e \<and> e < d)"
  proof (cases args_end)
    case None
    then show ?thesis by (simp add: after_end_def end_date_of_def truthy_def)
  next
    case (Some e)
    with assms have "length e = length d" by simp
    from append_less_append_same_length[OF this, of "''T99''" "''T'' @ tm"] Some assms(3)
      time_not_after_T99[OF assms(4)]
    show ?thesis
      by (auto simp add: after_end_def end_date_of_def truthy_def)
  qed
  show ?thesis
    unfolding passes_date_filter_def s e by (auto simp: not_less)
qed

lemma digit_char_code: "n < 10 \<Longrightarrow> of_char (digit_char n) = 48 + n"
proof -
  assume "n < 10"
  then have "n \<in> {0, 1, 2, 3, 4, 5, 6, 7, 8, 9}" by auto
  then show ?thesis by (auto simp: digit_char_def)
qed

lemma digit_char_less:
  assumes "a < 10" "b < 10"
  shows "digit_char a < digit_char b \<longleftrightarrow> a < b"
  by (simp add: less_char_def digit_char_code[OF assms(1)] digit_char_code[OF assms(2)])

lemma digit_char_eq:
  assumes "a < 10" "b < 10"
  shows "digit_char a = digit_char b \<longleftrightarrow> a = b"
proof
  assume "digit_char a = digit_char b"
  then have "(of_char (digit_char a) :: nat) = of_char (digit_char b)" by simp
  then show "a = b"
    by (simp add: digit_char_code[OF assms(1)] digit_char_code[OF assms(2)])
qed simp

lemma base10_less:
  fixes q r q' r' :: nat
  assumes "r < 10" "r' < 10"
  shows "10 * q + r < 10 * q' + r' \<longleftrightarrow> q < q' \<or> (q = q' \<and> r < r')"
  using assms by arith

lemma base100_less:
  fixes q r q' r' :: nat
  assumes "r < 100" "r' < 100"
  shows "100 * q + r < 100 * q' + r' \<longleftrightarrow> q < q' \<or> (q = q' \<and> r < r')"
  using assms by arith

lemma pad2_less:
  assumes "a < 100" "b < 100"
  shows "pad2 a < pad2 b \<longleftrightarrow> a < b"
proof -
  from assms have r: "a div 10 < 10" "b div 10 < 10" "a mod 10 < 10" "b mod 10 < 10"
    by auto
  have "a < b \<longleftrightarrow> 10 * (a div 10) + a mod 10 < 10 * (b div 10) + b mod 10"
    by (simp only: mult_div_mod_eq)
  also have "\<dots> \<longleftrightarrow> a div 10 < b div 10 \<or> (a div 10 = b div 10 \<and> a mod 10 < b mod 10)"
    by (rule base10_less[OF r(3,4)])
  finally show ?thesis
    by (simp add: pad2_def digit_char_less[OF r(1,2)] digit_char_less[OF r(3,4)]
          digit_char_eq[OF r(1,2)])
qed

lemma pad2_eq:
  assumes "a < 100" "b < 100"
  shows "pad2 a = pad2 b \<longleftrightarrow> a = b"
proof
  from assms have r: "a div 10 < 10" "b div 10 < 10" "a mod 10 < 10" "b mod 10 < 10"
    by auto
  assume "pad2 a = pad2 b"
  then have "a div 10 = b div 10" "a mod 10 = b mod 10"
    by (simp_all add: pad2_def digit_char_eq[OF r(1,2)] digit_char_eq[OF r(3,4)])
  then have "10 * (a div 10) + a mod 10 = 10 * (b div 10) + b mod 10" by simp
  then show "a = b" by (simp only: mult_div_mod_eq)
qed simp

lemma length_pad2: "length (pad2 n) = 2"
  by (simp add: pad2_def)

lemma pad4_less:
  assumes "a < 10000" "b < 10000"
  shows "pad4 a < pad4 b \<longleftrightarrow> a < b"
proof -
  from assms have r: "a div 100 < 100" "b div 100 < 100" "a mod 100 < 100" "b mod 100 < 100"
    by auto
  have "a < b \<longleftrightarrow> 100 * (a div 100) + a mod 100 < 100 * (b div 100) + b mod 100"
    by (simp only: mult_div_mod_eq)
  also have "\<dots> \<longleftrightarrow> a div 100 < b div 100 \<or> (a div 100 = b div 100 \<and> a mod 100 < b mod 100)"
    by (rule base100_less[OF r(3,4)])
  finally show ?thesis
    unfolding pad4_def
    by (simp add: append_less_append_same_length length_pad2 pad2_less[OF r(1,2)]
          pad2_less[OF r(3,4)] pad2_eq[OF r(1,2)])
qed

lemma pad4_eq:
  assumes "a < 10000" "b < 10000"
  shows "pad4 a = pad4 b \<longleftrightarrow> a = b"
proof
  from assms have r: "a div 100 < 100" "b div 100 < 100" "a mod 100 < 100" "b mod 100 < 100"
    by auto
  assume "pad4 a = pad4 b"
  then have "a div 100 = b div 100" "a mod 100 = b mod 100"
    by (simp_all add: pad4_def length_pad2 pad2_eq[OF r(1,2)] pad2_eq[OF r(3,4)])
  then have "100 * (a div 100) + a mod 100 = 100 * (b div 100) + b mod 100" by simp
  then show "a = b" by (simp only: mult_div_mod_eq)
qed simp

lemma length_iso_date: "length (iso_date c) = 10"
  by (cases c) (simp add: iso_date_def pad4_def pad2_def)

lemma iso_date_le:
  assumes "valid_date a" "valid_date b"
  shows "iso_date a \<le> iso_date b \<longleftrightarrow> date_le a b"
proof -
  obtain y m d where a: "a = (y, m, d)" by (cases a) auto
  obtain y' m' d' where b: "b = (y', m', d')" by (cases b) auto
  from assms a b have r: "y < 10000" "y' < 10000" "m < 100" "m' < 100" "d < 100" "d' < 100"
    by (auto simp: valid_date_def)
  have l4: "length (pad4 y) = length (pad4 y')" by (simp add: pad4_def pad2_def)
  have l2: "length (pad2 m) = length (pad2 m')" by (simp add: pad2_def)
  have "iso_date a < iso_date b
        \<longleftrightarrow> y < y' \<or> (y = y' \<and> (m < m' \<or> (m = m' \<and> d < d')))"
    unfolding iso_date_def a b
    by (simp add: append_less_append_same_length[OF l4] append_less_append_same_length[OF l2]
          pad4_less[OF r(1,2)] pad4_eq[OF r(1,2)] pad2_less[OF r(3,4)]
          pad2_eq[OF r(3,4)] pad2_less[OF r(5,6)])
  moreover have "iso_date a = iso_date b \<longleftrightarrow> y = y' \<and> m = m' \<and> d = d'"
    unfolding iso_date_def a b
    by (simp add: l4 pad4_eq[OF r(1,2)] pad2_eq[OF r(3,4)] pad2_eq[OF r(5,6)]
          length_pad2)
  ultimately show ?thesis
    unfolding a b by (auto simp: date_le_def le_less)
qed

text \<open>
  C8. With bounds \<^verbatim>\<open>--start\<close> and \<^verbatim>\<open>--end\<close> given as calendar dates written
  \<^verbatim>\<open>YYYY-MM-DD\<close>, a bar whose timestamp is its calendar date \<open>c\<close>, the letter T and a
  time of day passes the filter of both passes exactly when \<open>c\<close> lies in the inclusive
  range of the calendar: not before the start date and not after the end date. Bars of the
  start date and of the end date are kept, bars of an earlier or a later date are skipped; a
  bound that is not given does not restrict. The filter itself only compares strings
  (\<open>date_filter_lexicographic\<close>), and on dates written this way the order of strings is
  the order of the calendar (\<open>iso_date_le\<close>).
\<close>

theorem date_filter_inclusive:
  assumes "valid_date c"
      and "\<forall>s. start = Some s \<longrightarrow> valid_date s"
      and "\<forall>e. end_bound = Some e \<longrightarrow> valid_date e"
      and "tm = [] \<or> hd tm < CHR ''9''"
  shows "passes_date_filter (start_date_of (map_option iso_date start))
           (end_date_of (map_option iso_date end_bound)) (iso_date c @ ''T'' @ tm)
         \<longleftrightarrow> (\<forall>s. start = Some s \<longrightarrow> date_le s c) \<and> (\<forall>e. end_bound = Some e \<longrightarrow> date_le c e)"
proof -
  have "passes_date_filter (start_date_of (map_option iso_date start))
           (end_date_of (map_option iso_date end_bound)) (iso_date c @ ''T'' @ tm)
        \<longleftrightarrow> (\<forall>s. map_option iso_date start = Some s \<longrightarrow> s \<le> iso_date c)
          \<and> (\<forall>e. map_option iso_date end_bound = Some e \<longrightarrow> iso_date c \<le> e)"
    by (rule date_filter_lexicographic) (auto simp: length_iso_date assms(4))
  also have "\<dots> \<longleftrightarrow> (\<forall>s. start = Some s \<longrightarrow> iso_date s \<le> iso_date c)
          \<and> (\<forall>e. end_bound = Some e \<longrightarrow> iso_date c \<le> iso_date e)"
    by auto
  also have "\<dots> \<longleftrightarrow> (\<forall>s. start = Some s \<longrightarrow> date_le s c) \<and> (\<forall>e. end_bound = Some e \<longrightarrow> date_le c e)"
    using assms(1-3) by (auto simp: iso_date_le)
  finally show ?thesis .
qed

theorem date_filter_inclusive_witness:
  "passes_date_filter (start_date_of (Some ''2023-01-01'')) (end_date_of (Some ''2025-12-31''))
     (''2023-01-01'' @ ''T'' @ ''00:00:00.000000000Z'')
   \<and> passes_date_filter (start_date_of (Some ''2023-01-01'')) (end_date_of (Some ''2025-12-31''))
     (''2025-12-31'' @ ''T'' @ ''23:59:59.000000000Z'')
   \<and> \<not> passes_date_filter (start_date_of (Some ''2023-01-01'')) (end_date_of (Some ''2025-12-31''))
     (''2022-12-31'' @ ''T'' @ ''23:59:59.000000000Z'')
   \<and> \<not> passes_date_filter (start_date_of (Some ''2023-01-01'')) (end_date_of (Some ''2025-12-31''))
     (''2026-01-01'' @ ''T'' @ ''00:00:00.000000000Z'')"
proof -
  have i: "iso_date (2023, 1, 1) = ''2023-01-01''" "iso_date (2025, 12, 31) = ''2025-12-31''"
    "iso_date (2022, 12, 31) = ''2022-12-31''" "iso_date (2026, 1, 1) = ''2026-01-01''"
    by (simp_all add: iso_date_def pad4_def pad2_def digit_char_def)
  have v: "valid_date (2023, 1, 1)" "valid_date (2025, 12, 31)" "valid_date (2022, 12, 31)"
    "valid_date (2026, 1, 1)"
    by (simp_all add: valid_date_def)
  show ?thesis
    using date_filter_inclusive[of "(2023, 1, 1)" "Some (2023, 1, 1)" "Some (2025, 12, 31)"
          "''00:00:00.000000000Z''"]
        date_filter_inclusive[of "(2025, 12, 31)" "Some (2023, 1, 1)" "Some (2025, 12, 31)"
          "''23:59:59.000000000Z''"]
        date_filter_inclusive[of "(2022, 12, 31)" "Some (2023, 1, 1)" "Some (2025, 12, 31)"
          "''23:59:59.000000000Z''"]
        date_filter_inclusive[of "(2026, 1, 1)" "Some (2023, 1, 1)" "Some (2025, 12, 31)"
          "''00:00:00.000000000Z''"]
        i v
    by (simp add: date_le_def)
qed


subsection \<open>The cumulative adjustment of the auxiliary series\<close>

lemmas dec_defs = dec_float_def dec_unsigned_def digit_val_def dec_int_def dec_nat_def

lemmas err_defs = bind_err_def dict_get_def parse_float_def parse_int_def index_row_def

lemma compute_adjustment_sum:
  "compute_adjustment t rs = (\<Sum>r \<leftarrow> filter (\<lambda>r. t < switch_ms r) rs. - spread r)"
proof -
  have "fold (\<lambda>r adjustment. if t < switch_ms r then adjustment - spread r else adjustment) rs a
        = a + (\<Sum>r \<leftarrow> filter (\<lambda>r. t < switch_ms r) rs. - spread r)" for a
    by (induction rs arbitrary: a) auto
  from this[of 0] show ?thesis by (simp add: compute_adjustment_def)
qed

lemma adjust_lt_row_Inr:
  assumes "adjust_lt_row fl pint rs row = Inr out"
  shows "\<exists>u ts_ms.
           row ''unix_timestamp'' = Some u \<and> pint u = Some ts_ms
         \<and> (\<forall>key \<in> set level_keys. Option.bind (row key) fl \<noteq> None)
         \<and> levels out =
               map (\<lambda>key. py_round (the (Option.bind (row key) fl) + compute_adjustment ts_ms rs) 2)
                 level_keys
         \<and> unix_timestamp out = u
         \<and> row ''datetime'' = Some (datetime out)
         \<and> row ''sentiment'' = Some (sentiment out)"
  using assms
  by (auto simp: adjust_lt_row_def level_keys_def err_defs Let_def split: sum.splits option.splits)

text \<open>
  C4, as the code has it. The cumulative adjustment at a timestamp \<open>t\<close> is the sum of
  \<open>- spread\<close> over the rollovers whose switch is strictly after \<open>t\<close>; a rollover whose
  switch is at \<open>t\<close> itself does not count. For a row that is written, each of the five
  level fields is the raw level plus the adjustment at the row's timestamp, rounded to two
  decimals; the timestamp, the date text and the sentiment are passed through.
\<close>

theorem compute_adjustment_strictly_after:
  "compute_adjustment t rs = (\<Sum>r \<leftarrow> filter (\<lambda>r. t < switch_ms r) rs. - spread r)
   \<and> (adjust_lt_row fl pint rs row = Inr out \<longrightarrow>
        (\<exists>u ts_ms.
           row ''unix_timestamp'' = Some u \<and> pint u = Some ts_ms
         \<and> (\<forall>key \<in> set level_keys. Option.bind (row key) fl \<noteq> None)
         \<and> levels out =
               map (\<lambda>key. py_round (the (Option.bind (row key) fl) + compute_adjustment ts_ms rs) 2)
                 level_keys
         \<and> unix_timestamp out = u
         \<and> row ''datetime'' = Some (datetime out)
         \<and> row ''sentiment'' = Some (sentiment out)))"
  using compute_adjustment_sum adjust_lt_row_Inr by blast

theorem compute_adjustment_strictly_after_witness:
  "adjust_lt_row dec_float dec_int example_lt_rollovers lt_row_before =
     Inr \<lparr>datetime = ''2024-03-14 10:00:00'', unix_timestamp = ''1710410400000'',
          sentiment = ''BULLISH'', levels = [5143.88, 5134.38, 5124.12, 5113.88, 5104.62]\<rparr>
   \<and> compute_adjustment 1710410400000 example_lt_rollovers = - 56.125
   \<and> lt_row_before ''unix_timestamp'' = Some ''1710410400000''"
proof -
  have run: "adjust_lt_row dec_float dec_int example_lt_rollovers lt_row_before =
     Inr \<lparr>datetime = ''2024-03-14 10:00:00'', unix_timestamp = ''1710410400000'',
          sentiment = ''BULLISH'', levels = [5143.88, 5134.38, 5124.12, 5113.88, 5104.62]\<rparr>"
    by (simp add: adjust_lt_row_def level_keys_def lt_row_before_def example_lt_rollovers_def
        compute_adjustment_def err_defs dec_defs py_round_def round_half_even_def)
  note inst = compute_adjustment_strictly_after[of 1710410400000 example_lt_rollovers dec_float
      dec_int lt_row_before "\<lparr>datetime = ''2024-03-14 10:00:00'',
          unix_timestamp = ''1710410400000'', sentiment = ''BULLISH'',
          levels = [5143.88, 5134.38, 5124.12, 5113.88, 5104.62]\<rparr>"]
  from inst have "compute_adjustment 1710410400000 example_lt_rollovers =
        (\<Sum>r \<leftarrow> filter (\<lambda>r. 1710410400000 < switch_ms r) example_lt_rollovers. - spread r)"
    by blast
  then have adj: "compute_adjustment 1710410400000 example_lt_rollovers = - 56.125"
    by (simp add: example_lt_rollovers_def)
  from inst run have "lt_row_before ''unix_timestamp'' = Some ''1710410400000''"
    by auto
  with run adj show ?thesis by simp
qed

text \<open>
  At the instant of the switch the code applies no adjustment, where the sum over the
  rollovers at or after the timestamp would be \<open>- 56.125\<close>; and the level 5255.125 is
  written as 5255.12.
\<close>

theorem compute_adjustment_at_or_after_counterexample:
  "compute_adjustment 1710460800000 example_lt_rollovers
     \<noteq> (\<Sum>r \<leftarrow> filter (\<lambda>r. 1710460800000 \<le> switch_ms r) example_lt_rollovers. - spread r)
   \<and> compute_adjustment 1710460800000 example_lt_rollovers = 0
   \<and> adjust_lt_row dec_float dec_int example_lt_rollovers lt_row_at_switch =
       Inr \<lparr>datetime = ''2024-03-15 00:00:00'', unix_timestamp = ''1710460800000'',
            sentiment = ''BEARISH'', levels = [5255.12, 5250, 5245, 5240, 5235]\<rparr>"
  by (simp add: adjust_lt_row_def level_keys_def lt_row_at_switch_def example_lt_rollovers_def
        compute_adjustment_def err_defs dec_defs py_round_def round_half_even_def)

subsection \<open>Pass 2: one row\<close>

lemma adjusted_row_eq:
  "adjusted_row fl fmt cols adj (row ! ts_idx cols) (row ! sym_idx cols) row =
     (if parses fl cols row then Inr (continuous_row fl fmt cols adj row)
      else adjusted_row fl fmt cols adj (row ! ts_idx cols) (row ! sym_idx cols) row)
   \<and> (\<not> parses fl cols row \<longrightarrow>
        (\<exists>e. adjusted_row fl fmt cols adj (row ! ts_idx cols) (row ! sym_idx cols) row = Inl e))"
  by (auto simp: adjusted_row_def parses_def continuous_row_def price_def err_defs
           split: option.splits)

lemma adjusted_row_parses:
  "parses fl cols row \<Longrightarrow>
   adjusted_row fl fmt cols adj (row ! ts_idx cols) (row ! sym_idx cols) row
     = Inr (continuous_row fl fmt cols adj row)"
  using adjusted_row_eq[of fl fmt cols adj row] by simp

lemma adjusted_row_not_parses:
  "\<not> parses fl cols row \<Longrightarrow>
   \<exists>e. adjusted_row fl fmt cols adj (row ! ts_idx cols) (row ! sym_idx cols) row = Inl e"
  using adjusted_row_eq[of fl fmt cols adj row] by simp

lemma advance_ge: "i \<le> advance intervals ts i"
  by (induction intervals ts i rule: advance.induct)
     (subst advance.simps, auto)

lemma advance_less:
  "i < length intervals \<Longrightarrow> advance intervals ts i < length intervals"
  by (induction intervals ts i rule: advance.induct)
     (subst advance.simps, auto)

lemma advance_moved:
  "advance intervals ts i \<noteq> i \<Longrightarrow> fst (intervals ! advance intervals ts i) \<le> ts"
proof (induction intervals ts i rule: advance.induct)
  case (1 intervals ts i)
  show ?case
  proof (cases "i + 1 < length intervals \<and> ts \<ge> fst (intervals ! (i + 1))")
    case True
    then have eq: "advance intervals ts i = advance intervals ts (i + 1)"
      by (subst advance.simps) simp
    show ?thesis
    proof (cases "advance intervals ts (i + 1) = i + 1")
      case True
      with eq \<open>i + 1 < length intervals \<and> ts \<ge> fst (intervals ! (i + 1))\<close> show ?thesis by simp
    next
      case False
      with 1(1)[OF True] eq show ?thesis by simp
    qed
  next
    case False
    then have "advance intervals ts i = i" by (subst advance.simps) auto
    with 1(2) show ?thesis by simp
  qed
qed

lemma advance_stops:
  "j = advance intervals ts i \<Longrightarrow> j + 1 < length intervals \<Longrightarrow> ts < fst (intervals ! (j + 1))"
proof (induction intervals ts i rule: advance.induct)
  case (1 intervals ts i)
  show ?case
  proof (cases "i + 1 < length intervals \<and> ts \<ge> fst (intervals ! (i + 1))")
    case True
    then have eq: "advance intervals ts i = advance intervals ts (i + 1)"
      by (subst advance.simps) simp
    with 1(1)[OF True] 1(2,3) show ?thesis by simp
  next
    case False
    then have "advance intervals ts i = i" by (subst advance.simps) auto
    with False 1(2,3) show ?thesis by (auto simp: not_le)
  qed
qed

lemma advance_skip:
  "k \<le> i \<Longrightarrow> i < length intervals \<Longrightarrow> (\<forall>m. k < m \<and> m \<le> i \<longrightarrow> fst (intervals ! m) \<le> ts)
   \<Longrightarrow> advance intervals ts k = advance intervals ts i"
proof (induction "i - k" arbitrary: k)
  case 0
  then show ?case by simp
next
  case (Suc d)
  then have "k + 1 < length intervals \<and> ts \<ge> fst (intervals ! (k + 1))" by auto
  then have "advance intervals ts k = advance intervals ts (k + 1)"
    by (subst advance.simps) simp
  also have "\<dots> = advance intervals ts i"
    using Suc by (intro Suc.hyps(1)) auto
  finally show ?case .
qed

lemma advance_from_0:
  assumes "sorted (map fst intervals)" "i < length intervals" "i = 0 \<or> fst (intervals ! i) \<le> ts"
  shows "advance intervals ts i = advance intervals ts 0"
proof (cases "i = 0")
  case True
  then show ?thesis by simp
next
  case False
  with assms have le: "fst (intervals ! i) \<le> ts" by simp
  have "\<forall>m. 0 < m \<and> m \<le> i \<longrightarrow> fst (intervals ! m) \<le> ts"
  proof (intro allI impI)
    fix m assume "0 < m \<and> m \<le> i"
    with assms(1,2) have "map fst intervals ! m \<le> map fst intervals ! i"
      by (intro sorted_nth_mono) auto
    with le assms(2) \<open>0 < m \<and> m \<le> i\<close> show "fst (intervals ! m) \<le> ts" by simp
  qed
  from advance_skip[OF _ assms(2) this] show ?thesis by simp
qed

lemma pass2_row_not_kept:
  assumes "pass2_row fl fmt cols pph intervals sd ed row st = Inr st'"
      and "\<not> kept cols pph sd ed row"
  shows "fout st' = fout st \<and> interval_idx st' = interval_idx st \<and> written st' = written st"
  using assms
  by (auto simp: pass2_row_def kept_def passes_date_filter_def Let_def err_defs progress_line_def
           split: if_splits sum.splits)

lemma pass2_row_kept:
  assumes "pass2_row fl fmt cols pph intervals sd ed row st = Inr st'"
      and "kept cols pph sd ed row"
  shows "parses fl cols row
       \<and> interval_idx st' = advance intervals (row ! ts_idx cols) (interval_idx st)
       \<and> interval_idx st' < length intervals
       \<and> fout st' = fout st @ [continuous_row fl fmt cols (snd (intervals ! interval_idx st')) row]
       \<and> written st' = written st + 1"
proof -
  let ?ts = "row ! ts_idx cols" and ?sym = "row ! sym_idx cols"
  let ?idx = "advance intervals ?ts (interval_idx st)"
  from assms(2) have k: "sym_idx cols < length row" "CHR ''-'' \<notin> set ?sym" "ts_idx cols < length row"
    "\<not> before_start sd ?ts" "\<not> after_end ed ?ts" "pph (hour_key ?ts) = Some ?sym"
    by (auto simp: kept_def passes_date_filter_def)
  have body: "bind_err (index_row intervals ?idx) (\<lambda>iv.
                bind_err (adjusted_row fl fmt cols (snd iv) ?ts ?sym row) (\<lambda>out.
                  Inr (st\<lparr>row_count := row_count st + 1, interval_idx := ?idx,
                          fout := fout st @ [out], written := written st + 1\<rparr>))) = Inr st'"
    using assms(1) k
    by (auto simp: pass2_row_def Let_def bind_err_def index_row_def progress_line_def
             split: if_splits sum.splits)
  then have lt: "?idx < length intervals"
    by (auto simp: bind_err_def index_row_def split: if_splits)
  with body have adj: "bind_err (adjusted_row fl fmt cols (snd (intervals ! ?idx)) ?ts ?sym row) (\<lambda>out.
                  Inr (st\<lparr>row_count := row_count st + 1, interval_idx := ?idx,
                          fout := fout st @ [out], written := written st + 1\<rparr>)) = Inr st'"
    by (simp add: bind_err_def index_row_def)
  then have p: "parses fl cols row"
    using adjusted_row_not_parses[of fl cols row fmt "snd (intervals ! ?idx)"]
    by (cases "parses fl cols row") (auto simp: bind_err_def)
  with adj have "st' = st\<lparr>row_count := row_count st + 1, interval_idx := ?idx,
                          fout := fout st @ [continuous_row fl fmt cols (snd (intervals ! ?idx)) row],
                          written := written st + 1\<rparr>"
    by (simp add: adjusted_row_parses bind_err_def)
  with p lt show ?thesis by simp
qed

lemma pass2_row_kept_not_parses:
  assumes "kept cols pph sd ed row" "\<not> parses fl cols row"
  shows "\<exists>e. pass2_row fl fmt cols pph intervals sd ed row st = Inl e"
proof (rule ccontr)
  assume "\<not> ?thesis"
  then obtain st' where "pass2_row fl fmt cols pph intervals sd ed row st = Inr st'"
    by (cases "pass2_row fl fmt cols pph intervals sd ed row st") auto
  from pass2_row_kept[OF this assms(1)] assms(2) show False by simp
qed

subsection \<open>Pass 2: the loop\<close>

lemma pass2_loop_split:
  "pass2_loop step rows st = (st', eo) \<Longrightarrow>
   \<exists>done rest. rows = done @ rest \<and> pass2_loop step done st = (st', None) \<and>
     (case eo of None \<Rightarrow> rest = [] | Some e \<Rightarrow> rest \<noteq> [] \<and> step (hd rest) st' = Inl e)"
proof (induction rows arbitrary: st)
  case Nil
  then show ?case by auto
next
  case (Cons row rows)
  show ?case
  proof (cases "step row st")
    case (Inl e)
    with Cons.prems have "st' = st" "eo = Some e" by auto
    with Inl show ?thesis
      by (intro exI[of _ "[]"] exI[of _ "row # rows"]) simp
  next
    case (Inr st1)
    with Cons.prems have "pass2_loop step rows st1 = (st', eo)" by simp
    from Cons.IH[OF this] obtain d rest where
      "rows = d @ rest" "pass2_loop step d st1 = (st', None)"
      "(case eo of None \<Rightarrow> rest = [] | Some e \<Rightarrow> rest \<noteq> [] \<and> step (hd rest) st' = Inl e)"
      by blast
    with Inr show ?thesis
      by (intro exI[of _ "row # d"] exI[of _ rest]) simp
  qed
qed

lemma pass2_loop_append:
  "pass2_loop step done st = (st1, None) \<Longrightarrow>
   pass2_loop step (done @ rest) st = pass2_loop step rest st1"
  by (induction "done" arbitrary: st) (auto split: sum.splits)

text \<open>Every row written is the continuous bar of a kept row under one of the adjustments.\<close>

lemma pass2_loop_rows:
  assumes "pass2_loop (pass2_row fl fmt cols pph intervals sd ed) rows st = (st', None)"
  shows "\<exists>outs. fout st' = fout st @ outs
           \<and> written st' = written st + length outs
           \<and> list_all2 (\<lambda>row out. parses fl cols row \<and>
                 (\<exists>iv \<in> set intervals. out = continuous_row fl fmt cols (snd iv) row))
               (filter (kept cols pph sd ed) rows) outs"
  using assms
proof (induction rows arbitrary: st)
  case Nil
  then show ?case by simp
next
  case (Cons row rows)
  then obtain st1 where
    step: "pass2_row fl fmt cols pph intervals sd ed row st = Inr st1" and
    rest: "pass2_loop (pass2_row fl fmt cols pph intervals sd ed) rows st1 = (st', None)"
    by (auto split: sum.splits)
  from Cons.IH[OF rest] obtain outs where outs:
    "fout st' = fout st1 @ outs" "written st' = written st1 + length outs"
    "list_all2 (\<lambda>row out. parses fl cols row \<and>
                 (\<exists>iv \<in> set intervals. out = continuous_row fl fmt cols (snd iv) row))
               (filter (kept cols pph sd ed) rows) outs"
    by blast
  show ?case
  proof (cases "kept cols pph sd ed row")
    case True
    from pass2_row_kept[OF step True] outs True show ?thesis
      by (intro exI[of _ "continuous_row fl fmt cols (snd (intervals ! interval_idx st1)) row # outs"])
         auto
  next
    case False
    from pass2_row_not_kept[OF step False] outs False show ?thesis
      by (intro exI[of _ outs]) simp
  qed
qed

text \<open>
  On rows whose kept timestamps ascend, and intervals whose boundaries ascend, the scan
  that only moves forward finds for each bar the interval that a scan from the start finds.
\<close>

lemma pass2_loop_sorted:
  assumes "pass2_loop (pass2_row fl fmt cols pph intervals sd ed) rows st = (st', None)"
      and "sorted (map fst intervals)"
      and "sorted (map (\<lambda>row. row ! ts_idx cols) (filter (kept cols pph sd ed) rows))"
      and "interval_idx st < length intervals"
      and "interval_idx st = 0 \<or>
           (\<forall>row \<in> set (filter (kept cols pph sd ed) rows).
              fst (intervals ! interval_idx st) \<le> row ! ts_idx cols)"
  shows "fout st' = fout st @
           map (\<lambda>row. continuous_row fl fmt cols (adjustment_at intervals (row ! ts_idx cols)) row)
             (filter (kept cols pph sd ed) rows)
       \<and> written st' = written st + length (filter (kept cols pph sd ed) rows)
       \<and> (\<forall>row \<in> set (filter (kept cols pph sd ed) rows). parses fl cols row)"
  using assms
proof (induction rows arbitrary: st)
  case Nil
  then show ?case by simp
next
  case (Cons row rows)
  then obtain st1 where
    step: "pass2_row fl fmt cols pph intervals sd ed row st = Inr st1" and
    rest: "pass2_loop (pass2_row fl fmt cols pph intervals sd ed) rows st1 = (st', None)"
    by (auto split: sum.splits)
  show ?case
  proof (cases "kept cols pph sd ed row")
    case False
    from pass2_row_not_kept[OF step False]
    have same: "fout st1 = fout st" "interval_idx st1 = interval_idx st" "written st1 = written st"
      by auto
    from Cons.prems False same
    have "fout st' = fout st1 @
           map (\<lambda>row. continuous_row fl fmt cols (adjustment_at intervals (row ! ts_idx cols)) row)
             (filter (kept cols pph sd ed) rows)
       \<and> written st' = written st1 + length (filter (kept cols pph sd ed) rows)
       \<and> (\<forall>row \<in> set (filter (kept cols pph sd ed) rows). parses fl cols row)"
      by (intro Cons.IH[OF rest]) auto
    with False same show ?thesis by simp
  next
    case True
    let ?ts = "row ! ts_idx cols"
    from pass2_row_kept[OF step True]
    have k: "parses fl cols row" "interval_idx st1 = advance intervals ?ts (interval_idx st)"
      "interval_idx st1 < length intervals"
      "fout st1 = fout st @ [continuous_row fl fmt cols (snd (intervals ! interval_idx st1)) row]"
      "written st1 = written st + 1"
      by auto
    from Cons.prems(4,5) True have here: "interval_idx st = 0 \<or> fst (intervals ! interval_idx st) \<le> ?ts"
      by auto
    from advance_from_0[OF Cons.prems(2) Cons.prems(4) here] k(2)
    have at: "snd (intervals ! interval_idx st1) = adjustment_at intervals ?ts"
      by (simp add: adjustment_at_def)
    from Cons.prems(3) True
    have later: "\<forall>r \<in> set (filter (kept cols pph sd ed) rows). ?ts \<le> r ! ts_idx cols"
      and srt: "sorted (map (\<lambda>row. row ! ts_idx cols) (filter (kept cols pph sd ed) rows))"
      by auto
    have inv: "interval_idx st1 = 0 \<or>
           (\<forall>r \<in> set (filter (kept cols pph sd ed) rows).
              fst (intervals ! interval_idx st1) \<le> r ! ts_idx cols)"
    proof (cases "interval_idx st1 = interval_idx st")
      case True
      with Cons.prems(5) show ?thesis by auto
    next
      case False
      with k(2) advance_moved[of intervals ?ts "interval_idx st"]
      have "fst (intervals ! interval_idx st1) \<le> ?ts" by simp
      with later show ?thesis by (meson order_trans)
    qed
    from Cons.IH[OF rest Cons.prems(2) srt k(3) inv] k at True show ?thesis
      by simp
  qed
qed

subsection \<open>The interval found by the scan\<close>

lemma filter_eq_drop:
  assumes "\<forall>m < j. \<not> P (xs ! m)" "\<forall>m. j \<le> m \<and> m < length xs \<longrightarrow> P (xs ! m)" "j \<le> length xs"
  shows "filter P xs = drop j xs"
proof -
  have a: "filter P (take j xs) = []"
    using assms(1,3) by (auto simp: filter_empty_conv in_set_conv_nth)
  have b: "filter P (drop j xs) = drop j xs"
    using assms(2,3) by (auto simp: filter_id_conv in_set_conv_nth)
  have "filter P xs = filter P (take j xs @ drop j xs)" by simp
  also have "\<dots> = drop j xs" unfolding filter_append a b by simp
  finally show ?thesis .
qed

lemma adjustment_at_sum:
  assumes "sorted (map date rs)" "\<forall>r \<in> set rs. length (date r) = 10"
  shows "adjustment_at (build_adjustment_intervals rs) ts
         = - (\<Sum>r \<leftarrow> filter (\<lambda>r. ts < date r @ ''T00:00:00.000000000Z'') rs. spread r)"
proof -
  let ?iv = "build_adjustment_intervals rs"
  let ?j = "advance ?iv ts 0"
  let ?b = "\<lambda>r. date r @ ''T00:00:00.000000000Z''"
  have len: "length ?iv = length rs + 1"
    by (simp add: build_adjustment_intervals_eq del: upt_Suc)
  have srt: "sorted (map fst ?iv)"
    using assms by (rule sorted_boundaries)
  have bnd: "fst (?iv ! (m + 1)) = ?b (rs ! m)" if "m < length rs" for m
    using that by (simp add: build_adjustment_intervals_eq del: upt_Suc)
  have adj: "snd (?iv ! k) = - sum_list (map spread (drop k rs))" if "k \<le> length rs" for k
    using that by (cases k) (simp_all add: build_adjustment_intervals_eq del: upt_Suc)
  have jlt: "?j < length ?iv"
    by (rule advance_less) (simp add: len)
  have before: "\<not> ts < ?b (rs ! m)" if "m < ?j" for m
  proof -
    from that have "?j \<noteq> 0" by simp
    from advance_moved[OF this] have "fst (?iv ! ?j) \<le> ts" .
    moreover have "map fst ?iv ! (m + 1) \<le> map fst ?iv ! ?j"
      using srt that jlt by (intro sorted_nth_mono) auto
    moreover have "m < length rs" using that jlt len by simp
    ultimately show ?thesis using bnd[of m] jlt that by (simp add: not_less)
  qed
  have after: "ts < ?b (rs ! m)" if "?j \<le> m" "m < length rs" for m
  proof -
    from that have "?j + 1 < length ?iv" by (simp add: len)
    from advance_stops[OF refl this] have "ts < fst (?iv ! (?j + 1))" .
    moreover have "map fst ?iv ! (?j + 1) \<le> map fst ?iv ! (m + 1)"
      using srt that len by (intro sorted_nth_mono) auto
    ultimately show ?thesis using bnd[of m] that len by simp
  qed
  have "filter (\<lambda>r. ts < ?b r) rs = drop ?j rs"
    using before after jlt len by (intro filter_eq_drop) auto
  moreover have "adjustment_at ?iv ts = - sum_list (map spread (drop ?j rs))"
    using adj[of ?j] jlt len by (simp add: adjustment_at_def)
  ultimately show ?thesis by simp
qed

subsection \<open>The back-adjustment of the in-memory builder\<close>

lemma back_adjust_fold:
  "fold (\<lambda>r bars.
             map (\<lambda>b. if ts_event b < find_rollover_minute r then subtract_spread (ev_spread r) b
                       else b) bars) rs bars
   = map (\<lambda>b. b\<lparr>bar_open := bar_open b - (\<Sum>r \<leftarrow> filter (\<lambda>r. ts_event b < find_rollover_minute r) rs. ev_spread r),
                bar_high := bar_high b - (\<Sum>r \<leftarrow> filter (\<lambda>r. ts_event b < find_rollover_minute r) rs. ev_spread r),
                bar_low := bar_low b - (\<Sum>r \<leftarrow> filter (\<lambda>r. ts_event b < find_rollover_minute r) rs. ev_spread r),
                bar_close := bar_close b - (\<Sum>r \<leftarrow> filter (\<lambda>r. ts_event b < find_rollover_minute r) rs. ev_spread r)\<rparr>) bars"
proof (induction rs arbitrary: bars)
  case Nil
  show ?case by (simp add: map_idI)
next
  case (Cons r rs)
  show ?case
    by (simp add: Cons.IH comp_def subtract_spread_def algebra_simps cong: map_cong)
qed

lemma back_adjust_eq:
  "back_adjust rollovers bars =
     map (\<lambda>b. let a = - (\<Sum>r \<leftarrow> filter (\<lambda>r. ts_event b < find_rollover_minute r) rollovers. ev_spread r)
               in b\<lparr>bar_open := bar_open b + a, bar_high := bar_high b + a,
                    bar_low := bar_low b + a, bar_close := bar_close b + a\<rparr>) bars"
  unfolding back_adjust_def back_adjust_fold
  by (simp add: Let_def sum_list_rev rev_filter[symmetric] rev_map[symmetric] del: rev_filter rev_map)

subsection \<open>The example files, run\<close>

lemmas fmt_defs = fmt9_def fmt_nat9_def pad9_def round_half_even_def show_nat.simps

lemmas example_defs = example_file_def example_header_def row_h4_before_def row_m4_before_def
  row_h4_after_def row_spread_def row_m4_after_def example_log_rows_def bad_file_def
  row_h4_bad_def tolerated_file_def row_spread_garbage_def row_m4_garbage_def short_file_def

lemmas pass_defs = progress_line_def PROGRESS_INTERVAL_def before_start_def after_end_def
  truthy_def hour_key_def Let_def

lemma example_columns: "find_columns example_header = Inr example_cols"
  by (simp add: find_columns_def col_idx_def example_header_def example_cols_def
        enumerate_eq_zip err_defs upt_rec[of 0] upt_rec[of "Suc _"] del: upt_Suc)

lemma example_load: "load_rollover_log dec_float example_log_rows = Inr example_rollovers"
  by (simp add: load_rollover_log_def load_rollover_row_def example_log_rows_def
        example_rollovers_def err_defs dec_defs)

lemma example_build: "build_adjustment_intervals example_rollovers = example_intervals"
  by (simp add: build_adjustment_intervals_eq example_rollovers_def example_intervals_def)

lemma example_pass1:
  "pass1_primary_contracts dec_float example_file None None = Inr example_pph"
  apply (simp add: pass1_primary_contracts_def example_defs col_idx_def enumerate_eq_zip
        err_defs upt_rec[of 0] upt_rec[of "Suc _"] del: upt_Suc)
  apply (simp add: pass1_row_def pass_defs err_defs dec_defs example_pph_def)
  done

lemma example_pass2:
  "pass2_filter_adjust_write dec_float fmt9 example_file example_pph example_intervals None None
   = (example_output, Inr 3)"
  apply (simp add: pass2_filter_adjust_write_def example_file_def example_columns)
  apply (simp add: pass2_row_def pass_defs err_defs example_pph_def example_defs
        example_cols_def example_intervals_def advance.simps adjusted_row_def dec_defs
        example_output_def output_header_def)
  apply (simp add: fmt_defs)
  done

lemma example_main:
  "main dec_float fmt9 None None (Some example_file) (Some example_log_rows) None
   = (Inr 3, Some example_output)"
  by (simp add: main_def start_date_of_def end_date_of_def truthy_def example_load
        example_build example_pass1 example_pass2)

lemma bad_pass1:
  "pass1_primary_contracts dec_float bad_file None None = Inr example_pph"
  apply (simp add: pass1_primary_contracts_def example_defs col_idx_def enumerate_eq_zip
        err_defs upt_rec[of 0] upt_rec[of "Suc _"] del: upt_Suc)
  apply (simp add: pass1_row_def pass_defs err_defs dec_defs example_pph_def)
  done

lemma bad_pass2:
  "pass2_filter_adjust_write dec_float fmt9 bad_file example_pph example_intervals None None
   = ([output_header, example_output ! 1], Inl (ValueError ''n/a''))"
  apply (simp add: pass2_filter_adjust_write_def bad_file_def example_columns)
  apply (simp add: pass2_row_def pass_defs err_defs example_pph_def example_defs
        example_cols_def example_intervals_def advance.simps adjusted_row_def dec_defs
        example_output_def output_header_def)
  apply (simp add: fmt_defs)
  done

lemma bad_main:
  "main dec_float fmt9 None None (Some bad_file) (Some example_log_rows) None
   = (Inl (ValueError ''n/a''), Some [output_header, example_output ! 1])"
  by (simp add: main_def start_date_of_def end_date_of_def truthy_def example_load
        example_build bad_pass1 bad_pass2)

lemma tolerated_pass1:
  "pass1_primary_contracts dec_float tolerated_file None None = Inr tolerated_pph"
  apply (simp add: pass1_primary_contracts_def example_defs col_idx_def enumerate_eq_zip
        err_defs upt_rec[of 0] upt_rec[of "Suc _"] del: upt_Suc)
  apply (simp add: pass1_row_def pass_defs err_defs dec_defs tolerated_pph_def)
  done

lemma tolerated_pass2:
  "pass2_filter_adjust_write dec_float fmt9 tolerated_file tolerated_pph example_intervals None None
   = ([output_header, example_output ! 1], Inr 1)"
  apply (simp add: pass2_filter_adjust_write_def tolerated_file_def example_columns)
  apply (simp add: pass2_row_def pass_defs err_defs tolerated_pph_def example_defs
        example_cols_def example_intervals_def advance.simps adjusted_row_def dec_defs
        example_output_def output_header_def)
  apply (simp add: fmt_defs)
  done

lemma tolerated_main:
  "main dec_float fmt9 None None (Some tolerated_file) (Some example_log_rows) None
   = (Inr 1, Some [output_header, example_output ! 1])"
  by (simp add: main_def start_date_of_def end_date_of_def truthy_def example_load
        example_build tolerated_pass1 tolerated_pass2)

subsection \<open>Pass 2: the file written\<close>

lemma pass2_run:
  assumes "pass2_filter_adjust_write fl fmt (header # rows) pph intervals sd ed = (out, res)"
      and "find_columns header = Inr cols"
  shows "\<exists>st' eo. pass2_loop (pass2_row fl fmt cols pph intervals sd ed) rows
                     \<lparr>row_count = 0, written = 0, skipped_spreads = 0,
                      skipped_non_primary = 0, skipped_date = 0, interval_idx = 0,
                      fout = [output_header]\<rparr> = (st', eo)
                 \<and> out = fout st'
                 \<and> res = (case eo of None \<Rightarrow> Inr (written st') | Some e \<Rightarrow> Inl e)"
  using assms
  by (auto simp: pass2_filter_adjust_write_def split: prod.splits option.splits)

lemma pass2_written_rows:
  assumes "pass2_filter_adjust_write fl fmt (header # rows) pph intervals sd ed = (out, res)"
      and "find_columns header = Inr cols"
  shows "\<exists>done rest outs.
           rows = done @ rest
         \<and> (case res of
               Inr n \<Rightarrow> rest = [] \<and> n = length outs
             | Inl e \<Rightarrow> rest \<noteq> [] \<and>
                 (\<exists>st. pass2_row fl fmt cols pph intervals sd ed (hd rest) st = Inl e))
         \<and> out = output_header # outs
         \<and> list_all2 (\<lambda>row w. parses fl cols row \<and>
                (\<exists>iv \<in> set intervals. w = continuous_row fl fmt cols (snd iv) row))
              (filter (kept cols pph sd ed) done) outs"
proof -
  let ?st0 = "\<lparr>row_count = 0, written = 0, skipped_spreads = 0,
                skipped_non_primary = 0, skipped_date = 0, interval_idx = 0,
                fout = [output_header]\<rparr>"
  let ?step = "pass2_row fl fmt cols pph intervals sd ed"
  from pass2_run[OF assms] obtain st' eo where
    loop: "pass2_loop ?step rows ?st0 = (st', eo)" and
    out: "out = fout st'" and
    res: "res = (case eo of None \<Rightarrow> Inr (written st') | Some e \<Rightarrow> Inl e)"
    by blast
  from pass2_loop_split[OF loop] obtain d rest where
    split: "rows = d @ rest" "pass2_loop ?step d ?st0 = (st', None)"
      "(case eo of None \<Rightarrow> rest = [] | Some e \<Rightarrow> rest \<noteq> [] \<and> ?step (hd rest) st' = Inl e)"
    by blast
  from pass2_loop_rows[OF split(2)] obtain outs where
    outs: "fout st' = fout ?st0 @ outs" "written st' = written ?st0 + length outs"
      "list_all2 (\<lambda>row w. parses fl cols row \<and>
                (\<exists>iv \<in> set intervals. w = continuous_row fl fmt cols (snd iv) row))
              (filter (kept cols pph sd ed) d) outs"
    by blast
  show ?thesis
    using split(1,3) outs out res
    by (intro exI[of _ d] exI[of _ rest] exI[of _ outs]) (auto split: option.splits)
qed

lemma sorted_filter_prefix:
  "sorted (map f (filter P (xs @ ys))) \<Longrightarrow> sorted (map f (filter P xs))"
  by (simp add: sorted_append)

lemma pass2_sorted_rows:
  assumes "pass2_filter_adjust_write fl fmt (header # rows) pph intervals sd ed = (out, res)"
      and "find_columns header = Inr cols"
      and "intervals \<noteq> []" "sorted (map fst intervals)"
      and "sorted (map (\<lambda>row. row ! ts_idx cols) (filter (kept cols pph sd ed) rows))"
  shows "\<exists>done rest.
           rows = done @ rest
         \<and> (case res of
               Inr n \<Rightarrow> rest = [] \<and> n = length (filter (kept cols pph sd ed) done)
             | Inl e \<Rightarrow> rest \<noteq> [] \<and>
                 (\<exists>st. pass2_row fl fmt cols pph intervals sd ed (hd rest) st = Inl e))
         \<and> out = output_header #
                  map (\<lambda>row. continuous_row fl fmt cols
                                (adjustment_at intervals (row ! ts_idx cols)) row)
                    (filter (kept cols pph sd ed) done)
         \<and> (\<forall>row \<in> set (filter (kept cols pph sd ed) done). parses fl cols row)"
proof -
  let ?st0 = "\<lparr>row_count = 0, written = 0, skipped_spreads = 0,
                skipped_non_primary = 0, skipped_date = 0, interval_idx = 0,
                fout = [output_header]\<rparr>"
  let ?step = "pass2_row fl fmt cols pph intervals sd ed"
  from pass2_run[OF assms(1,2)] obtain st' eo where
    loop: "pass2_loop ?step rows ?st0 = (st', eo)" and
    out: "out = fout st'" and
    res: "res = (case eo of None \<Rightarrow> Inr (written st') | Some e \<Rightarrow> Inl e)"
    by blast
  from pass2_loop_split[OF loop] obtain d rest where
    split: "rows = d @ rest" "pass2_loop ?step d ?st0 = (st', None)"
      "(case eo of None \<Rightarrow> rest = [] | Some e \<Rightarrow> rest \<noteq> [] \<and> ?step (hd rest) st' = Inl e)"
    by blast
  have srt: "sorted (map (\<lambda>row. row ! ts_idx cols) (filter (kept cols pph sd ed) d))"
    using assms(5) split(1) sorted_filter_prefix by blast
  from pass2_loop_sorted[OF split(2) assms(4) srt] assms(3)
  have "fout st' = fout ?st0 @
           map (\<lambda>row. continuous_row fl fmt cols (adjustment_at intervals (row ! ts_idx cols)) row)
             (filter (kept cols pph sd ed) d)
       \<and> written st' = written ?st0 + length (filter (kept cols pph sd ed) d)
       \<and> (\<forall>row \<in> set (filter (kept cols pph sd ed) d). parses fl cols row)"
    by simp
  then show ?thesis
    using split(1,3) out res
    by (intro exI[of _ d] exI[of _ rest]) (auto split: option.splits)
qed

subsection \<open>The empty log\<close>

lemma list_all2_in_set:
  "list_all2 R xs ys \<Longrightarrow> y \<in> set ys \<Longrightarrow> \<exists>x \<in> set xs. R x y"
  by (induction rule: list_all2_induct) auto

lemma pass2_each_written_row:
  assumes "pass2_filter_adjust_write fl fmt (header # rows) pph intervals sd ed = (out, res)"
      and "find_columns header = Inr cols"
      and "w \<in> set (tl out)"
  shows "\<exists>row \<in> set rows. \<exists>iv \<in> set intervals.
           kept cols pph sd ed row \<and> parses fl cols row \<and>
           w = continuous_row fl fmt cols (snd iv) row"
proof -
  from pass2_written_rows[OF assms(1,2)] obtain d rest outs where
    *: "rows = d @ rest" "out = output_header # outs"
       "list_all2 (\<lambda>row w. parses fl cols row \<and>
                (\<exists>iv \<in> set intervals. w = continuous_row fl fmt cols (snd iv) row))
              (filter (kept cols pph sd ed) d) outs"
    by blast
  from *(2) assms(3) have "w \<in> set outs" by simp
  from list_all2_in_set[OF *(3) this] *(1) show ?thesis by auto
qed

text \<open>
  C10. With an empty rollover log exactly one interval is built, with the boundary
  \<open>''''\<close> (the unbounded past) and the adjustment 0; and every row that pass 2 writes
  under these intervals is the row of a kept bar with its timestamp, volume and symbol, and
  with each of open, high, low and close the raw value of the input (\<open>price\<close> is the
  number read from the input text; the output text is that number as \<open>fmt\<close> renders it).
\<close>

theorem empty_log_identity:
  "build_adjustment_intervals [] = [('''', 0)]
   \<and> (pass2_filter_adjust_write fl fmt (header # rows) pph (build_adjustment_intervals []) sd ed
         = (out, res)
       \<and> find_columns header = Inr cols \<longrightarrow>
       (\<forall>w \<in> set (tl out). \<exists>row \<in> set rows.
           kept cols pph sd ed row \<and> parses fl cols row \<and>
           w = [row ! ts_idx cols,
                fmt (price fl row (open_idx cols)), fmt (price fl row (high_idx cols)),
                fmt (price fl row (low_idx cols)), fmt (price fl row (close_idx cols)),
                row ! vol_idx cols, ''ES_continuous'', row ! sym_idx cols]))"
proof -
  have iv: "build_adjustment_intervals [] = [('''', 0)]"
    by (simp add: build_adjustment_intervals_def)
  show ?thesis
  proof (intro conjI impI ballI)
    show "build_adjustment_intervals [] = [('''', 0)]" by (rule iv)
  next
    fix w
    assume run: "pass2_filter_adjust_write fl fmt (header # rows) pph
                   (build_adjustment_intervals []) sd ed = (out, res)
                 \<and> find_columns header = Inr cols"
       and w: "w \<in> set (tl out)"
    from pass2_each_written_row[of fl fmt header rows pph "[('''', 0)]" sd ed out res cols w]
      run w iv
    obtain row where "row \<in> set rows" "kept cols pph sd ed row" "parses fl cols row"
      "w = continuous_row fl fmt cols 0 row"
      by auto
    then show "\<exists>row \<in> set rows.
           kept cols pph sd ed row \<and> parses fl cols row \<and>
           w = [row ! ts_idx cols,
                fmt (price fl row (open_idx cols)), fmt (price fl row (high_idx cols)),
                fmt (price fl row (low_idx cols)), fmt (price fl row (close_idx cols)),
                row ! vol_idx cols, ''ES_continuous'', row ! sym_idx cols]"
      by (auto simp: continuous_row_def)
  qed
qed

lemma short_pass2:
  "pass2_filter_adjust_write dec_float fmt9 short_file tolerated_pph [('''', 0)] None None
   = ([output_header,
       [''2024-03-14T23:59:59.000000000Z'', ''5200.000000000'', ''5200.500000000'',
        ''5199.750000000'', ''5200.250000000'', ''12'', ''ES_continuous'', ''ESH4'']], Inr 1)"
  apply (simp add: pass2_filter_adjust_write_def short_file_def example_columns)
  apply (simp add: pass2_row_def pass_defs err_defs tolerated_pph_def example_defs
        example_cols_def advance.simps adjusted_row_def dec_defs output_header_def)
  apply (simp add: fmt_defs)
  done

theorem empty_log_identity_witness:
  "pass2_filter_adjust_write dec_float fmt9 short_file tolerated_pph
     (build_adjustment_intervals []) None None
   = ([output_header,
       [''2024-03-14T23:59:59.000000000Z'', ''5200.000000000'', ''5200.500000000'',
        ''5199.750000000'', ''5200.250000000'', ''12'', ''ES_continuous'', ''ESH4'']], Inr 1)
   \<and> find_columns example_header = Inr example_cols
   \<and> (\<exists>row \<in> set [row_h4_before, row_m4_before].
         kept example_cols tolerated_pph None None row \<and> parses dec_float example_cols row \<and>
         [''2024-03-14T23:59:59.000000000Z'', ''5200.000000000'', ''5200.500000000'',
          ''5199.750000000'', ''5200.250000000'', ''12'', ''ES_continuous'', ''ESH4'']
         = [row ! ts_idx example_cols,
            fmt9 (price dec_float row (open_idx example_cols)),
            fmt9 (price dec_float row (high_idx example_cols)),
            fmt9 (price dec_float row (low_idx example_cols)),
            fmt9 (price dec_float row (close_idx example_cols)),
            row ! vol_idx example_cols, ''ES_continuous'', row ! sym_idx example_cols])"
proof -
  let ?w = "[''2024-03-14T23:59:59.000000000Z'', ''5200.000000000'', ''5200.500000000'',
        ''5199.750000000'', ''5200.250000000'', ''12'', ''ES_continuous'', ''ESH4'']"
  have iv: "build_adjustment_intervals [] = [('''', 0)]"
    by (simp add: build_adjustment_intervals_def)
  have run: "pass2_filter_adjust_write dec_float fmt9 (example_header # [row_h4_before, row_m4_before])
       tolerated_pph (build_adjustment_intervals []) None None
   = ([output_header, ?w], Inr 1)"
    using short_pass2 by (simp add: iv short_file_def)
  from empty_log_identity[of dec_float fmt9 example_header "[row_h4_before, row_m4_before]"
      tolerated_pph None None "[output_header, ?w]" "Inr 1" example_cols] run example_columns
  have "\<forall>w \<in> set (tl [output_header, ?w]). \<exists>row \<in> set [row_h4_before, row_m4_before].
           kept example_cols tolerated_pph None None row \<and> parses dec_float example_cols row \<and>
           w = [row ! ts_idx example_cols,
            fmt9 (price dec_float row (open_idx example_cols)),
            fmt9 (price dec_float row (high_idx example_cols)),
            fmt9 (price dec_float row (low_idx example_cols)),
            fmt9 (price dec_float row (close_idx example_cols)),
            row ! vol_idx example_cols, ''ES_continuous'', row ! sym_idx example_cols]"
    by blast
  moreover have "?w \<in> set (tl [output_header, ?w])"
    by simp
  ultimately have ex: "\<exists>row \<in> set [row_h4_before, row_m4_before].
           kept example_cols tolerated_pph None None row \<and> parses dec_float example_cols row \<and>
           ?w = [row ! ts_idx example_cols,
            fmt9 (price dec_float row (open_idx example_cols)),
            fmt9 (price dec_float row (high_idx example_cols)),
            fmt9 (price dec_float row (low_idx example_cols)),
            fmt9 (price dec_float row (close_idx example_cols)),
            row ! vol_idx example_cols, ''ES_continuous'', row ! sym_idx example_cols]"
    by (rule bspec)
  show ?thesis
  proof (intro conjI)
    show "pass2_filter_adjust_write dec_float fmt9 short_file tolerated_pph
            (build_adjustment_intervals []) None None = ([output_header, ?w], Inr 1)"
      using run by (simp add: short_file_def)
    show "find_columns example_header = Inr example_cols"
      by (rule example_columns)
    show "\<exists>row \<in> set [row_h4_before, row_m4_before].
           kept example_cols tolerated_pph None None row \<and> parses dec_float example_cols row \<and>
           ?w = [row ! ts_idx example_cols,
            fmt9 (price dec_float row (open_idx example_cols)),
            fmt9 (price dec_float row (high_idx example_cols)),
            fmt9 (price dec_float row (low_idx example_cols)),
            fmt9 (price dec_float row (close_idx example_cols)),
            row ! vol_idx example_cols, ''ES_continuous'', row ! sym_idx example_cols]"
      by (rule ex)
  qed
qed

subsection \<open>What a written row keeps\<close>

lemma back_adjust_nth:
  assumes "i < length bars"
  shows "ts_event (back_adjust rollovers bars ! i) = ts_event (bars ! i)
       \<and> bar_volume (back_adjust rollovers bars ! i) = bar_volume (bars ! i)
       \<and> bar_symbol (back_adjust rollovers bars ! i) = bar_symbol (bars ! i)
       \<and> bar_open (back_adjust rollovers bars ! i)
           = bar_open (bars ! i) + batch_adjustment rollovers (ts_event (bars ! i))
       \<and> bar_high (back_adjust rollovers bars ! i)
           = bar_high (bars ! i) + batch_adjustment rollovers (ts_event (bars ! i))
       \<and> bar_low (back_adjust rollovers bars ! i)
           = bar_low (bars ! i) + batch_adjustment rollovers (ts_event (bars ! i))
       \<and> bar_close (back_adjust rollovers bars ! i)
           = bar_close (bars ! i) + batch_adjustment rollovers (ts_event (bars ! i))"
  using assms by (simp add: back_adjust_eq batch_adjustment_def Let_def)

lemma length_back_adjust: "length (back_adjust rollovers bars) = length bars"
  by (simp add: back_adjust_eq)

text \<open>
  C9, as the code has it. Every row that pass 2 writes is the row of a kept bar of the input:
  its timestamp and its volume are the texts of the input row, unchanged; open, high, low and
  close are the input's numbers plus the adjustment of one and the same interval, rendered by
  \<open>fmt\<close>; the symbol column holds the fixed name \<open>ES_continuous\<close>, and the symbol of the
  input row is written to the added contract column. The back-adjustment of the in-memory
  builder keeps the number of bars and, bar by bar, the timestamp, the volume and the symbol,
  and adds the same adjustment to the four prices.
\<close>

theorem only_prices_shifted:
  "(pass2_filter_adjust_write fl fmt (header # rows) pph intervals sd ed = (out, res)
       \<and> find_columns header = Inr cols \<longrightarrow>
       (\<forall>w \<in> set (tl out). \<exists>row \<in> set rows. \<exists>iv \<in> set intervals.
           kept cols pph sd ed row \<and> parses fl cols row \<and>
           w = [row ! ts_idx cols,
                fmt (price fl row (open_idx cols) + snd iv),
                fmt (price fl row (high_idx cols) + snd iv),
                fmt (price fl row (low_idx cols) + snd iv),
                fmt (price fl row (close_idx cols) + snd iv),
                row ! vol_idx cols, ''ES_continuous'', row ! sym_idx cols]))
   \<and> length (back_adjust rollovers bars) = length bars
   \<and> (\<forall>i < length bars.
         ts_event (back_adjust rollovers bars ! i) = ts_event (bars ! i)
       \<and> bar_volume (back_adjust rollovers bars ! i) = bar_volume (bars ! i)
       \<and> bar_symbol (back_adjust rollovers bars ! i) = bar_symbol (bars ! i)
       \<and> bar_open (back_adjust rollovers bars ! i)
           = bar_open (bars ! i) + batch_adjustment rollovers (ts_event (bars ! i))
       \<and> bar_high (back_adjust rollovers bars ! i)
           = bar_high (bars ! i) + batch_adjustment rollovers (ts_event (bars ! i))
       \<and> bar_low (back_adjust rollovers bars ! i)
           = bar_low (bars ! i) + batch_adjustment rollovers (ts_event (bars ! i))
       \<and> bar_close (back_adjust rollovers bars ! i)
           = bar_close (bars ! i) + batch_adjustment rollovers (ts_event (bars ! i)))"
proof (intro conjI impI allI ballI)
  fix w
  assume run: "pass2_filter_adjust_write fl fmt (header # rows) pph intervals sd ed = (out, res)
                 \<and> find_columns header = Inr cols"
     and w: "w \<in> set (tl out)"
  from pass2_each_written_row[of fl fmt header rows pph intervals sd ed out res cols w] run w
  show "\<exists>row \<in> set rows. \<exists>iv \<in> set intervals.
           kept cols pph sd ed row \<and> parses fl cols row \<and>
           w = [row ! ts_idx cols,
                fmt (price fl row (open_idx cols) + snd iv),
                fmt (price fl row (high_idx cols) + snd iv),
                fmt (price fl row (low_idx cols) + snd iv),
                fmt (price fl row (close_idx cols) + snd iv),
                row ! vol_idx cols, ''ES_continuous'', row ! sym_idx cols]"
    unfolding continuous_row_def by blast
next
  show "length (back_adjust rollovers bars) = length bars"
    by (rule length_back_adjust)
qed (use back_adjust_nth in blast)+

lemma example_back_adjust:
  "back_adjust example_measured example_bars =
     [\<lparr>ts_event = 1710460740000000000, bar_open = 5143.875, bar_high = 5144.375,
       bar_low = 5143.625, bar_close = 5144.125, bar_volume = 12, bar_symbol = ''ESH4''\<rparr>,
      \<lparr>ts_event = 1710464400000000000, bar_open = 5257, bar_high = 5257.25, bar_low = 5256.75,
       bar_close = 5257, bar_volume = 20, bar_symbol = ''ESM4''\<rparr>,
      \<lparr>ts_event = 1710468000000000000, bar_open = 5257, bar_high = 5258.5, bar_low = 5257,
       bar_close = 5258.25, bar_volume = 31, bar_symbol = ''ESM4''\<rparr>]"
  by (simp add: back_adjust_def example_measured_def example_bars_def find_rollover_minute_def
        day_start_def subtract_spread_def)

theorem only_prices_shifted_witness:
  "pass2_filter_adjust_write dec_float fmt9 example_file example_pph example_intervals None None
     = (example_output, Inr 3)
   \<and> find_columns example_header = Inr example_cols
   \<and> (\<exists>row \<in> set (tl example_file). \<exists>iv \<in> set example_intervals.
         kept example_cols example_pph None None row \<and> parses dec_float example_cols row \<and>
         example_output ! 1 =
           [row ! ts_idx example_cols,
            fmt9 (price dec_float row (open_idx example_cols) + snd iv),
            fmt9 (price dec_float row (high_idx example_cols) + snd iv),
            fmt9 (price dec_float row (low_idx example_cols) + snd iv),
            fmt9 (price dec_float row (close_idx example_cols) + snd iv),
            row ! vol_idx example_cols, ''ES_continuous'', row ! sym_idx example_cols])
   \<and> 0 < length example_bars
   \<and> bar_volume (back_adjust example_measured example_bars ! 0) = 12
   \<and> ts_event (back_adjust example_measured example_bars ! 0) = 1710460740000000000
   \<and> bar_close (back_adjust example_measured example_bars ! 0)
       = bar_close (example_bars ! 0)
         + batch_adjustment example_measured (ts_event (example_bars ! 0))"
proof -
  have run: "pass2_filter_adjust_write dec_float fmt9 (example_header # tl example_file)
               example_pph example_intervals None None = (example_output, Inr 3)"
    using example_pass2 by (simp add: example_file_def)
  note inst = only_prices_shifted[of dec_float fmt9 example_header "tl example_file" example_pph
      example_intervals None None example_output "Inr 3" example_cols example_measured
      example_bars]
  from inst run example_columns
  have "\<forall>w \<in> set (tl example_output). \<exists>row \<in> set (tl example_file).
          \<exists>iv \<in> set example_intervals.
           kept example_cols example_pph None None row \<and> parses dec_float example_cols row \<and>
           w = [row ! ts_idx example_cols,
            fmt9 (price dec_float row (open_idx example_cols) + snd iv),
            fmt9 (price dec_float row (high_idx example_cols) + snd iv),
            fmt9 (price dec_float row (low_idx example_cols) + snd iv),
            fmt9 (price dec_float row (close_idx example_cols) + snd iv),
            row ! vol_idx example_cols, ''ES_continuous'', row ! sym_idx example_cols]"
    by blast
  moreover have "example_output ! 1 \<in> set (tl example_output)"
    by (simp add: example_output_def)
  ultimately have ex: "\<exists>row \<in> set (tl example_file). \<exists>iv \<in> set example_intervals.
         kept example_cols example_pph None None row \<and> parses dec_float example_cols row \<and>
         example_output ! 1 =
           [row ! ts_idx example_cols,
            fmt9 (price dec_float row (open_idx example_cols) + snd iv),
            fmt9 (price dec_float row (high_idx example_cols) + snd iv),
            fmt9 (price dec_float row (low_idx example_cols) + snd iv),
            fmt9 (price dec_float row (close_idx example_cols) + snd iv),
            row ! vol_idx example_cols, ''ES_continuous'', row ! sym_idx example_cols]"
    by (rule bspec)
  have len: "0 < length example_bars"
    by (simp add: example_bars_def)
  from inst len
  have batch: "ts_event (back_adjust example_measured example_bars ! 0)
                 = ts_event (example_bars ! 0)
       \<and> bar_volume (back_adjust example_measured example_bars ! 0)
                 = bar_volume (example_bars ! 0)
       \<and> bar_close (back_adjust example_measured example_bars ! 0)
           = bar_close (example_bars ! 0)
             + batch_adjustment example_measured (ts_event (example_bars ! 0))"
    by blast
  show ?thesis
  proof (intro conjI)
    show "pass2_filter_adjust_write dec_float fmt9 example_file example_pph example_intervals
            None None = (example_output, Inr 3)"
      by (rule example_pass2)
    show "find_columns example_header = Inr example_cols"
      by (rule example_columns)
    show "\<exists>row \<in> set (tl example_file). \<exists>iv \<in> set example_intervals.
         kept example_cols example_pph None None row \<and> parses dec_float example_cols row \<and>
         example_output ! 1 =
           [row ! ts_idx example_cols,
            fmt9 (price dec_float row (open_idx example_cols) + snd iv),
            fmt9 (price dec_float row (high_idx example_cols) + snd iv),
            fmt9 (price dec_float row (low_idx example_cols) + snd iv),
            fmt9 (price dec_float row (close_idx example_cols) + snd iv),
            row ! vol_idx example_cols, ''ES_continuous'', row ! sym_idx example_cols]"
      by (rule ex)
    show "0 < length example_bars" by (rule len)
    show "bar_volume (back_adjust example_measured example_bars ! 0) = 12"
      using batch by (simp add: example_bars_def)
    show "ts_event (back_adjust example_measured example_bars ! 0) = 1710460740000000000"
      using batch by (simp add: example_bars_def)
    show "bar_close (back_adjust example_measured example_bars ! 0)
       = bar_close (example_bars ! 0)
         + batch_adjustment example_measured (ts_event (example_bars ! 0))"
      using batch by simp
  qed
qed

text \<open>
  In the example the row written for the first bar of ESH4 has the timestamp and the volume
  of the input row, and its symbol column differs from the input's.
\<close>

theorem symbol_column_replaced_counterexample:
  "main dec_float fmt9 None None (Some example_file) (Some example_log_rows) None
     = (Inr 3, Some example_output)
   \<and> example_output ! 1 ! 0 = example_file ! 1 ! 0
   \<and> example_output ! 1 ! 5 = example_file ! 1 ! 5
   \<and> example_file ! 1 ! 6 = ''ESH4''
   \<and> example_output ! 1 ! 6 = ''ES_continuous''
   \<and> example_output ! 1 ! 6 \<noteq> example_file ! 1 ! 6"
  using example_main
  by (simp add: example_output_def example_file_def row_h4_before_def)

subsection \<open>The adjustment within a span\<close>

lemma adjustment_at_same_span:
  assumes "sorted (map date rs)" "\<forall>r \<in> set rs. length (date r) = 10"
      and "\<forall>r \<in> set rs. (ta < date r @ ''T00:00:00.000000000Z'')
                        \<longleftrightarrow> (tb < date r @ ''T00:00:00.000000000Z'')"
  shows "adjustment_at (build_adjustment_intervals rs) ta
         = adjustment_at (build_adjustment_intervals rs) tb"
proof -
  have "filter (\<lambda>r. ta < date r @ ''T00:00:00.000000000Z'') rs
        = filter (\<lambda>r. tb < date r @ ''T00:00:00.000000000Z'') rs"
    using assms(3) by (intro filter_cong) auto
  then show ?thesis
    by (simp add: adjustment_at_sum[OF assms(1,2)])
qed

lemma batch_adjustment_same_span:
  assumes "\<forall>r \<in> set rollovers. (ta < find_rollover_minute r) \<longleftrightarrow> (tb < find_rollover_minute r)"
  shows "batch_adjustment rollovers ta = batch_adjustment rollovers tb"
proof -
  have "filter (\<lambda>r. ta < find_rollover_minute r) rollovers
        = filter (\<lambda>r. tb < find_rollover_minute r) rollovers"
    using assms by (intro filter_cong) auto
  then show ?thesis by (simp add: batch_adjustment_def)
qed

lemma build_adjustment_intervals_nonempty: "build_adjustment_intervals rs \<noteq> []"
  by (simp add: build_adjustment_intervals_eq del: upt_Suc)

lemma example_kept:
  "filter (kept example_cols example_pph None None) (tl example_file)
   = [row_h4_before, row_h4_after, row_m4_after]"
  by (simp add: kept_def passes_date_filter_def pass_defs example_defs example_cols_def
        example_pph_def)

subsection \<open>Failures of the streaming builder\<close>

lemma pass2_failure_prefix:
  assumes "pass2_filter_adjust_write fl fmt (header # rows) pph intervals sd ed = (out, Inl e)"
      and "find_columns header = Inr cols"
  shows "\<exists>done bad rest n.
           rows = done @ bad # rest
         \<and> (\<exists>st. pass2_row fl fmt cols pph intervals sd ed bad st = Inl e)
         \<and> pass2_filter_adjust_write fl fmt (header # done) pph intervals sd ed = (out, Inr n)"
proof -
  let ?st0 = "\<lparr>row_count = 0, written = 0, skipped_spreads = 0,
                skipped_non_primary = 0, skipped_date = 0, interval_idx = 0,
                fout = [output_header]\<rparr>"
  let ?step = "pass2_row fl fmt cols pph intervals sd ed"
  from pass2_run[OF assms] obtain st' eo where
    loop: "pass2_loop ?step rows ?st0 = (st', eo)" and
    out: "out = fout st'" and
    res: "Inl e = (case eo of None \<Rightarrow> Inr (written st') | Some e \<Rightarrow> Inl e)"
    by blast
  from res have eo: "eo = Some e" by (cases eo) auto
  from pass2_loop_split[OF loop] eo obtain d rest where
    split: "rows = d @ rest" "pass2_loop ?step d ?st0 = (st', None)"
      "rest \<noteq> []" "?step (hd rest) st' = Inl e"
    by auto
  from split(3) obtain bad rest' where rest: "rest = bad # rest'" by (cases rest) auto
  have "pass2_filter_adjust_write fl fmt (header # d) pph intervals sd ed
          = (out, Inr (written st'))"
    using split(2) out assms(2) by (simp add: pass2_filter_adjust_write_def)
  with split(1,4) rest show ?thesis by auto
qed

lemma pass2_row_short:
  assumes "\<not> sym_idx cols < length row"
  shows "\<exists>e. pass2_row fl fmt cols pph intervals sd ed row st = Inl e"
  using assms
  by (auto simp: pass2_row_def Let_def bind_err_def index_row_def progress_line_def
           split: sum.splits)

lemma pass1_row_bad_volume:
  assumes "sym_idx' < length row" "CHR ''-'' \<notin> set (row ! sym_idx')" "ts_idx' < length row"
      and "passes_date_filter sd ed (row ! ts_idx')"
      and "\<not> vol_idx' < length row \<or> fl (row ! vol_idx') = None"
  shows "\<exists>e. pass1_row fl ts_idx' vol_idx' sym_idx' sd ed row st = Inl e"
  using assms
  by (auto simp: pass1_row_def Let_def bind_err_def index_row_def progress_line_def
        parse_float_def passes_date_filter_def split: sum.splits)

lemma main_missing_files:
  "main fl fmt args_start args_end None rollover_log output0 = (Inl (SystemExit 1), output0)"
  "main fl fmt args_start args_end (Some input_file) None output0 = (Inl (SystemExit 1), output0)"
  by (simp_all add: main_def)

lemma main_early_failures:
  "load_rollover_log fl log_rows = Inl e \<Longrightarrow>
   main fl fmt args_start args_end (Some input_file) (Some log_rows) output0 = (Inl e, output0)"
  "load_rollover_log fl log_rows = Inr rs \<Longrightarrow>
   pass1_primary_contracts fl input_file (start_date_of args_start) (end_date_of args_end) = Inl e \<Longrightarrow>
   main fl fmt args_start args_end (Some input_file) (Some log_rows) output0 = (Inl e, output0)"
  by (simp_all add: main_def)

text \<open>
  C7, as the code has it. A missing source file or rollover log ends the run with status 1
  and leaves the output file as it was, and so does an exception while the log is loaded or
  during pass 1; in pass 1 a bar that is no calendar spread and lies in the date range fails
  on a volume that is missing or no number. In pass 2 a row too short to hold the symbol
  column fails, and a kept bar fails when one of its prices is no number or a price or
  volume column is missing: the row is not skipped and the run ends there with an
  exception. What pass 2 has written before the failing row stays in the output file: the
  file it leaves is the file that a complete run on the rows before the failing row writes.
  Rows that are filtered out (calendar spreads, rows outside the date range, bars of a
  contract that is not primary) are never parsed.
\<close>

theorem streaming_failures_are_fatal:
  "main fl fmt args_start args_end None rollover_log output0 = (Inl (SystemExit 1), output0)
   \<and> main fl fmt args_start args_end (Some input_file) None output0
       = (Inl (SystemExit 1), output0)
   \<and> (load_rollover_log fl log_rows1 = Inl e1 \<longrightarrow>
        main fl fmt args_start args_end (Some input_file) (Some log_rows1) output0
          = (Inl e1, output0))
   \<and> (load_rollover_log fl log_rows = Inr rs
        \<and> pass1_primary_contracts fl input_file (start_date_of args_start)
              (end_date_of args_end) = Inl e2 \<longrightarrow>
        main fl fmt args_start args_end (Some input_file) (Some log_rows) output0
          = (Inl e2, output0))
   \<and> (sym_idx cols < length row1 \<and> CHR ''-'' \<notin> set (row1 ! sym_idx cols)
        \<and> ts_idx cols < length row1 \<and> passes_date_filter sd ed (row1 ! ts_idx cols)
        \<and> (\<not> vol_idx cols < length row1 \<or> fl (row1 ! vol_idx cols) = None) \<longrightarrow>
        (\<exists>e. pass1_row fl (ts_idx cols) (vol_idx cols) (sym_idx cols) sd ed row1 st1 = Inl e))
   \<and> (\<not> sym_idx cols < length row2 \<longrightarrow>
        (\<exists>e. pass2_row fl fmt cols pph intervals sd ed row2 st = Inl e))
   \<and> (kept cols pph sd ed row \<and> \<not> parses fl cols row \<longrightarrow>
        (\<exists>e. pass2_row fl fmt cols pph intervals sd ed row st = Inl e))
   \<and> (pass2_filter_adjust_write fl fmt (header # rows) pph intervals sd ed = (out, Inl e3)
        \<and> find_columns header = Inr cols \<longrightarrow>
        (\<exists>done bad rest n.
           rows = done @ bad # rest
         \<and> (\<exists>st. pass2_row fl fmt cols pph intervals sd ed bad st = Inl e3)
         \<and> pass2_filter_adjust_write fl fmt (header # done) pph intervals sd ed = (out, Inr n)))"
proof (intro conjI impI)
  show "main fl fmt args_start args_end None rollover_log output0 = (Inl (SystemExit 1), output0)"
    by (rule main_missing_files)
  show "main fl fmt args_start args_end (Some input_file) None output0
       = (Inl (SystemExit 1), output0)"
    by (rule main_missing_files)
next
  assume "load_rollover_log fl log_rows1 = Inl e1"
  then show "main fl fmt args_start args_end (Some input_file) (Some log_rows1) output0
          = (Inl e1, output0)"
    by (rule main_early_failures)
next
  assume "load_rollover_log fl log_rows = Inr rs
        \<and> pass1_primary_contracts fl input_file (start_date_of args_start)
              (end_date_of args_end) = Inl e2"
  then show "main fl fmt args_start args_end (Some input_file) (Some log_rows) output0
          = (Inl e2, output0)"
    using main_early_failures(2) by blast
next
  assume "sym_idx cols < length row1 \<and> CHR ''-'' \<notin> set (row1 ! sym_idx cols)
        \<and> ts_idx cols < length row1 \<and> passes_date_filter sd ed (row1 ! ts_idx cols)
        \<and> (\<not> vol_idx cols < length row1 \<or> fl (row1 ! vol_idx cols) = None)"
  then show "\<exists>e. pass1_row fl (ts_idx cols) (vol_idx cols) (sym_idx cols) sd ed row1 st1 = Inl e"
    using pass1_row_bad_volume by blast
next
  assume "\<not> sym_idx cols < length row2"
  then show "\<exists>e. pass2_row fl fmt cols pph intervals sd ed row2 st = Inl e"
    by (rule pass2_row_short)
next
  assume "kept cols pph sd ed row \<and> \<not> parses fl cols row"
  then show "\<exists>e. pass2_row fl fmt cols pph intervals sd ed row st = Inl e"
    using pass2_row_kept_not_parses by blast
next
  assume "pass2_filter_adjust_write fl fmt (header # rows) pph intervals sd ed = (out, Inl e3)
        \<and> find_columns header = Inr cols"
  then show "\<exists>done bad rest n.
           rows = done @ bad # rest
         \<and> (\<exists>st. pass2_row fl fmt cols pph intervals sd ed bad st = Inl e3)
         \<and> pass2_filter_adjust_write fl fmt (header # done) pph intervals sd ed = (out, Inr n)"
    using pass2_failure_prefix by blast
qed

lemma bad_log_load: "load_rollover_log dec_float bad_log_rows = Inl (ValueError ''abc'')"
  by (simp add: load_rollover_log_def load_rollover_row_def bad_log_rows_def err_defs dec_defs)

lemma bad_volume_pass1:
  "pass1_primary_contracts dec_float bad_volume_file None None = Inl (ValueError ''many'')"
  apply (simp add: pass1_primary_contracts_def bad_volume_file_def example_defs col_idx_def
        row_h4_bad_volume_def enumerate_eq_zip err_defs upt_rec[of 0] upt_rec[of "Suc _"]
        del: upt_Suc)
  apply (simp add: pass1_row_def pass_defs err_defs dec_defs)
  done

lemma bad_row_kept:
  "kept example_cols example_pph None None row_h4_bad
   \<and> \<not> parses dec_float example_cols row_h4_bad"
  by (simp add: kept_def parses_def passes_date_filter_def pass_defs example_cols_def
        example_pph_def row_h4_bad_def dec_defs)

lemma bad_volume_row:
  "sym_idx example_cols < length row_h4_bad_volume
   \<and> CHR ''-'' \<notin> set (row_h4_bad_volume ! sym_idx example_cols)
   \<and> ts_idx example_cols < length row_h4_bad_volume
   \<and> passes_date_filter None None (row_h4_bad_volume ! ts_idx example_cols)
   \<and> dec_float (row_h4_bad_volume ! vol_idx example_cols) = None"
  by (simp add: passes_date_filter_def pass_defs example_cols_def row_h4_bad_volume_def dec_defs)

theorem streaming_failures_are_fatal_witness:
  "main dec_float fmt9 None None None (Some example_log_rows) None = (Inl (SystemExit 1), None)
   \<and> main dec_float fmt9 None None (Some bad_file) None None = (Inl (SystemExit 1), None)
   \<and> load_rollover_log dec_float bad_log_rows = Inl (ValueError ''abc'')
   \<and> main dec_float fmt9 None None (Some bad_volume_file) (Some bad_log_rows) None
       = (Inl (ValueError ''abc''), None)
   \<and> load_rollover_log dec_float example_log_rows = Inr example_rollovers
   \<and> pass1_primary_contracts dec_float bad_volume_file None None = Inl (ValueError ''many'')
   \<and> main dec_float fmt9 None None (Some bad_volume_file) (Some example_log_rows) None
       = (Inl (ValueError ''many''), None)
   \<and> dec_float (row_h4_bad_volume ! vol_idx example_cols) = None
   \<and> (\<exists>e. pass1_row dec_float (ts_idx example_cols) (vol_idx example_cols)
              (sym_idx example_cols) None None row_h4_bad_volume
              \<lparr>p1_row_count = 0, p1_skipped_spreads = 0, p1_skipped_date = 0,
               hourly_volume = []\<rparr> = Inl e)
   \<and> \<not> sym_idx example_cols < length [''2024-03-15T00:00:00.000000000Z'', ''5200.25'']
   \<and> (\<exists>e. pass2_row dec_float fmt9 example_cols example_pph example_intervals None None
              [''2024-03-15T00:00:00.000000000Z'', ''5200.25''] pass2_start = Inl e)
   \<and> kept example_cols example_pph None None row_h4_bad
   \<and> \<not> parses dec_float example_cols row_h4_bad
   \<and> (\<exists>e. pass2_row dec_float fmt9 example_cols example_pph example_intervals None None
              row_h4_bad pass2_start = Inl e)
   \<and> pass2_filter_adjust_write dec_float fmt9 bad_file example_pph example_intervals None None
       = ([output_header, example_output ! 1], Inl (ValueError ''n/a''))
   \<and> (\<exists>done bad rest n.
         tl bad_file = done @ bad # rest
       \<and> (\<exists>st. pass2_row dec_float fmt9 example_cols example_pph example_intervals None None
                  bad st = Inl (ValueError ''n/a''))
       \<and> pass2_filter_adjust_write dec_float fmt9 (example_header # done) example_pph
             example_intervals None None = ([output_header, example_output ! 1], Inr n))"
proof -
  let ?short = "[''2024-03-15T00:00:00.000000000Z'', ''5200.25'']"
  let ?p1 = "\<lparr>p1_row_count = 0, p1_skipped_spreads = 0, p1_skipped_date = 0,
               hourly_volume = []\<rparr>"
  note inst = streaming_failures_are_fatal[of dec_float fmt9 None None
      "Some example_log_rows" None bad_volume_file bad_log_rows "ValueError ''abc''"
      example_log_rows example_rollovers "ValueError ''many''" example_cols row_h4_bad_volume
      None None ?p1 ?short example_pph example_intervals pass2_start row_h4_bad
      example_header "tl bad_file" "[output_header, example_output ! 1]" "ValueError ''n/a''"]
  note inst2 = streaming_failures_are_fatal[of dec_float fmt9 None None
      "Some example_log_rows" None bad_file]
  have none: "start_date_of None = None" "end_date_of None = None"
    by (simp_all add: start_date_of_def end_date_of_def truthy_def)
  have run: "pass2_filter_adjust_write dec_float fmt9 (example_header # tl bad_file) example_pph
      example_intervals None None = ([output_header, example_output ! 1], Inl (ValueError ''n/a''))"
    using bad_pass2 by (simp add: bad_file_def)
  have short: "\<not> sym_idx example_cols < length ?short"
    by (simp add: example_cols_def)
  from inst have c1: "main dec_float fmt9 None None None (Some example_log_rows) None
      = (Inl (SystemExit 1), None)"
    by blast
  from inst2 have c2: "main dec_float fmt9 None None (Some bad_file) None None
      = (Inl (SystemExit 1), None)"
    by blast
  from inst bad_log_load have c3: "main dec_float fmt9 None None (Some bad_volume_file)
      (Some bad_log_rows) None = (Inl (ValueError ''abc''), None)"
    by blast
  from inst example_load bad_volume_pass1 none
  have c4: "main dec_float fmt9 None None (Some bad_volume_file) (Some example_log_rows) None
       = (Inl (ValueError ''many''), None)"
    by simp
  from inst bad_volume_row
  have c5: "\<exists>e. pass1_row dec_float (ts_idx example_cols) (vol_idx example_cols)
              (sym_idx example_cols) None None row_h4_bad_volume ?p1 = Inl e"
    by (elim conjE) blast
  from inst short
  have c6: "\<exists>e. pass2_row dec_float fmt9 example_cols example_pph example_intervals None None
              ?short pass2_start = Inl e"
    by (elim conjE) blast
  from inst bad_row_kept
  have c7: "\<exists>e. pass2_row dec_float fmt9 example_cols example_pph example_intervals None None
              row_h4_bad pass2_start = Inl e"
    by (elim conjE) blast
  from inst run example_columns
  have c8: "\<exists>done bad rest n.
         tl bad_file = done @ bad # rest
       \<and> (\<exists>st. pass2_row dec_float fmt9 example_cols example_pph example_intervals None None
                  bad st = Inl (ValueError ''n/a''))
       \<and> pass2_filter_adjust_write dec_float fmt9 (example_header # done) example_pph
             example_intervals None None = ([output_header, example_output ! 1], Inr n)"
    by (elim conjE) blast
  from bad_volume_row have v: "dec_float (row_h4_bad_volume ! vol_idx example_cols) = None"
    by blast
  from bad_row_kept have k: "kept example_cols example_pph None None row_h4_bad"
    "\<not> parses dec_float example_cols row_h4_bad"
    by blast+
  show ?thesis
    by (intro conjI)
       (rule c1 c2 c3 c4 c5 c6 c7 c8 v k short bad_log_load example_load bad_volume_pass1
          bad_pass2)+
qed

text \<open>
  A kept bar whose high is no number ends the run with a ValueError, and the output file
  then holds the header and the row written before it. In another file a calendar-spread row
  without a single number and a non-primary bar with a close that is no number are passed
  over, and the run succeeds.
\<close>

theorem partial_output_counterexample:
  "main dec_float fmt9 None None (Some bad_file) (Some example_log_rows) None
     = (Inl (ValueError ''n/a''), Some [output_header, example_output ! 1])
   \<and> main dec_float fmt9 None None (Some tolerated_file) (Some example_log_rows) None
     = (Inr 1, Some [output_header, example_output ! 1])
   \<and> row_m4_garbage \<in> set tolerated_file \<and> dec_float (row_m4_garbage ! 4) = None
   \<and> row_spread_garbage \<in> set tolerated_file \<and> dec_float (row_spread_garbage ! 1) = None"
  using bad_main tolerated_main
  by (simp add: tolerated_file_def row_m4_garbage_def row_spread_garbage_def dec_defs)

subsection \<open>The auxiliary adjuster against the engine\<close>

lemma sum_filter_insort_key:
  fixes f :: "'a \<Rightarrow> real"
  shows "(\<Sum>r \<leftarrow> filter P (insort_key k x xs). f r)
         = (if P x then f x else 0) + (\<Sum>r \<leftarrow> filter P xs. f r)"
  by (induction xs) auto

lemma sum_filter_sort_key:
  fixes f :: "'a \<Rightarrow> real"
  shows "(\<Sum>r \<leftarrow> filter P (sort_key k xs). f r) = (\<Sum>r \<leftarrow> filter P xs. f r)"
  by (induction xs) (auto simp: sum_filter_insort_key)

lemma set_sort_key: "set (sort_key k xs) = set xs"
  by simp

lemma load_lt_row_Inr:
  assumes "load_lt_row fl midnight_ms row = Inr lr"
  shows "load_rollover_row fl row =
           Inr \<lparr>date = date lr, from_symbol = from_symbol lr, to_symbol = to_symbol lr,
                spread = spread lr\<rparr>"
  using assms
  by (auto simp: load_lt_row_def load_rollover_row_def err_defs split: option.splits)

lemma map_err_load_lt:
  assumes "map_err (load_lt_row fl midnight_ms) rows = Inr ls"
  shows "map_err (load_rollover_row fl) rows =
           Inr (map (\<lambda>lr. \<lparr>date = date lr, from_symbol = from_symbol lr,
                           to_symbol = to_symbol lr, spread = spread lr\<rparr>) ls)"
  using assms
proof (induction rows arbitrary: ls)
  case Nil
  then show ?case by simp
next
  case (Cons row rows)
  from Cons.prems obtain lr ls' where
    lr: "load_lt_row fl midnight_ms row = Inr lr" and
    ls': "map_err (load_lt_row fl midnight_ms) rows = Inr ls'" and
    ls: "ls = lr # ls'"
    by (auto simp: bind_err_def split: sum.splits)
  from load_lt_row_Inr[OF lr] Cons.IH[OF ls'] ls show ?case
    by (simp add: bind_err_def)
qed

lemma same_log:
  assumes "load_rollover_log fl log_rows = Inr rs"
      and "load_rollovers fl midnight_ms log_rows = Inr lrs"
  shows "\<exists>ls. lrs = sort_key switch_ms ls \<and> map date ls = map date rs
               \<and> map spread ls = map spread rs"
proof -
  from assms(2) obtain ls where
    ls: "map_err (load_lt_row fl midnight_ms) log_rows = Inr ls" "lrs = sort_key switch_ms ls"
    by (auto simp: load_rollovers_def bind_err_def split: sum.splits)
  from map_err_load_lt[OF ls(1)] assms(1)
  have "rs = map (\<lambda>lr. \<lparr>date = date lr, from_symbol = from_symbol lr,
                           to_symbol = to_symbol lr, spread = spread lr\<rparr>) ls"
    by (simp add: load_rollover_log_def)
  then have "map date ls = map date rs" "map spread ls = map spread rs"
    by (simp_all add: comp_def)
  with ls(2) show ?thesis by blast
qed

lemma sum_filter_map_eq:
  fixes g :: "'a \<Rightarrow> real" and g' :: "'b \<Rightarrow> real"
  assumes "map d xs = map d' ys" "map g xs = map g' ys"
  shows "(\<Sum>r \<leftarrow> filter (\<lambda>r. Q (d r)) xs. g r) = (\<Sum>r \<leftarrow> filter (\<lambda>r. Q (d' r)) ys. g' r)"
  using assms
proof (induction xs arbitrary: ys)
  case Nil
  then show ?case by simp
next
  case (Cons x xs)
  then obtain y ys' where "ys = y # ys'" by (cases ys) auto
  with Cons show ?case by auto
qed

lemma aux_adjustment_eq_engine:
  assumes "load_rollover_log fl log_rows = Inr rs"
      and "load_rollovers fl midnight_ms log_rows = Inr lrs"
      and "sorted (map date rs)" "\<forall>r \<in> set rs. length (date r) = 10"
      and "\<forall>r \<in> set lrs. (ts < date r @ ''T00:00:00.000000000Z'') \<longleftrightarrow> (ts_ms < switch_ms r)"
  shows "compute_adjustment ts_ms lrs = adjustment_at (build_adjustment_intervals rs) ts"
proof -
  from same_log[OF assms(1,2)] obtain ls where
    ls: "lrs = sort_key switch_ms ls" "map date ls = map date rs" "map spread ls = map spread rs"
    by blast
  have "compute_adjustment ts_ms lrs
        = (\<Sum>r \<leftarrow> filter (\<lambda>r. ts_ms < switch_ms r) lrs. - spread r)"
    by (rule compute_adjustment_sum)
  also have "filter (\<lambda>r. ts_ms < switch_ms r) lrs
             = filter (\<lambda>r. ts < date r @ ''T00:00:00.000000000Z'') lrs"
    using assms(5) by (intro filter_cong) auto
  also have "(\<Sum>r \<leftarrow> filter (\<lambda>r. ts < date r @ ''T00:00:00.000000000Z'') lrs. - spread r)
             = (\<Sum>r \<leftarrow> filter (\<lambda>r. ts < date r @ ''T00:00:00.000000000Z'') ls. - spread r)"
    unfolding ls(1) by (rule sum_filter_sort_key)
  also have "\<dots> = - (\<Sum>r \<leftarrow> filter (\<lambda>r. ts < date r @ ''T00:00:00.000000000Z'') ls. spread r)"
    by (induction ls) auto
  also have "(\<Sum>r \<leftarrow> filter (\<lambda>r. ts < date r @ ''T00:00:00.000000000Z'') ls. spread r)
             = (\<Sum>r \<leftarrow> filter (\<lambda>r. ts < date r @ ''T00:00:00.000000000Z'') rs. spread r)"
    using sum_filter_map_eq[OF ls(2,3), of "\<lambda>d. ts < d @ ''T00:00:00.000000000Z''"] .
  also have "- \<dots> = adjustment_at (build_adjustment_intervals rs) ts"
    by (rule adjustment_at_sum[OF assms(3,4), symmetric])
  finally show ?thesis .
qed

text \<open>
  C3, as the code has it. Both programs read the same rollover log, ordered by date. For a
  bar that pass 2 keeps and a row of the level series at the same instant (the bar's
  timestamp is before a rollover's boundary exactly when the row's millisecond timestamp is
  before that rollover's switch), the cumulative adjustment of the auxiliary adjuster is the
  adjustment of the bar's interval. The two programs then write different things: pass 2
  writes the adjusted close rendered by \<open>fmt\<close> (nine decimals), the adjuster writes, for a
  level equal to the bar's raw close, the same adjusted close rounded to two decimals.
\<close>

theorem auxiliary_alignment_up_to_rounding:
  assumes "load_rollover_log fl log_rows = Inr rs"
      and "load_rollovers fl midnight_ms log_rows = Inr lrs"
      and "sorted (map date rs)" and "\<forall>r \<in> set rs. length (date r) = 10"
      and "pass2_filter_adjust_write fl fmt (header # rows) pph (build_adjustment_intervals rs)
             sd ed = (out, Inr n)"
      and "find_columns header = Inr cols"
      and "sorted (map (\<lambda>row. row ! ts_idx cols) (filter (kept cols pph sd ed) rows))"
      and "k < length (filter (kept cols pph sd ed) rows)"
      and "bar = filter (kept cols pph sd ed) rows ! k"
      and "adjust_lt_row fl pint lrs lt_row = Inr written_lt"
      and "lt_row ''unix_timestamp'' = Some u" and "pint u = Some ts_ms"
      and "\<forall>r \<in> set lrs. (bar ! ts_idx cols < date r @ ''T00:00:00.000000000Z'')
                        \<longleftrightarrow> (ts_ms < switch_ms r)"
      and "i < length level_keys" and "lt_row (level_keys ! i) = Some s"
      and "fl s = Some (price fl bar (close_idx cols))"
  shows "compute_adjustment ts_ms lrs
           = adjustment_at (build_adjustment_intervals rs) (bar ! ts_idx cols)
       \<and> out ! (k + 1) ! 4 = fmt (adjusted_close fl cols (build_adjustment_intervals rs) bar)
       \<and> levels written_lt ! i
           = py_round (adjusted_close fl cols (build_adjustment_intervals rs) bar) 2"
proof -
  let ?iv = "build_adjustment_intervals rs"
  let ?K = "filter (kept cols pph sd ed) rows"
  have adj: "compute_adjustment ts_ms lrs = adjustment_at ?iv (bar ! ts_idx cols)"
    using assms(1,2,3,4,13) by (rule aux_adjustment_eq_engine)
  have srt: "sorted (map fst ?iv)"
    using assms(3,4) by (rule sorted_boundaries)
  from pass2_sorted_rows[OF assms(5,6) build_adjustment_intervals_nonempty srt assms(7)]
  have out: "out = output_header #
                  map (\<lambda>row. continuous_row fl fmt cols (adjustment_at ?iv (row ! ts_idx cols)) row) ?K"
    by auto
  with assms(8,9) have eng: "out ! (k + 1) ! 4 = fmt (adjusted_close fl cols ?iv bar)"
    by (simp add: continuous_row_def adjusted_close_def)
  from adjust_lt_row_Inr[OF assms(10)] assms(11,12)
  have "levels written_lt =
          map (\<lambda>key. py_round (the (Option.bind (lt_row key) fl) + compute_adjustment ts_ms lrs) 2)
            level_keys"
    by auto
  with assms(14,15,16) have "levels written_lt ! i
        = py_round (price fl bar (close_idx cols) + compute_adjustment ts_ms lrs) 2"
    by simp
  with adj have aux: "levels written_lt ! i = py_round (adjusted_close fl cols ?iv bar) 2"
    by (simp add: adjusted_close_def)
  from adj eng aux show ?thesis by simp
qed

lemma example_lt_load:
  "load_rollovers dec_float iso_midnight_ms example_log_rows = Inr example_lt_rollovers"
  by (simp add: load_rollovers_def load_lt_row_def example_log_rows_def example_lt_rollovers_def
        err_defs iso_midnight_ms_def days_from_civil_def dec_defs)

lemma example_lt_row:
  "adjust_lt_row dec_float dec_int example_lt_rollovers lt_row_close = Inr lt_out_close"
  by (simp add: adjust_lt_row_def level_keys_def lt_row_close_def lt_out_close_def
        example_lt_rollovers_def compute_adjustment_def err_defs dec_defs py_round_def
        round_half_even_def)

lemma example_lt_main:
  "lt_main dec_float dec_int iso_midnight_ms example_log_rows [lt_row_close] = Inr [lt_out_close]"
  by (simp add: lt_main_def example_lt_load example_lt_row bind_err_def)

theorem auxiliary_alignment_up_to_rounding_witness:
  "load_rollover_log dec_float example_log_rows = Inr example_rollovers
   \<and> load_rollovers dec_float iso_midnight_ms example_log_rows = Inr example_lt_rollovers
   \<and> pass2_filter_adjust_write dec_float fmt9 example_file example_pph
       (build_adjustment_intervals example_rollovers) None None = (example_output, Inr 3)
   \<and> filter (kept example_cols example_pph None None) (tl example_file) ! 0 = row_h4_before
   \<and> adjust_lt_row dec_float dec_int example_lt_rollovers lt_row_close = Inr lt_out_close
   \<and> lt_row_close ''unix_timestamp'' = Some ''1710460799000''
   \<and> dec_int ''1710460799000'' = Some 1710460799000
   \<and> list_all (\<lambda>r. (row_h4_before ! ts_idx example_cols < date r @ ''T00:00:00.000000000Z'')
                   \<longleftrightarrow> (1710460799000 < switch_ms r)) example_lt_rollovers
   \<and> lt_row_close (level_keys ! 0) = Some ''5200.25''
   \<and> dec_float ''5200.25'' = Some (price dec_float row_h4_before (close_idx example_cols))
   \<and> compute_adjustment 1710460799000 example_lt_rollovers
       = adjustment_at (build_adjustment_intervals example_rollovers)
           (row_h4_before ! ts_idx example_cols)
   \<and> example_output ! 1 ! 4
       = fmt9 (adjusted_close dec_float example_cols
                 (build_adjustment_intervals example_rollovers) row_h4_before)
   \<and> levels lt_out_close ! 0
       = py_round (adjusted_close dec_float example_cols
                     (build_adjustment_intervals example_rollovers) row_h4_before) 2"
proof -
  have run: "pass2_filter_adjust_write dec_float fmt9 (example_header # tl example_file)
     example_pph (build_adjustment_intervals example_rollovers) None None
     = (example_output, Inr 3)"
    using example_pass2 by (simp add: example_build example_file_def)
  have dates: "sorted (map date example_rollovers)"
    "\<forall>r \<in> set example_rollovers. length (date r) = 10"
    by (simp_all add: example_rollovers_def)
  have rows: "sorted (map (\<lambda>row. row ! ts_idx example_cols)
               (filter (kept example_cols example_pph None None) (tl example_file)))"
    by (simp add: example_kept example_cols_def example_defs)
  have k: "0 < length (filter (kept example_cols example_pph None None) (tl example_file))"
    "row_h4_before = filter (kept example_cols example_pph None None) (tl example_file) ! 0"
    by (simp_all add: example_kept)
  have u: "lt_row_close ''unix_timestamp'' = Some ''1710460799000''"
    by (simp add: lt_row_close_def)
  have ms: "dec_int ''1710460799000'' = Some 1710460799000"
    by (simp add: dec_defs)
  have inst: "\<forall>r \<in> set example_lt_rollovers.
      (row_h4_before ! ts_idx example_cols < date r @ ''T00:00:00.000000000Z'')
      \<longleftrightarrow> (1710460799000 < switch_ms r)"
    by (simp add: example_lt_rollovers_def example_cols_def row_h4_before_def)
  have i: "0 < length level_keys" "lt_row_close (level_keys ! 0) = Some ''5200.25''"
    by (simp_all add: level_keys_def lt_row_close_def)
  have s: "dec_float ''5200.25'' = Some (price dec_float row_h4_before (close_idx example_cols))"
    by (simp add: price_def example_cols_def row_h4_before_def dec_defs)
  note concl = auxiliary_alignment_up_to_rounding[OF example_load example_lt_load dates run
      example_columns rows k example_lt_row u ms inst i s]
  show ?thesis
    using concl example_load example_lt_load example_pass2 k(2) example_lt_row u ms inst i(2) s
    by (simp add: list_all_iff example_build)
qed

text \<open>
  In the example the first bar of ESH4 has the raw close 5200.25 and the adjustment
  \<open>- 56.125\<close>: pass 2 writes the close 5144.125, the adjuster writes the level 5144.12.
\<close>

theorem rounded_level_counterexample:
  "main dec_float fmt9 None None (Some example_file) (Some example_log_rows) None
     = (Inr 3, Some example_output)
   \<and> lt_main dec_float dec_int iso_midnight_ms example_log_rows [lt_row_close]
     = Inr [lt_out_close]
   \<and> example_file ! 1 ! 4 = ''5200.25'' \<and> lt_row_close ''level_1'' = Some ''5200.25''
   \<and> example_output ! 1 ! 4 = ''5144.125000000''
   \<and> dec_float (example_output ! 1 ! 4) = Some 5144.125
   \<and> levels lt_out_close ! 0 = 5144.12
   \<and> Some (levels lt_out_close ! 0) \<noteq> dec_float (example_output ! 1 ! 4)"
  using example_main example_lt_main
  by (simp add: example_output_def example_file_def row_h4_before_def lt_row_close_def
        lt_out_close_def dec_defs)

subsection \<open>Measuring the spread\<close>

lemma set_drop_duplicates_last:
  "ts_event ` set (drop_duplicates_last bs) = ts_event ` set bs"
  by (induction bs) auto

lemma distinct_drop_duplicates_last:
  "distinct (map ts_event (drop_duplicates_last bs))"
proof (induction bs)
  case Nil
  show ?case by simp
next
  case (Cons b bs)
  have "ts_event b \<notin> ts_event ` set bs \<Longrightarrow> ts_event b \<notin> ts_event ` set (drop_duplicates_last bs)"
    by (simp add: set_drop_duplicates_last)
  with Cons show ?case by auto
qed

lemma map_of_drop_duplicates_last:
  "map_of (map (\<lambda>b. (ts_event b, bar_close b)) (drop_duplicates_last bs)) t
   = (if t \<in> ts_event ` set bs
      then Some (bar_close (last (filter (\<lambda>b. ts_event b = t) bs)))
      else None)"
proof (induction bs)
  case Nil
  show ?case by simp
next
  case (Cons b bs)
  show ?case
  proof (cases "ts_event b \<in> ts_event ` set bs")
    case True
    show ?thesis
    proof (cases "t \<in> ts_event ` set bs")
      case t: True
      then have "filter (\<lambda>b. ts_event b = t) bs \<noteq> []"
        by (auto simp: filter_empty_conv)
      with True t Cons show ?thesis by auto
    next
      case False
      with True have "t \<noteq> ts_event b" by auto
      with True False Cons show ?thesis by auto
    qed
  next
    case False
    then have "filter (\<lambda>x. ts_event x = ts_event b) bs = []"
      by (auto simp: filter_empty_conv image_iff)
    with False Cons show ?thesis by auto
  qed
qed

lemma set_contract_closes:
  "set (map fst (contract_closes (rollover_window df r) c))
   = {t. day_start (ev_date r) - twelve_hours \<le> t \<and> t \<le> day_start (ev_date r) + twelve_hours
         \<and> (\<exists>b \<in> set df. bar_symbol b = c \<and> ts_event b = t)}"
proof -
  have "set (map fst (contract_closes (rollover_window df r) c))
        = ts_event ` set (drop_duplicates_last
            (filter (\<lambda>b. bar_symbol b = c) (rollover_window df r)))"
    by (simp add: contract_closes_def comp_def image_image)
  also have "\<dots> = ts_event ` set (filter (\<lambda>b. bar_symbol b = c) (rollover_window df r))"
    by (rule set_drop_duplicates_last)
  also have "\<dots> = {t. day_start (ev_date r) - twelve_hours \<le> t
                     \<and> t \<le> day_start (ev_date r) + twelve_hours
                     \<and> (\<exists>b \<in> set df. bar_symbol b = c \<and> ts_event b = t)}"
    by (auto simp: rollover_window_def Let_def)
  finally show ?thesis .
qed

lemma distinct_contract_closes: "distinct (map fst (contract_closes window c))"
  using distinct_drop_duplicates_last[of "filter (\<lambda>b. bar_symbol b = c) window"]
  by (simp add: contract_closes_def comp_def)

lemma lookup_contract_closes:
  assumes "day_start (ev_date r) - twelve_hours \<le> t" "t \<le> day_start (ev_date r) + twelve_hours"
      and "\<exists>b \<in> set df. bar_symbol b = c \<and> ts_event b = t"
  shows "the (map_of (contract_closes (rollover_window df r) c) t) = last_close df c t"
proof -
  let ?w = "filter (\<lambda>b. bar_symbol b = c) (rollover_window df r)"
  from assms have "t \<in> ts_event ` set ?w"
    by (auto simp: rollover_window_def Let_def)
  then have "map_of (contract_closes (rollover_window df r) c) t
             = Some (bar_close (last (filter (\<lambda>b. ts_event b = t) ?w)))"
    unfolding contract_closes_def by (simp only: map_of_drop_duplicates_last if_True)
  moreover have "filter (\<lambda>b. ts_event b = t) ?w
                 = filter (\<lambda>b. bar_symbol b = c \<and> ts_event b = t) df"
    using assms(1,2) by (induction df) (auto simp: rollover_window_def Let_def)
  ultimately show ?thesis
    by (simp only: last_close_def option.sel)
qed

lemma series_min_eq: "xs \<noteq> [] \<Longrightarrow> series_min xs = Min (set xs)"
  using Min.set_eq_fold[of "hd xs" "tl xs"] by (cases xs) (simp_all add: series_min_def)

lemma series_max_eq: "xs \<noteq> [] \<Longrightarrow> series_max xs = Max (set xs)"
  using Max.set_eq_fold[of "hd xs" "tl xs"] by (cases xs) (simp_all add: series_max_def)

lemma overlap_index_props:
  "distinct (overlap_index df r) \<and> set (overlap_index df r) = overlap_times df r"
proof -
  have "distinct (overlap_index df r)"
    by (simp add: overlap_index_def Let_def distinct_contract_closes del: map_map)
  moreover have "set (overlap_index df r) = overlap_times df r"
    unfolding overlap_index_def Let_def set_filter set_contract_closes overlap_times_def
    by auto
  ultimately show ?thesis by simp
qed

lemma overlap_spreads_eq:
  "overlap_spreads df r = map (spread_at df r) (overlap_index df r)"
  unfolding overlap_spreads_def Let_def
proof (rule map_cong[OF refl])
  fix t assume "t \<in> set (overlap_index df r)"
  then have "t \<in> overlap_times df r" using overlap_index_props by blast
  then have t: "day_start (ev_date r) - twelve_hours \<le> t" "t \<le> day_start (ev_date r) + twelve_hours"
    "\<exists>b \<in> set df. bar_symbol b = ev_from_symbol r \<and> ts_event b = t"
    "\<exists>b \<in> set df. bar_symbol b = ev_to_symbol r \<and> ts_event b = t"
    by (auto simp: overlap_times_def)
  show "the (map_of (contract_closes (rollover_window df r) (ev_to_symbol r)) t)
           - the (map_of (contract_closes (rollover_window df r) (ev_from_symbol r)) t)
        = spread_at df r t"
    by (simp only: lookup_contract_closes[OF t(1,2,3)] lookup_contract_closes[OF t(1,2,4)]
          spread_at_def)
qed

lemma rollover_spread_overlap:
  assumes "overlap_times df r \<noteq> {}"
  shows "rollover_spread df r =
           Inr \<lparr>ev_date = ev_date r, ev_from_symbol = ev_from_symbol r,
                ev_to_symbol = ev_to_symbol r,
                ev_spread = median (map (spread_at df r) (overlap_index df r)),
                overlap_bars = length (overlap_index df r),
                spread_min = Min (spread_at df r ` overlap_times df r),
                spread_max = Max (spread_at df r ` overlap_times df r)\<rparr>"
proof -
  from assms overlap_index_props[of df r] have ne: "overlap_index df r \<noteq> []"
    by auto
  then have ne': "map (spread_at df r) (overlap_index df r) \<noteq> []" by simp
  have img: "set (map (spread_at df r) (overlap_index df r)) = spread_at df r ` overlap_times df r"
    using overlap_index_props[of df r] by simp
  have "rollover_spread df r =
           Inr \<lparr>ev_date = ev_date r, ev_from_symbol = ev_from_symbol r,
                ev_to_symbol = ev_to_symbol r,
                ev_spread = median (map (spread_at df r) (overlap_index df r)),
                overlap_bars = length (overlap_index df r),
                spread_min = series_min (map (spread_at df r) (overlap_index df r)),
                spread_max = series_max (map (spread_at df r) (overlap_index df r))\<rparr>"
    using ne by (simp add: rollover_spread_def Let_def overlap_spreads_eq)
  then show ?thesis
    by (simp only: series_min_eq[OF ne'] series_max_eq[OF ne'] img)
qed

lemma rollover_spread_fallback:
  assumes "overlap_times df r = {}"
  shows "rollover_spread df r =
     (case filter (\<lambda>b. bar_symbol b = ev_from_symbol r \<and> ts_event b < day_start (ev_date r)) df of
        [] \<Rightarrow> Inl IndexError
      | old # olds \<Rightarrow>
          (case filter (\<lambda>b. bar_symbol b = ev_to_symbol r \<and> ts_event b \<ge> day_start (ev_date r)) df of
             [] \<Rightarrow> Inl IndexError
           | new # news \<Rightarrow>
               Inr \<lparr>ev_date = ev_date r, ev_from_symbol = ev_from_symbol r,
                    ev_to_symbol = ev_to_symbol r,
                    ev_spread = bar_close new - bar_close (last (old # olds)),
                    overlap_bars = 0,
                    spread_min = bar_close new - bar_close (last (old # olds)),
                    spread_max = bar_close new - bar_close (last (old # olds))\<rparr>))"
proof -
  from assms overlap_index_props[of df r] have "overlap_index df r = []"
    by auto
  then show ?thesis
    by (simp add: rollover_spread_def Let_def split: list.splits)
qed

text \<open>
  C6. When both contracts have a bar at some timestamp within twelve hours of the switch, the
  recorded spread is the median of the differences incoming close minus outgoing close over
  these timestamps, each taken once and with the last bar of a contract at a timestamp
  counting; the number of these timestamps and the least and the greatest difference are
  recorded with it. When there is no such timestamp, the recorded spread is the first close of
  the incoming contract at or after the switch minus the last close of the outgoing contract
  before the switch, in the order of the frame, recorded with the count 0 and with the spread
  as minimum and maximum.
\<close>

theorem rollover_spread_median_or_fallback:
  "(overlap_times df r \<noteq> {} \<longrightarrow>
      (\<exists>ts. distinct ts \<and> set ts = overlap_times df r \<and>
         rollover_spread df r =
           Inr \<lparr>ev_date = ev_date r, ev_from_symbol = ev_from_symbol r,
                ev_to_symbol = ev_to_symbol r,
                ev_spread = median (map (spread_at df r) ts),
                overlap_bars = card (overlap_times df r),
                spread_min = Min (spread_at df r ` overlap_times df r),
                spread_max = Max (spread_at df r ` overlap_times df r)\<rparr>))
   \<and> (overlap_times df r = {}
        \<and> filter (\<lambda>b. bar_symbol b = ev_from_symbol r \<and> ts_event b < day_start (ev_date r)) df
            = old # olds
        \<and> filter (\<lambda>b. bar_symbol b = ev_to_symbol r \<and> ts_event b \<ge> day_start (ev_date r)) df
            = new # news
        \<longrightarrow>
        rollover_spread df r =
          Inr \<lparr>ev_date = ev_date r, ev_from_symbol = ev_from_symbol r,
               ev_to_symbol = ev_to_symbol r,
               ev_spread = bar_close new - bar_close (last (old # olds)),
               overlap_bars = 0,
               spread_min = bar_close new - bar_close (last (old # olds)),
               spread_max = bar_close new - bar_close (last (old # olds))\<rparr>)"
proof (intro conjI impI)
  assume ne: "overlap_times df r \<noteq> {}"
  have "card (overlap_times df r) = length (overlap_index df r)"
    using overlap_index_props[of df r] distinct_card[of "overlap_index df r"] by simp
  with rollover_spread_overlap[OF ne] overlap_index_props[of df r]
  show "\<exists>ts. distinct ts \<and> set ts = overlap_times df r \<and>
         rollover_spread df r =
           Inr \<lparr>ev_date = ev_date r, ev_from_symbol = ev_from_symbol r,
                ev_to_symbol = ev_to_symbol r,
                ev_spread = median (map (spread_at df r) ts),
                overlap_bars = card (overlap_times df r),
                spread_min = Min (spread_at df r ` overlap_times df r),
                spread_max = Max (spread_at df r ` overlap_times df r)\<rparr>"
    by (intro exI[of _ "overlap_index df r"]) simp
next
  assume "overlap_times df r = {}
        \<and> filter (\<lambda>b. bar_symbol b = ev_from_symbol r \<and> ts_event b < day_start (ev_date r)) df
            = old # olds
        \<and> filter (\<lambda>b. bar_symbol b = ev_to_symbol r \<and> ts_event b \<ge> day_start (ev_date r)) df
            = new # news"
  then show "rollover_spread df r =
          Inr \<lparr>ev_date = ev_date r, ev_from_symbol = ev_from_symbol r,
               ev_to_symbol = ev_to_symbol r,
               ev_spread = bar_close new - bar_close (last (old # olds)),
               overlap_bars = 0,
               spread_min = bar_close new - bar_close (last (old # olds)),
               spread_max = bar_close new - bar_close (last (old # olds))\<rparr>"
    using rollover_spread_fallback[of df r] by simp
qed

lemmas spread_defs = rollover_window_def overlap_index_def overlap_spreads_def
  contract_closes_def day_start_def twelve_hours_def Let_def

lemma example_overlap_index:
  "overlap_index example_df example_event = [1710460740000000000, 1710460800000000000]"
  by (simp add: spread_defs example_df_def example_event_def)

lemma example_gap_index: "overlap_index example_gap_df example_event = []"
  by (simp add: spread_defs example_gap_df_def example_event_def)

lemma example_overlap_spreads: "overlap_spreads example_df example_event = [56, 56.25]"
  by (simp add: example_overlap_index overlap_spreads_def Let_def)
     (simp add: rollover_window_def contract_closes_def day_start_def twelve_hours_def
        example_df_def example_event_def)

lemma example_rollover_spread:
  "rollover_spread example_df example_event =
     Inr \<lparr>ev_date = 19797, ev_from_symbol = ''ESH4'', ev_to_symbol = ''ESM4'',
          ev_spread = 56.125, overlap_bars = 2, spread_min = 56, spread_max = 56.25\<rparr>"
  by (simp add: rollover_spread_def example_overlap_index example_overlap_spreads Let_def
        median_def series_min_def series_max_def)
     (simp add: example_event_def)

lemma example_gap_filters:
  "filter (\<lambda>b. bar_symbol b = ev_from_symbol example_event
               \<and> ts_event b < day_start (ev_date example_event)) example_gap_df
     = [example_gap_df ! 0]
   \<and> filter (\<lambda>b. bar_symbol b = ev_to_symbol example_event
               \<and> ts_event b \<ge> day_start (ev_date example_event)) example_gap_df
     = [example_gap_df ! 1]"
  by (simp add: example_gap_df_def example_event_def day_start_def)

theorem rollover_spread_median_or_fallback_witness:
  "overlap_times example_df example_event \<noteq> {}
   \<and> (\<exists>ts. distinct ts \<and> set ts = overlap_times example_df example_event
         \<and> ev_spread (projr (rollover_spread example_df example_event))
             = median (map (spread_at example_df example_event) ts))
   \<and> rollover_spread example_df example_event =
       Inr \<lparr>ev_date = 19797, ev_from_symbol = ''ESH4'', ev_to_symbol = ''ESM4'',
            ev_spread = 56.125, overlap_bars = 2, spread_min = 56, spread_max = 56.25\<rparr>
   \<and> compute_rollover_spreads example_df [example_event] = Inr example_measured
   \<and> overlap_times example_gap_df example_event = {}
   \<and> rollover_spread example_gap_df example_event =
       Inr \<lparr>ev_date = 19797, ev_from_symbol = ''ESH4'', ev_to_symbol = ''ESM4'',
            ev_spread = 56.75, overlap_bars = 0, spread_min = 56.75, spread_max = 56.75\<rparr>"
proof -
  have ne: "overlap_times example_df example_event \<noteq> {}"
    using overlap_index_props[of example_df example_event] example_overlap_index by auto
  have em: "overlap_times example_gap_df example_event = {}"
    using overlap_index_props[of example_gap_df example_event] example_gap_index by auto
  note inst1 = rollover_spread_median_or_fallback[of example_df example_event]
  from inst1 ne
  have "\<exists>ts. distinct ts \<and> set ts = overlap_times example_df example_event \<and>
         rollover_spread example_df example_event =
           Inr \<lparr>ev_date = ev_date example_event, ev_from_symbol = ev_from_symbol example_event,
                ev_to_symbol = ev_to_symbol example_event,
                ev_spread = median (map (spread_at example_df example_event) ts),
                overlap_bars = card (overlap_times example_df example_event),
                spread_min = Min (spread_at example_df example_event
                                    ` overlap_times example_df example_event),
                spread_max = Max (spread_at example_df example_event
                                    ` overlap_times example_df example_event)\<rparr>"
    by blast
  then have c1: "\<exists>ts. distinct ts \<and> set ts = overlap_times example_df example_event
         \<and> ev_spread (projr (rollover_spread example_df example_event))
             = median (map (spread_at example_df example_event) ts)"
    by auto
  note inst2 = rollover_spread_median_or_fallback[of example_gap_df example_event
      "example_gap_df ! 0" "[]" "example_gap_df ! 1" "[]"]
  from inst2 em example_gap_filters
  have "rollover_spread example_gap_df example_event =
          Inr \<lparr>ev_date = ev_date example_event, ev_from_symbol = ev_from_symbol example_event,
               ev_to_symbol = ev_to_symbol example_event,
               ev_spread = bar_close (example_gap_df ! 1) - bar_close (last [example_gap_df ! 0]),
               overlap_bars = 0,
               spread_min = bar_close (example_gap_df ! 1) - bar_close (last [example_gap_df ! 0]),
               spread_max = bar_close (example_gap_df ! 1) - bar_close (last [example_gap_df ! 0])\<rparr>"
    by blast
  then have c2: "rollover_spread example_gap_df example_event =
       Inr \<lparr>ev_date = 19797, ev_from_symbol = ''ESH4'', ev_to_symbol = ''ESM4'',
            ev_spread = 56.75, overlap_bars = 0, spread_min = 56.75, spread_max = 56.75\<rparr>"
    by (simp add: example_event_def example_gap_df_def)
  have c3: "compute_rollover_spreads example_df [example_event] = Inr example_measured"
    by (simp add: compute_rollover_spreads_def example_rollover_spread bind_err_def
          example_measured_def)
  show ?thesis
    by (intro conjI) (rule ne c1 example_rollover_spread c3 em c2)+
qed

subsection \<open>The continuous series of the in-memory builder\<close>

lemma set_drop_duplicates_last_subset: "set (drop_duplicates_last bs) \<subseteq> set bs"
  by (induction bs) auto

lemma set_active_bars: "set (active_bars df periods) \<subseteq> set df"
  using set_drop_duplicates_last_subset[of "filter (\<lambda>b. list_ex (\<lambda>p. period_mask p b) periods) df"]
  by (auto simp: active_bars_def)

lemma active_bars_period:
  assumes "b \<in> set (active_bars df periods)"
  shows "\<exists>p \<in> set periods. period_mask p b"
  using assms
    set_drop_duplicates_last_subset[of "filter (\<lambda>b. list_ex (\<lambda>p. period_mask p b) periods) df"]
  by (auto simp: active_bars_def list_ex_iff)

lemma build_continuous_series_Inr:
  assumes "build_continuous_series df rollovers daily_primary = Inr series"
  shows "\<exists>first_contract.
           first_contract_of rollovers daily_primary = Inr first_contract
         \<and> series = back_adjust rollovers
                      (active_bars df (contract_periods df rollovers first_contract))"
  using assms
  by (auto simp: build_continuous_series_def bind_err_def Let_def split: sum.splits)

lemma recurring_detect: "detect_true_rollovers recurring_primary = Inr recurring_events"
  by (simp add: detect_true_rollovers_def detect_step_def recurring_primary_def
        recurring_events_def roll_to_m4_def roll_back_to_h4_def Let_def
        upt_rec[of _ "Suc _"] upt_rec[of 1] del: upt_Suc)

lemma recurring_overlap_index:
  "overlap_index recurring_df roll_to_m4 = [1710460740000000000]"
  "overlap_index recurring_df roll_back_to_h4 = [1710633540000000000]"
  by (simp_all add: spread_defs recurring_df_def roll_to_m4_def roll_back_to_h4_def)

lemma recurring_overlap_spreads:
  "overlap_spreads recurring_df roll_to_m4 = [56.125]"
  "overlap_spreads recurring_df roll_back_to_h4 = [- 55.5]"
  by (simp_all add: recurring_overlap_index overlap_spreads_def Let_def)
     (simp_all add: rollover_window_def contract_closes_def day_start_def twelve_hours_def
        recurring_df_def roll_to_m4_def roll_back_to_h4_def)

lemma recurring_spreads:
  "compute_rollover_spreads recurring_df recurring_events = Inr recurring_rollovers"
proof -
  have r0: "rollover_spread recurring_df roll_to_m4 = Inr (recurring_rollovers ! 0)"
    by (simp add: rollover_spread_def recurring_overlap_index recurring_overlap_spreads Let_def
          median_def series_min_def series_max_def)
       (simp add: roll_to_m4_def recurring_rollovers_def)
  have r1: "rollover_spread recurring_df roll_back_to_h4 = Inr (recurring_rollovers ! 1)"
    by (simp add: rollover_spread_def recurring_overlap_index recurring_overlap_spreads Let_def
          median_def series_min_def series_max_def)
       (simp add: roll_back_to_h4_def recurring_rollovers_def)
  show ?thesis
    by (simp add: compute_rollover_spreads_def recurring_events_def r0 r1 bind_err_def)
       (simp add: recurring_rollovers_def)
qed

lemma recurring_periods:
  "contract_periods recurring_df recurring_rollovers ''ESH4'' =
     [\<lparr>period_start = Some 1710288000000000000, period_end = Some 1710460800000000000,
       period_symbol = ''ESH4''\<rparr>,
      \<lparr>period_start = Some 1710460800000000000, period_end = Some 1710633600000000000,
       period_symbol = ''ESM4''\<rparr>,
      \<lparr>period_start = Some 1710633600000000000, period_end = Some 1710806460000000000,
       period_symbol = ''ESH4''\<rparr>]"
  by (simp add: contract_periods_def period_step_def frame_min_def frame_max_def one_minute_def
        find_rollover_minute_def day_start_def recurring_df_def recurring_rollovers_def)

lemma recurring_first_contract:
  "first_contract_of recurring_rollovers recurring_primary = Inr ''ESH4''"
  by (simp add: first_contract_of_def recurring_rollovers_def)

lemma recurring_masked:
  "filter (\<lambda>b. list_ex (\<lambda>p. period_mask p b)
                  (contract_periods recurring_df recurring_rollovers ''ESH4'')) recurring_df
   = recurring_kept"
  by (simp only: recurring_periods)
     (simp add: period_mask_def recurring_df_def recurring_kept_def)

lemma recurring_sorted:
  "sort_key ts_event (drop_duplicates_last recurring_kept) = recurring_kept"
  by (simp add: recurring_kept_def recurring_df_def)

lemma recurring_active:
  "active_bars recurring_df (contract_periods recurring_df recurring_rollovers ''ESH4'')
   = recurring_kept"
  by (simp only: active_bars_def recurring_masked recurring_sorted)

lemma recurring_adjusted: "back_adjust recurring_rollovers recurring_kept = recurring_output"
  by (simp add: back_adjust_def recurring_rollovers_def find_rollover_minute_def
        day_start_def subtract_spread_def recurring_output_def recurring_kept_def
        recurring_df_def)

lemma recurring_build:
  "build_continuous_series recurring_df recurring_rollovers recurring_primary
   = Inr recurring_output"
  by (simp add: build_continuous_series_def recurring_first_contract bind_err_def Let_def
        recurring_active recurring_adjusted)

lemma span_pass1: "pass1_primary_contracts dec_float span_file None None = Inr span_pph"
  apply (simp add: pass1_primary_contracts_def span_file_def example_defs col_idx_def
        enumerate_eq_zip err_defs upt_rec[of 0] upt_rec[of "Suc _"] del: upt_Suc)
  apply (simp add: pass1_row_def pass_defs err_defs dec_defs span_pph_def row_m4_later_def)
  done

lemma span_pass2:
  "pass2_filter_adjust_write dec_float fmt9 span_file span_pph example_intervals None None
   = (span_output, Inr 3)"
  apply (simp add: pass2_filter_adjust_write_def span_file_def example_columns)
  apply (simp add: pass2_row_def pass_defs err_defs span_pph_def example_defs row_m4_later_def
        example_cols_def example_intervals_def advance.simps adjusted_row_def dec_defs
        span_output_def output_header_def)
  apply (simp add: fmt_defs)
  done

lemma span_kept:
  "filter (kept example_cols span_pph None None) (tl span_file)
   = [row_h4_before, row_m4_after, row_m4_later]"
  by (simp add: kept_def passes_date_filter_def pass_defs span_file_def example_defs
        row_m4_later_def example_cols_def span_pph_def)

subsection \<open>Return preservation\<close>

text \<open>
  C1, as amended. Within a span between two consecutive rollover boundaries the adjustment is
  one constant. For a log ordered by date (dates of ten characters) and a source whose kept
  rows are in timestamp order, the close that pass 2 writes for a kept bar is the rendering of
  \<open>adjusted_close\<close>, its raw close plus the adjustment at its timestamp; and for any two
  bars with no rollover boundary between their timestamps, two bars of one contract within its
  span among them, the difference of the adjusted closes is exactly the difference of the raw
  closes. The same holds for the back-adjustment of the in-memory builder, on any frame and
  on the frame of the bars of the active contracts that \<open>build_continuous_series\<close> keeps
  from its input.
\<close>

theorem returns_preserved_between_rollovers:
  "(pass2_filter_adjust_write fl fmt (header # rows) pph (build_adjustment_intervals rs) sd ed
       = (out, res)
     \<and> find_columns header = Inr cols
     \<and> sorted (map date rs) \<and> (\<forall>r \<in> set rs. length (date r) = 10)
     \<and> sorted (map (\<lambda>row. row ! ts_idx cols) (filter (kept cols pph sd ed) rows))
     \<longrightarrow>
     (\<exists>done rest.
         rows = done @ rest \<and> (\<forall>n. res = Inr n \<longrightarrow> rest = []) \<and>
         length out = length (filter (kept cols pph sd ed) done) + 1 \<and>
         (\<forall>k < length (filter (kept cols pph sd ed) done).
            out ! (k + 1) ! 4
              = fmt (adjusted_close fl cols (build_adjustment_intervals rs)
                       (filter (kept cols pph sd ed) done ! k))
          \<and> out ! (k + 1) ! 7 = filter (kept cols pph sd ed) done ! k ! sym_idx cols))
     \<and> (\<forall>a b.
           (\<forall>r \<in> set rs. (a ! ts_idx cols < date r @ ''T00:00:00.000000000Z'')
                       \<longleftrightarrow> (b ! ts_idx cols < date r @ ''T00:00:00.000000000Z''))
           \<longrightarrow> adjusted_close fl cols (build_adjustment_intervals rs) b
                 - adjusted_close fl cols (build_adjustment_intervals rs) a
               = price fl b (close_idx cols) - price fl a (close_idx cols)))
   \<and> (\<forall>i j. i < length bars \<and> j < length bars
          \<and> (\<forall>r \<in> set rollovers. (ts_event (bars ! i) < find_rollover_minute r)
                               \<longleftrightarrow> (ts_event (bars ! j) < find_rollover_minute r))
          \<longrightarrow> bar_close (back_adjust rollovers bars ! j) - bar_close (back_adjust rollovers bars ! i)
              = bar_close (bars ! j) - bar_close (bars ! i))
   \<and> (\<forall>series.
         build_continuous_series df rollovers daily_primary = Inr series
         \<longrightarrow> (\<exists>first_contract kept_bars.
                first_contract_of rollovers daily_primary = Inr first_contract
              \<and> kept_bars = active_bars df (contract_periods df rollovers first_contract)
              \<and> set kept_bars \<subseteq> set df
              \<and> length series = length kept_bars
              \<and> (\<forall>i < length kept_bars.
                    ts_event (series ! i) = ts_event (kept_bars ! i)
                  \<and> bar_symbol (series ! i) = bar_symbol (kept_bars ! i))
              \<and> (\<forall>i j. i < length kept_bars \<and> j < length kept_bars
                    \<and> (\<forall>r \<in> set rollovers.
                           (ts_event (kept_bars ! i) < find_rollover_minute r)
                           \<longleftrightarrow> (ts_event (kept_bars ! j) < find_rollover_minute r))
                    \<longrightarrow> bar_close (series ! j) - bar_close (series ! i)
                        = bar_close (kept_bars ! j) - bar_close (kept_bars ! i))))"
proof (intro conjI impI allI)
  assume h: "pass2_filter_adjust_write fl fmt (header # rows) pph (build_adjustment_intervals rs) sd ed
       = (out, res)
     \<and> find_columns header = Inr cols
     \<and> sorted (map date rs) \<and> (\<forall>r \<in> set rs. length (date r) = 10)
     \<and> sorted (map (\<lambda>row. row ! ts_idx cols) (filter (kept cols pph sd ed) rows))"
  let ?iv = "build_adjustment_intervals rs"
  from h have srt: "sorted (map fst ?iv)"
    by (intro sorted_boundaries) auto
  from pass2_sorted_rows[of fl fmt header rows pph ?iv sd ed out res cols] h srt
    build_adjustment_intervals_nonempty[of rs]
  obtain d rest where *:
    "rows = d @ rest"
    "(case res of
               Inr n \<Rightarrow> rest = [] \<and> n = length (filter (kept cols pph sd ed) d)
             | Inl e \<Rightarrow> rest \<noteq> [] \<and>
                 (\<exists>st. pass2_row fl fmt cols pph ?iv sd ed (hd rest) st = Inl e))"
    "out = output_header #
                  map (\<lambda>row. continuous_row fl fmt cols
                                (adjustment_at ?iv (row ! ts_idx cols)) row)
                    (filter (kept cols pph sd ed) d)"
    by blast
  show "\<exists>done rest.
         rows = done @ rest \<and> (\<forall>n. res = Inr n \<longrightarrow> rest = []) \<and>
         length out = length (filter (kept cols pph sd ed) done) + 1 \<and>
         (\<forall>k < length (filter (kept cols pph sd ed) done).
            out ! (k + 1) ! 4
              = fmt (adjusted_close fl cols ?iv (filter (kept cols pph sd ed) done ! k))
          \<and> out ! (k + 1) ! 7 = filter (kept cols pph sd ed) done ! k ! sym_idx cols)"
    using *
    by (intro exI[of _ d] exI[of _ rest])
       (auto simp: continuous_row_def adjusted_close_def)
next
  fix a b
  assume h: "pass2_filter_adjust_write fl fmt (header # rows) pph (build_adjustment_intervals rs) sd ed
       = (out, res)
     \<and> find_columns header = Inr cols
     \<and> sorted (map date rs) \<and> (\<forall>r \<in> set rs. length (date r) = 10)
     \<and> sorted (map (\<lambda>row. row ! ts_idx cols) (filter (kept cols pph sd ed) rows))"
    and span: "\<forall>r \<in> set rs. (a ! ts_idx cols < date r @ ''T00:00:00.000000000Z'')
                       \<longleftrightarrow> (b ! ts_idx cols < date r @ ''T00:00:00.000000000Z'')"
  from h span have "adjustment_at (build_adjustment_intervals rs) (a ! ts_idx cols)
        = adjustment_at (build_adjustment_intervals rs) (b ! ts_idx cols)"
    by (intro adjustment_at_same_span) auto
  then show "adjusted_close fl cols (build_adjustment_intervals rs) b
                 - adjusted_close fl cols (build_adjustment_intervals rs) a
               = price fl b (close_idx cols) - price fl a (close_idx cols)"
    by (simp add: adjusted_close_def)
next
  fix i j
  assume h: "i < length bars \<and> j < length bars
          \<and> (\<forall>r \<in> set rollovers. (ts_event (bars ! i) < find_rollover_minute r)
                               \<longleftrightarrow> (ts_event (bars ! j) < find_rollover_minute r))"
  then have "batch_adjustment rollovers (ts_event (bars ! i))
             = batch_adjustment rollovers (ts_event (bars ! j))"
    by (intro batch_adjustment_same_span) auto
  with h back_adjust_nth[of i bars rollovers] back_adjust_nth[of j bars rollovers]
  show "bar_close (back_adjust rollovers bars ! j) - bar_close (back_adjust rollovers bars ! i)
              = bar_close (bars ! j) - bar_close (bars ! i)"
    by simp
next
  fix series
  assume b: "build_continuous_series df rollovers daily_primary = Inr series"
  from build_continuous_series_Inr[OF b] obtain first_contract where fc:
    "first_contract_of rollovers daily_primary = Inr first_contract"
    "series = back_adjust rollovers
                (active_bars df (contract_periods df rollovers first_contract))"
    by blast
  let ?kept = "active_bars df (contract_periods df rollovers first_contract)"
  have sub: "set ?kept \<subseteq> set df"
    by (rule set_active_bars)
  have len: "length series = length ?kept"
    by (simp add: fc(2) length_back_adjust)
  have same: "\<forall>i < length ?kept.
                ts_event (series ! i) = ts_event (?kept ! i)
              \<and> bar_symbol (series ! i) = bar_symbol (?kept ! i)"
    using back_adjust_nth[of _ ?kept rollovers] by (simp add: fc(2))
  have diff: "\<forall>i j. i < length ?kept \<and> j < length ?kept
                \<and> (\<forall>r \<in> set rollovers.
                       (ts_event (?kept ! i) < find_rollover_minute r)
                       \<longleftrightarrow> (ts_event (?kept ! j) < find_rollover_minute r))
                \<longrightarrow> bar_close (series ! j) - bar_close (series ! i)
                    = bar_close (?kept ! j) - bar_close (?kept ! i)"
  proof (intro allI impI)
    fix i j
    assume h: "i < length ?kept \<and> j < length ?kept
                \<and> (\<forall>r \<in> set rollovers.
                       (ts_event (?kept ! i) < find_rollover_minute r)
                       \<longleftrightarrow> (ts_event (?kept ! j) < find_rollover_minute r))"
    then have "batch_adjustment rollovers (ts_event (?kept ! i))
               = batch_adjustment rollovers (ts_event (?kept ! j))"
      by (intro batch_adjustment_same_span) auto
    with h back_adjust_nth[of i ?kept rollovers] back_adjust_nth[of j ?kept rollovers]
    show "bar_close (series ! j) - bar_close (series ! i)
          = bar_close (?kept ! j) - bar_close (?kept ! i)"
      by (simp add: fc(2))
  qed
  show "\<exists>first_contract kept_bars.
                first_contract_of rollovers daily_primary = Inr first_contract
              \<and> kept_bars = active_bars df (contract_periods df rollovers first_contract)
              \<and> set kept_bars \<subseteq> set df
              \<and> length series = length kept_bars
              \<and> (\<forall>i < length kept_bars.
                    ts_event (series ! i) = ts_event (kept_bars ! i)
                  \<and> bar_symbol (series ! i) = bar_symbol (kept_bars ! i))
              \<and> (\<forall>i j. i < length kept_bars \<and> j < length kept_bars
                    \<and> (\<forall>r \<in> set rollovers.
                           (ts_event (kept_bars ! i) < find_rollover_minute r)
                           \<longleftrightarrow> (ts_event (kept_bars ! j) < find_rollover_minute r))
                    \<longrightarrow> bar_close (series ! j) - bar_close (series ! i)
                        = bar_close (kept_bars ! j) - bar_close (kept_bars ! i))"
    using fc(1) sub len same diff
    by (intro exI[of _ first_contract] exI[of _ ?kept] conjI) (rule refl | assumption)+
qed

theorem returns_preserved_between_rollovers_witness:
  "pass2_filter_adjust_write dec_float fmt9 span_file span_pph
     (build_adjustment_intervals example_rollovers) None None = (span_output, Inr 3)
   \<and> find_columns example_header = Inr example_cols
   \<and> sorted (map date example_rollovers)
   \<and> list_all (\<lambda>r. length (date r) = 10) example_rollovers
   \<and> sorted (map (\<lambda>row. row ! ts_idx example_cols)
               (filter (kept example_cols span_pph None None) (tl span_file)))
   \<and> row_m4_after ! sym_idx example_cols = ''ESM4''
   \<and> row_m4_later ! sym_idx example_cols = ''ESM4''
   \<and> list_all (\<lambda>r. (row_m4_after ! ts_idx example_cols < date r @ ''T00:00:00.000000000Z'')
                   \<longleftrightarrow> (row_m4_later ! ts_idx example_cols < date r @ ''T00:00:00.000000000Z''))
        example_rollovers
   \<and> adjusted_close dec_float example_cols (build_adjustment_intervals example_rollovers)
         row_m4_later
       - adjusted_close dec_float example_cols (build_adjustment_intervals example_rollovers)
           row_m4_after
       = price dec_float row_m4_later (close_idx example_cols)
         - price dec_float row_m4_after (close_idx example_cols)
   \<and> 1 < length example_bars \<and> 2 < length example_bars
   \<and> list_all (\<lambda>r. (ts_event (example_bars ! 1) < find_rollover_minute r)
                   \<longleftrightarrow> (ts_event (example_bars ! 2) < find_rollover_minute r)) example_measured
   \<and> bar_close (back_adjust example_measured example_bars ! 2)
       - bar_close (back_adjust example_measured example_bars ! 1)
       = bar_close (example_bars ! 2) - bar_close (example_bars ! 1)
   \<and> build_continuous_series recurring_df recurring_rollovers recurring_primary
       = Inr recurring_output
   \<and> 0 < length recurring_kept \<and> 1 < length recurring_kept
   \<and> bar_symbol (recurring_output ! 0) = ''ESH4'' \<and> bar_symbol (recurring_output ! 1) = ''ESH4''
   \<and> list_all (\<lambda>r. (ts_event (recurring_kept ! 0) < find_rollover_minute r)
                   \<longleftrightarrow> (ts_event (recurring_kept ! 1) < find_rollover_minute r))
        recurring_rollovers
   \<and> bar_close (recurring_output ! 1) - bar_close (recurring_output ! 0)
       = bar_close (recurring_kept ! 1) - bar_close (recurring_kept ! 0)"
proof -
  have run: "pass2_filter_adjust_write dec_float fmt9 (example_header # tl span_file)
     span_pph (build_adjustment_intervals example_rollovers) None None
     = (span_output, Inr 3)"
    using span_pass2 by (simp add: example_build span_file_def)
  have dates: "sorted (map date example_rollovers)"
    "\<forall>r \<in> set example_rollovers. length (date r) = 10"
    by (simp_all add: example_rollovers_def)
  have rows: "sorted (map (\<lambda>row. row ! ts_idx example_cols)
               (filter (kept example_cols span_pph None None) (tl span_file)))"
    by (simp only: span_kept) (simp add: example_cols_def example_defs row_m4_later_def)
  have syms: "row_m4_after ! sym_idx example_cols = ''ESM4''"
    "row_m4_later ! sym_idx example_cols = ''ESM4''"
    by (simp_all add: example_cols_def row_m4_after_def row_m4_later_def)
  have span: "\<forall>r \<in> set example_rollovers.
       (row_m4_after ! ts_idx example_cols < date r @ ''T00:00:00.000000000Z'')
       \<longleftrightarrow> (row_m4_later ! ts_idx example_cols < date r @ ''T00:00:00.000000000Z'')"
    by (simp add: example_rollovers_def example_cols_def example_defs row_m4_later_def)
  have len: "1 < length example_bars" "2 < length example_bars"
    by (simp_all add: example_bars_def)
  have bspan: "\<forall>r \<in> set example_measured.
       (ts_event (example_bars ! 1) < find_rollover_minute r)
       \<longleftrightarrow> (ts_event (example_bars ! 2) < find_rollover_minute r)"
    by (simp add: example_measured_def example_bars_def find_rollover_minute_def day_start_def)
  have klen: "0 < length recurring_kept" "1 < length recurring_kept"
    by (simp_all add: recurring_kept_def)
  have ksyms: "bar_symbol (recurring_output ! 0) = ''ESH4''"
    "bar_symbol (recurring_output ! 1) = ''ESH4''"
    by (simp_all add: recurring_output_def)
  have kspan: "\<forall>r \<in> set recurring_rollovers.
       (ts_event (recurring_kept ! 0) < find_rollover_minute r)
       \<longleftrightarrow> (ts_event (recurring_kept ! 1) < find_rollover_minute r)"
    by (simp add: recurring_rollovers_def recurring_kept_def recurring_df_def
          find_rollover_minute_def day_start_def)
  note inst = returns_preserved_between_rollovers[of dec_float fmt9 example_header
      "tl span_file" span_pph example_rollovers None None span_output "Inr 3"
      example_cols example_bars example_measured]
  note series = returns_preserved_between_rollovers[of dec_float fmt9 example_header
      "tl span_file" span_pph example_rollovers None None span_output "Inr 3"
      example_cols example_bars recurring_rollovers recurring_df recurring_primary]
  from inst[THEN conjunct1] run example_columns dates rows span
  have c1: "adjusted_close dec_float example_cols (build_adjustment_intervals example_rollovers)
         row_m4_later
       - adjusted_close dec_float example_cols (build_adjustment_intervals example_rollovers)
           row_m4_after
       = price dec_float row_m4_later (close_idx example_cols)
         - price dec_float row_m4_after (close_idx example_cols)"
    by blast
  from inst[THEN conjunct2, THEN conjunct1] len bspan
  have c2: "bar_close (back_adjust example_measured example_bars ! 2)
       - bar_close (back_adjust example_measured example_bars ! 1)
       = bar_close (example_bars ! 2) - bar_close (example_bars ! 1)"
    by blast
  from series[THEN conjunct2, THEN conjunct2, rule_format, OF recurring_build]
  obtain first_contract kept_bars where k:
    "first_contract_of recurring_rollovers recurring_primary = Inr first_contract"
    "kept_bars = active_bars recurring_df
                   (contract_periods recurring_df recurring_rollovers first_contract)"
    "\<forall>i j. i < length kept_bars \<and> j < length kept_bars
         \<and> (\<forall>r \<in> set recurring_rollovers.
                (ts_event (kept_bars ! i) < find_rollover_minute r)
                \<longleftrightarrow> (ts_event (kept_bars ! j) < find_rollover_minute r))
         \<longrightarrow> bar_close (recurring_output ! j) - bar_close (recurring_output ! i)
             = bar_close (kept_bars ! j) - bar_close (kept_bars ! i)"
    by blast
  from k(1) have "first_contract = ''ESH4''"
    by (simp add: recurring_first_contract)
  with k(2) have "kept_bars = recurring_kept"
    by (simp only: recurring_active)
  with k(3) klen kspan
  have c3: "bar_close (recurring_output ! 1) - bar_close (recurring_output ! 0)
       = bar_close (recurring_kept ! 1) - bar_close (recurring_kept ! 0)"
    by blast
  have l1: "list_all (\<lambda>r. length (date r) = 10) example_rollovers"
    using dates(2) by (simp add: list_all_iff)
  have l2: "list_all (\<lambda>r. (row_m4_after ! ts_idx example_cols < date r @ ''T00:00:00.000000000Z'')
                   \<longleftrightarrow> (row_m4_later ! ts_idx example_cols < date r @ ''T00:00:00.000000000Z''))
        example_rollovers"
    using span by (simp add: list_all_iff)
  have l3: "list_all (\<lambda>r. (ts_event (example_bars ! 1) < find_rollover_minute r)
                   \<longleftrightarrow> (ts_event (example_bars ! 2) < find_rollover_minute r)) example_measured"
    using bspan by (simp add: list_all_iff)
  have l4: "list_all (\<lambda>r. (ts_event (recurring_kept ! 0) < find_rollover_minute r)
                   \<longleftrightarrow> (ts_event (recurring_kept ! 1) < find_rollover_minute r))
        recurring_rollovers"
    using kspan by (simp add: list_all_iff)
  have run': "pass2_filter_adjust_write dec_float fmt9 span_file span_pph
     (build_adjustment_intervals example_rollovers) None None = (span_output, Inr 3)"
    using span_pass2 by (simp add: example_build)
  show ?thesis
    by (intro conjI)
       (rule run' example_columns dates(1) l1 rows syms l2 c1 len l3 c2 recurring_build klen
          ksyms l4 c3)+
qed

text \<open>
  The claim as it is written fails in the in-memory builder where a contract is active in two
  periods. In the frame of seven days the daily primaries are ESH4, ESH4, ESM4, ESM4, ESH4,
  ESH4, ESH4: the detector finds the rollover to ESM4 and the rollover back to ESH4, their
  spreads are measured as 56.125 and -55.5, and bars of ESH4 are kept before the first switch
  and after the second. The bar of ESH4 before the first switch is shifted by both spreads
  and the bar after the second by none: their raw closes differ by 4.75 and their closes in
  the continuous series by 5.375.
\<close>

theorem recurring_contract_counterexample:
  "detect_true_rollovers recurring_primary = Inr recurring_events
   \<and> compute_rollover_spreads recurring_df recurring_events = Inr recurring_rollovers
   \<and> build_continuous_series recurring_df recurring_rollovers recurring_primary
       = Inr recurring_output
   \<and> bar_symbol (recurring_output ! 1) = ''ESH4'' \<and> bar_symbol (recurring_output ! 4) = ''ESH4''
   \<and> ts_event (recurring_output ! 1) = ts_event (recurring_df ! 1)
   \<and> bar_symbol (recurring_df ! 1) = ''ESH4''
   \<and> ts_event (recurring_output ! 4) = ts_event (recurring_df ! 6)
   \<and> bar_symbol (recurring_df ! 6) = ''ESH4''
   \<and> bar_close (recurring_df ! 6) - bar_close (recurring_df ! 1) = 4.75
   \<and> bar_close (recurring_output ! 4) - bar_close (recurring_output ! 1) = 5.375
   \<and> bar_close (recurring_output ! 4) - bar_close (recurring_output ! 1)
       \<noteq> bar_close (recurring_df ! 6) - bar_close (recurring_df ! 1)"
  using recurring_detect recurring_spreads recurring_build
  by (simp add: recurring_output_def recurring_df_def)

subsection \<open>The outgoing contract after the switch\<close>

text \<open>
  In the example file ESH4 is still the primary contract of the first hour of the day of the
  rollover. The streaming builder writes the bar of ESH4 at 00:00:00, on the other side of the
  boundary from the bar of ESH4 at 23:59:59: the raw closes of the two differ by 0.25 and the
  closes written for them by 56.375.
\<close>

lemma streaming_builder_keeps_outgoing_contract:
  "main dec_float fmt9 None None (Some example_file) (Some example_log_rows) None
     = (Inr 3, Some example_output)
   \<and> example_output ! 1 ! 7 = ''ESH4'' \<and> example_output ! 2 ! 7 = ''ESH4''
   \<and> example_output ! 1 ! 4 = fmt9 (adjusted_close dec_float example_cols example_intervals row_h4_before)
   \<and> example_output ! 2 ! 4 = fmt9 (adjusted_close dec_float example_cols example_intervals row_h4_after)
   \<and> adjusted_close dec_float example_cols example_intervals row_h4_after
       - adjusted_close dec_float example_cols example_intervals row_h4_before = 56.375
   \<and> price dec_float row_h4_after (close_idx example_cols)
       - price dec_float row_h4_before (close_idx example_cols) = 0.25"
proof -
  have a: "adjusted_close dec_float example_cols example_intervals row_h4_before = 5144.125"
    by (simp add: adjusted_close_def price_def adjustment_at_def advance.simps
          example_cols_def example_intervals_def row_h4_before_def dec_defs)
  have b: "adjusted_close dec_float example_cols example_intervals row_h4_after = 5200.5"
    by (simp add: adjusted_close_def price_def adjustment_at_def advance.simps
          example_cols_def example_intervals_def row_h4_after_def dec_defs)
  have pa: "price dec_float row_h4_before (close_idx example_cols) = 5200.25"
    by (simp add: price_def example_cols_def row_h4_before_def dec_defs)
  have pb: "price dec_float row_h4_after (close_idx example_cols) = 5200.5"
    by (simp add: price_def example_cols_def row_h4_after_def dec_defs)
  have fa: "fmt9 5144.125 = ''5144.125000000''" by (simp add: fmt_defs)
  have fb: "fmt9 5200.5 = ''5200.500000000''" by (simp add: fmt_defs)
  show ?thesis
    unfolding a b pa pb fa fb using example_main
    by (simp add: example_output_def)
qed

text \<open>
  The in-memory builder, on the same bars and with the same rollover, keeps from the switch on
  the bars of ESM4 only: the bar of ESH4 at 00:00:00 is not in its continuous series.
\<close>

lemma in_memory_builder_drops_outgoing_contract:
  "build_continuous_series example_frame example_measured daily_primary =
     Inr [\<lparr>ts_event = 1710460799000000000, bar_open = 5143.875, bar_high = 5144.375,
            bar_low = 5143.625, bar_close = 5144.125, bar_volume = 12, bar_symbol = ''ESH4''\<rparr>,
          \<lparr>ts_event = 1710464400000000000, bar_open = 5257, bar_high = 5257.25,
            bar_low = 5256.75, bar_close = 5257, bar_volume = 20, bar_symbol = ''ESM4''\<rparr>]"
proof -
  have fc: "first_contract_of example_measured daily_primary = Inr ''ESH4''"
    by (simp add: first_contract_of_def example_measured_def)
  have periods: "contract_periods example_frame example_measured ''ESH4'' =
     [\<lparr>period_start = Some 1710460799000000000, period_end = Some 1710460800000000000,
       period_symbol = ''ESH4''\<rparr>,
      \<lparr>period_start = Some 1710460800000000000, period_end = Some 1710464460000000000,
       period_symbol = ''ESM4''\<rparr>]"
    by (simp add: contract_periods_def period_step_def frame_min_def frame_max_def
          one_minute_def find_rollover_minute_def day_start_def example_frame_def
          example_measured_def)
  have active: "active_bars example_frame (contract_periods example_frame example_measured ''ESH4'')
                = [example_frame ! 0, example_frame ! 3]"
    by (simp only: periods) (simp add: active_bars_def period_mask_def example_frame_def)
  show ?thesis
    by (simp add: build_continuous_series_def fc bind_err_def Let_def active)
       (simp add: back_adjust_def example_measured_def find_rollover_minute_def day_start_def
          subtract_spread_def example_frame_def)
qed

end
